theory Spec2Isabelle
  imports Complex_Main "HOL-Library.Multiset" "HOL-Library.Log_Nat"
begin

section \<open>JavaScript values used by the recruiting pipeline\<close>

text \<open>
  A JavaScript \<open>number\<close> is either finite or one of \<open>NaN\<close>, \<open>Infinity\<close>, \<open>-Infinity\<close>.
  A finite number is given by a rational. Where the source only compares, counts or
  truncates, the rational is the number itself. The scorer multiplies, adds and divides:
  there every operation is rounded to the nearest IEEE 754 double (section on binary64
  below). The non-finite values are kept because the source tests for them
  (\<open>Number.isFinite\<close>).  A value of type \<open>string | null | undefined\<close> is a
  \<open>string option\<close>.
\<close>

datatype jsnum = Fin rat | NaN | PosInf | NegInf

fun isFinite :: "jsnum \<Rightarrow> bool" where
  "isFinite (Fin _) = True"
| "isFinite _ = False"

text \<open>\<open>a >= b\<close> on numbers: false as soon as one side is \<open>NaN\<close>.\<close>

fun js_ge :: "jsnum \<Rightarrow> jsnum \<Rightarrow> bool" where
  "js_ge NaN _ = False"
| "js_ge _ NaN = False"
| "js_ge PosInf _ = True"
| "js_ge _ NegInf = True"
| "js_ge NegInf _ = False"
| "js_ge _ PosInf = False"
| "js_ge (Fin a) (Fin b) = (b \<le> a)"

text \<open>\<open>Math.round\<close> on a finite number: the nearest integer, a tie going up.\<close>

definition Math_round :: "rat \<Rightarrow> rat" where
  "Math_round v = of_int \<lfloor>v + 1 / 2\<rfloor>"

text \<open>\<open>Math.trunc\<close> on a finite number: the integer part, towards zero.\<close>

definition Math_trunc :: "rat \<Rightarrow> rat" where
  "Math_trunc v = (if 0 \<le> v then of_int \<lfloor>v\<rfloor> else of_int \<lceil>v\<rceil>)"

fun js_trunc :: "jsnum \<Rightarrow> jsnum" where
  "js_trunc (Fin v) = Fin (Math_trunc v)"
| "js_trunc n = n"

text \<open>\<open>Math.max(a, b)\<close>: \<open>NaN\<close> when one argument is \<open>NaN\<close>.\<close>

fun js_max :: "jsnum \<Rightarrow> jsnum \<Rightarrow> jsnum" where
  "js_max NaN _ = NaN"
| "js_max _ NaN = NaN"
| "js_max PosInf _ = PosInf"
| "js_max _ PosInf = PosInf"
| "js_max NegInf b = b"
| "js_max a NegInf = a"
| "js_max (Fin a) (Fin b) = Fin (max a b)"

subsection \<open>IEEE 754 binary64\<close>

text \<open>
  A finite double is a rational \<open>m * 2^e\<close> with \<open>|m| < 2^53\<close> and
  \<open>-1074 \<le> e\<close>. \<open>round_even\<close> is the nearest integer with a tie going to the even
  one; \<open>binade x\<close> is the exponent \<open>e\<close> with \<open>2^e \<le> |x| < 2^(e+1)\<close>;
  \<open>pow2 n\<close> is \<open>2^n\<close> for an integer \<open>n\<close>; \<open>ulp x\<close>
  is the distance between the doubles around \<open>x\<close>, which stops shrinking at the
  subnormal numbers. \<open>fl x\<close> is then the double nearest to \<open>x\<close>, as the default
  rounding mode gives it, as long as the result is below \<open>2^1024\<close>: \<open>x\<close> is
  divided by \<open>ulp x\<close>, rounded to a whole number, and multiplied by \<open>ulp x\<close> again
  (written with whole powers of two).
\<close>

definition round_even :: "rat \<Rightarrow> int" where
  "round_even q =
     (let n = \<lfloor>q\<rfloor>; r = q - of_int n
      in if r < 1 / 2 then n else if 1 / 2 < r then n + 1 else if even n then n else n + 1)"

definition binade :: "rat \<Rightarrow> int" where
  "binade x =
     (let a = \<bar>x\<bar>
      in if 1 \<le> a then bitlen \<lfloor>a\<rfloor> - 1 else - bitlen (\<lceil>1 / a\<rceil> - 1))"

definition pow2 :: "int \<Rightarrow> rat" where
  "pow2 n = (if 0 \<le> n then of_int (2 ^ nat n) else 1 / of_int (2 ^ nat (- n)))"

definition ulp :: "rat \<Rightarrow> rat" where
  "ulp x = pow2 (max (binade x) (- 1022) - 52)"

definition fl :: "rat \<Rightarrow> rat" where
  "fl x =
     (let e = max (binade x) (- 1022) - 52
      in if e < 0
         then of_int (round_even (x * of_int (2 ^ nat (- e)))) / of_int (2 ^ nat (- e))
         else of_int (round_even (x / of_int (2 ^ nat e))) * of_int (2 ^ nat e))"

text \<open>Half the distance between two neighbouring doubles below 2048 is at most \<open>eps\<close>.\<close>

definition eps :: rat where
  "eps = 1 / 2 ^ 43"

text \<open>
  The double that a number of the model stands for: the nearest one, or an infinity when
  the nearest one would be \<open>2^1024\<close> or more. A double stands for itself.
\<close>

definition to_double :: "rat \<Rightarrow> jsnum" where
  "to_double q =
     (let d = fl q
      in if binade d < 1024 then Fin d else if 0 < d then PosInf else NegInf)"

fun number :: "jsnum \<Rightarrow> jsnum" where
  "number (Fin q) = to_double q"
| "number v = v"

text \<open>
  \<open>a * b\<close>, \<open>a + b\<close> and \<open>a / b\<close> on finite doubles whose result stays finite
  (the scorer's operands lie between 0 and 1000).
\<close>

definition dmul :: "rat \<Rightarrow> rat \<Rightarrow> rat" where
  "dmul a b = fl (a * b)"

definition dadd :: "rat \<Rightarrow> rat \<Rightarrow> rat" where
  "dadd a b = fl (a + b)"

definition ddiv :: "rat \<Rightarrow> rat \<Rightarrow> rat" where
  "ddiv a b = fl (a / b)"

text \<open>Truthiness of a \<open>string | null | undefined\<close>: present and not empty.\<close>

fun truthy :: "string option \<Rightarrow> bool" where
  "truthy None = False"
| "truthy (Some s) = (s \<noteq> [])"

text \<open>
  Strings are lists of 8-bit characters; \<open>trim\<close> removes the ASCII white space and
  \<open>toLowerCase\<close> folds the ASCII letters.
\<close>

definition is_space :: "char \<Rightarrow> bool" where
  "is_space c = (c \<in> set [CHR '' '', CHR 0x09, CHR 0x0A, CHR 0x0B, CHR 0x0C, CHR 0x0D])"

definition trim :: "string \<Rightarrow> string" where
  "trim s = rev (dropWhile is_space (rev (dropWhile is_space s)))"

definition lower_char :: "char \<Rightarrow> char" where
  "lower_char c =
     (let n = (of_char c :: nat)
      in if 65 \<le> n \<and> n \<le> 90 then char_of (n + 32) else c)"

definition toLowerCase :: "string \<Rightarrow> string" where
  "toLowerCase s = map lower_char s"

fun startsWith :: "string \<Rightarrow> string \<Rightarrow> bool" where
  "startsWith _ [] = True"
| "startsWith [] (_ # _) = False"
| "startsWith (c # cs) (d # ds) = (c = d \<and> startsWith cs ds)"

definition endsWith :: "string \<Rightarrow> string \<Rightarrow> bool" where
  "endsWith s suffix = startsWith (rev s) (rev suffix)"

text \<open>\<open>haystack.includes(needle)\<close>: the needle occurs as a contiguous substring.\<close>

fun str_includes :: "string \<Rightarrow> string \<Rightarrow> bool" where
  "str_includes [] needle = (needle = [])"
| "str_includes (c # cs) needle = (startsWith (c # cs) needle \<or> str_includes cs needle)"

section \<open>Identity resolver (\<open>identity.ts\<close>)\<close>

datatype IdentityBand = CONFIRMED | HIGH | MEDIUM | LOW

record linkedin_identity =
  li_providerId :: "string option"
  li_publicIdentifier :: "string option"
  li_profileUrl :: "string option"
  li_name :: "string option"
  li_employer :: "string option"
  li_location :: "string option"

record github_identity =
  gh_handle :: "string option"
  gh_url :: "string option"
  gh_profileLinkedinUrl :: "string option"
  gh_employer :: "string option"
  gh_location :: "string option"

record x_identity =
  x_handle :: "string option"
  x_url :: "string option"
  x_profileLinkedinUrl :: "string option"

record site_identity =
  site_url :: "string option"
  site_linkedinUrl :: "string option"
  site_githubUrl :: "string option"
  site_xUrl :: "string option"

record IdentityResolutionInput =
  linkedin :: linkedin_identity
  github :: "github_identity option"
  x :: "x_identity option"
  personalSite :: "site_identity option"

record IdentityResolution =
  confidence :: jsnum
  band :: IdentityBand
  shortlistEligible :: bool
  reasons :: "string list"

definition normalizeUrl :: "string option \<Rightarrow> string option" where
  "normalizeUrl v =
     (case v of
        None \<Rightarrow> None
      | Some s \<Rightarrow>
          if s = [] then None
          else let trimmed = toLowerCase (trim s)
               in if trimmed = [] then None
                  else Some (if endsWith trimmed ''/'' then butlast trimmed else trimmed))"

definition includesLinkedinUrl :: "string option \<Rightarrow> string option \<Rightarrow> bool" where
  "includesLinkedinUrl v linkedinUrl =
     (if \<not> truthy v \<or> \<not> truthy linkedinUrl then False
      else normalizeUrl v = linkedinUrl)"

definition resolveBand :: "jsnum \<Rightarrow> IdentityBand" where
  "resolveBand c =
     (if js_ge c (Fin (9 / 10)) then CONFIRMED
      else if js_ge c (Fin (8 / 10)) then HIGH
      else if js_ge c (Fin (6 / 10)) then MEDIUM
      else LOW)"

text \<open>\<open>obj?.field ?? null\<close> on an optional sub-object.\<close>

definition opt_field :: "('a \<Rightarrow> string option) \<Rightarrow> 'a option \<Rightarrow> string option" where
  "opt_field f obj = (case obj of None \<Rightarrow> None | Some r \<Rightarrow> f r)"

definition sameText :: "string option \<Rightarrow> string option \<Rightarrow> bool" where
  "sameText a b =
     (case (a, b) of
        (Some s, Some t) \<Rightarrow>
          s \<noteq> [] \<and> t \<noteq> [] \<and> toLowerCase (trim s) = toLowerCase (trim t)
      | _ \<Rightarrow> False)"

text \<open>Rule 1 of \<open>resolveIdentity\<close>: a profile declares the candidate's LinkedIn URL.\<close>

definition directProfileLink :: "IdentityResolutionInput \<Rightarrow> bool" where
  "directProfileLink input =
     (let linkedinUrl = normalizeUrl (li_profileUrl (linkedin input));
          githubLinkedin = normalizeUrl (opt_field gh_profileLinkedinUrl (github input));
          xLinkedin = normalizeUrl (opt_field x_profileLinkedinUrl (x input));
          siteLinkedin = normalizeUrl (opt_field site_linkedinUrl (personalSite input))
      in includesLinkedinUrl githubLinkedin linkedinUrl \<or>
         includesLinkedinUrl xLinkedin linkedinUrl \<or>
         includesLinkedinUrl siteLinkedin linkedinUrl)"

text \<open>Rule 2: the personal site links back to the GitHub or X profile.\<close>

definition reverseLinkViaSite :: "IdentityResolutionInput \<Rightarrow> bool" where
  "reverseLinkViaSite input =
     (let linkedinUrl = normalizeUrl (li_profileUrl (linkedin input));
          githubUrl = normalizeUrl (opt_field gh_url (github input));
          xUrl = normalizeUrl (opt_field x_url (x input));
          siteGithub = normalizeUrl (opt_field site_githubUrl (personalSite input));
          siteX = normalizeUrl (opt_field site_xUrl (personalSite input))
      in truthy linkedinUrl \<and>
         ((truthy githubUrl \<and> siteGithub = githubUrl) \<or> (truthy xUrl \<and> siteX = xUrl)))"

text \<open>The three context tests of rule 3.\<close>

definition sameEmployer :: "IdentityResolutionInput \<Rightarrow> bool" where
  "sameEmployer input =
     sameText (li_employer (linkedin input)) (opt_field gh_employer (github input))"

definition sameLocation :: "IdentityResolutionInput \<Rightarrow> bool" where
  "sameLocation input =
     sameText (li_location (linkedin input)) (opt_field gh_location (github input))"

definition handlePatternMatch :: "IdentityResolutionInput \<Rightarrow> bool" where
  "handlePatternMatch input =
     (let gh = map_option trim (opt_field gh_handle (github input));
          xh = map_option trim (opt_field x_handle (x input))
      in truthy gh \<and> truthy xh \<and> map_option toLowerCase gh = map_option toLowerCase xh)"

text \<open>
  The body of \<open>resolveIdentity\<close> once the five tests are evaluated: the running
  \<open>score\<close> and \<open>reasons\<close> variables of the source are threaded through the rules
  in the source's order.
\<close>

definition scoreRules ::
  "bool \<Rightarrow> bool \<Rightarrow> bool \<Rightarrow> bool \<Rightarrow> bool \<Rightarrow> IdentityResolution" where
  "scoreRules direct reverse employer location handle =
     (let score0 = (0 :: rat);
          reasons0 = [];
          (score1, reasons1) =
             (if direct then (max score0 (95 / 100), reasons0 @ [''direct_profile_link''])
              else (score0, reasons0));
          (score2, reasons2) =
             (if reverse then (max score1 (9 / 10), reasons1 @ [''reverse_link_via_site''])
              else (score1, reasons1));
          (score3, reasons3) =
             (if employer \<and> location \<and> handle
              then (max score2 (82 / 100),
                    reasons2 @ [''strong_context_employer_location_handle''])
              else if (employer \<and> location) \<or> (employer \<and> handle)
              then (max score2 (7 / 10), reasons2 @ [''context_partial_match''])
              else (score2, reasons2));
          reasons4 =
             (if score3 = 0 then reasons3 @ [''unconfirmed_no_strong_match''] else reasons3);
          conf = Fin (Math_round (score3 * 1000) / 1000);
          b = resolveBand conf
      in \<lparr> confidence = conf, band = b,
           shortlistEligible = (b = CONFIRMED \<or> b = HIGH), reasons = reasons4 \<rparr>)"

definition resolveIdentity :: "IdentityResolutionInput \<Rightarrow> IdentityResolution" where
  "resolveIdentity input =
     scoreRules (directProfileLink input) (reverseLinkViaSite input)
                (sameEmployer input) (sameLocation input) (handlePatternMatch input)"

text \<open>
  Inputs on which the statements about \<open>resolveIdentity\<close> are exercised: a GitHub
  profile that declares the candidate's LinkedIn URL, and a GitHub profile that only
  shares employer and location with the LinkedIn profile.
\<close>

definition alice :: IdentityResolutionInput where
  "alice =
     \<lparr> linkedin = \<lparr> li_providerId = None, li_publicIdentifier = None,
                    li_profileUrl = Some ''https://LinkedIn.com/in/alice/'', li_name = None,
                    li_employer = None, li_location = None \<rparr>,
       github = Some \<lparr> gh_handle = None, gh_url = None,
                       gh_profileLinkedinUrl = Some '' https://linkedin.com/in/Alice'',
                       gh_employer = None, gh_location = None \<rparr>,
       x = None, personalSite = None \<rparr>"

definition bob :: IdentityResolutionInput where
  "bob =
     \<lparr> linkedin = \<lparr> li_providerId = None, li_publicIdentifier = None,
                    li_profileUrl = Some ''https://linkedin.com/in/bob'', li_name = None,
                    li_employer = Some ''OpenClaw'', li_location = Some ''San Francisco'' \<rparr>,
       github = Some \<lparr> gh_handle = Some ''bob-dev'', gh_url = None,
                       gh_profileLinkedinUrl = None,
                       gh_employer = Some '' openclaw '', gh_location = Some ''san francisco'' \<rparr>,
       x = None, personalSite = None \<rparr>"

section \<open>Candidate scorer (\<open>scoring.ts\<close>)\<close>

record CandidateSignal =
  sig_key :: string
  sig_value :: "string option"
  numericValue :: "jsnum option"
  sig_source :: string

record CandidateEvidenceLink =
  ev_url :: string
  ev_title :: "string option"
  ev_source :: string
  ev_relevance :: "rat option"

record CandidateScoreBreakdown =
  builder_activity :: rat
  ai_native_evidence :: rat
  technical_depth :: rat
  role_fit :: rat
  identity_confidence :: rat

record CandidateScore =
  total :: rat
  score_shortlistEligible :: bool
  breakdown :: CandidateScoreBreakdown
  concerns :: "string list"
  outreachAngle :: string

record score_params =
  p_signals :: "CandidateSignal list"
  p_identity :: IdentityResolution
  p_evidence :: "CandidateEvidenceLink list"
  p_openToWork :: "bool option"

text \<open>
  The scorer computes in doubles. A literal of the source is the double nearest to it
  (\<open>fl\<close>), a number that comes in with the parameters is read as the double it stands
  for (\<open>number\<close>), and each \<open>*\<close>, \<open>+\<close> and \<open>/\<close> rounds its result.
  \<open>Math.min\<close>, \<open>Math.max\<close> and \<open>Math.round\<close> are exact on doubles.
\<close>

text \<open>The \<open>WEIGHTS\<close> table.\<close>

definition W_builder_activity :: rat where "W_builder_activity = fl (25 / 100)"
definition W_ai_native_evidence :: rat where "W_ai_native_evidence = fl (25 / 100)"
definition W_technical_depth :: rat where "W_technical_depth = fl (2 / 10)"
definition W_role_fit :: rat where "W_role_fit = fl (2 / 10)"
definition W_identity_confidence :: rat where "W_identity_confidence = fl (1 / 10)"

definition clamp01 :: "jsnum \<Rightarrow> rat" where
  "clamp01 v = (case v of Fin q \<Rightarrow> min 1 (max 0 q) | _ \<Rightarrow> 0)"

text \<open>\<open>Math.round(value * 1000) / 1000\<close>.\<close>

definition round3 :: "rat \<Rightarrow> rat" where
  "round3 v = ddiv (Math_round (dmul v 1000)) 1000"

text \<open>
  \<open>Math.max(...values)\<close> starts from \<open>-Infinity\<close>; the values kept by the two filters
  are the finite numeric values of the signals with the given key.
\<close>

definition scoreFromSignals :: "CandidateSignal list \<Rightarrow> string \<Rightarrow> rat" where
  "scoreFromSignals signals k =
     (let vals = filter isFinite
                   (map (\<lambda>s. case numericValue s of Some n \<Rightarrow> number n | None \<Rightarrow> NaN)
                      (filter (\<lambda>s. sig_key s = k \<and> numericValue s \<noteq> None) signals))
      in if length vals = 0 then 0 else clamp01 (foldr js_max vals NegInf))"

definition ai_keywords :: "string list" where
  "ai_keywords = [''codex'', ''claude code'', ''mcp'', ''agent'', ''agents'', ''automation'']"

definition hasAiEvidence :: "CandidateEvidenceLink list \<Rightarrow> bool" where
  "hasAiEvidence evidence =
     list_ex (\<lambda>item.
        let haystack = toLowerCase
              ((if truthy (ev_title item) then the (ev_title item) else []) @ '' '' @ ev_url item)
        in list_ex (\<lambda>keyword. str_includes haystack keyword) ai_keywords) evidence"

definition computeCandidateScore :: "score_params \<Rightarrow> CandidateScore" where
  "computeCandidateScore params =
     (let builderActivity = scoreFromSignals (p_signals params) ''builder_activity'';
          aiNative = max (scoreFromSignals (p_signals params) ''ai_native_evidence'')
                         (if hasAiEvidence (p_evidence params) then fl (7 / 10) else 0);
          technicalDepth = scoreFromSignals (p_signals params) ''technical_depth'';
          roleFit = scoreFromSignals (p_signals params) ''role_fit'';
          identityConfidence = clamp01 (number (confidence (p_identity params)));
          bd = \<lparr> builder_activity = round3 builderActivity,
                 ai_native_evidence = round3 aiNative,
                 technical_depth = round3 technicalDepth,
                 role_fit = round3 roleFit,
                 identity_confidence = round3 identityConfidence \<rparr>;
          tot = round3
                  (dadd (dadd (dadd (dadd (dmul (builder_activity bd) W_builder_activity)
                                          (dmul (ai_native_evidence bd) W_ai_native_evidence))
                                    (dmul (technical_depth bd) W_technical_depth))
                              (dmul (role_fit bd) W_role_fit))
                        (dmul (identity_confidence bd) W_identity_confidence));
          concerns1 = (if \<not> shortlistEligible (p_identity params)
                       then [''identity_unconfirmed''] else []);
          concerns2 = (if builder_activity bd < fl (3 / 10)
                       then concerns1 @ [''low_recent_builder_activity''] else concerns1);
          concerns3 = (if ai_native_evidence bd < fl (3 / 10)
                       then concerns2 @ [''limited_ai_native_evidence''] else concerns2);
          concerns4 = (if role_fit bd < fl (3 / 10)
                       then concerns3 @ [''weak_role_fit''] else concerns3);
          concerns5 = (if p_openToWork params = Some True
                       then concerns4 @ [''open_to_work_signal_recorded_no_penalty'']
                       else concerns4);
          angle = (if ai_native_evidence bd \<ge> fl (6 / 10)
                   then ''Lead with AI-native shipping evidence and ask about current build velocity.''
                   else if builder_activity bd \<ge> fl (6 / 10)
                   then ''Lead with recent shipped work and invite a builder-focused conversation.''
                   else ''Lead with role fit and verify current hands-on project scope.'')
      in \<lparr> total = tot, score_shortlistEligible = shortlistEligible (p_identity params),
           breakdown = bd, concerns = concerns5, outreachAngle = angle \<rparr>)"

text \<open>
  The rounding and the weighted sum as the specification words them: rounding to three
  decimals with a tie going away from zero, and the exact sum of weight times component.
\<close>

definition round_half_away :: "rat \<Rightarrow> int" where
  "round_half_away v = (if 0 \<le> v then \<lfloor>v + 1 / 2\<rfloor> else - \<lfloor>- v + 1 / 2\<rfloor>)"

definition round3_half_away :: "rat \<Rightarrow> rat" where
  "round3_half_away v = of_int (round_half_away (v * 1000)) / 1000"

definition weighted_sum :: "CandidateScoreBreakdown \<Rightarrow> rat" where
  "weighted_sum b =
     25 / 100 * builder_activity b + 25 / 100 * ai_native_evidence b +
     20 / 100 * technical_depth b + 20 / 100 * role_fit b + 10 / 100 * identity_confidence b"

text \<open>
  What holds of the rounding in doubles: \<open>b\<close> is the double nearest to \<open>k / 1000\<close>
  for a whole number \<open>k\<close> of thousandths between 0 and 1000, and \<open>k / 1000\<close> is within
  half a thousandth of \<open>v\<close>, up to the rounding error of the arithmetic.
\<close>

definition rounds_to :: "rat \<Rightarrow> int \<Rightarrow> rat \<Rightarrow> bool" where
  "rounds_to v k b =
     (0 \<le> k \<and> k \<le> 1000 \<and> b = fl (of_int k / 1000)
      \<and> \<bar>of_int k / 1000 - v\<bar> \<le> 1 / 2000 + 1 / 2 ^ 38)"

text \<open>
  Inputs on which the rounding is exercised. In the first the builder activity is the
  double nearest to 0.0045, which lies below 0.0045; in the second it is the double
  nearest to 0.5005; the third gives the breakdown 0.942, 0.88, 0.561, 0.237, 0.414.
\<close>

definition unknown_identity :: "jsnum \<Rightarrow> IdentityResolution" where
  "unknown_identity c =
     \<lparr> confidence = c, band = LOW, shortlistEligible = False, reasons = [] \<rparr>"

definition numeric_signal :: "string \<Rightarrow> rat \<Rightarrow> CandidateSignal" where
  "numeric_signal k v =
     \<lparr> sig_key = k, sig_value = None, numericValue = Some (Fin v), sig_source = ''test'' \<rparr>"

definition tie_params :: score_params where
  "tie_params =
     \<lparr> p_signals = [numeric_signal ''builder_activity'' (45 / 10000)],
       p_identity = unknown_identity (Fin 0), p_evidence = [], p_openToWork = None \<rparr>"

definition decimal_params :: score_params where
  "decimal_params =
     \<lparr> p_signals = [numeric_signal ''builder_activity'' (5005 / 10000)],
       p_identity = unknown_identity (Fin 0), p_evidence = [], p_openToWork = None \<rparr>"

definition sum_params :: score_params where
  "sum_params =
     \<lparr> p_signals = [numeric_signal ''builder_activity'' (942 / 1000),
                    numeric_signal ''ai_native_evidence'' (88 / 100),
                    numeric_signal ''technical_depth'' (561 / 1000),
                    numeric_signal ''role_fit'' (237 / 1000)],
       p_identity = unknown_identity (Fin (414 / 1000)), p_evidence = [],
       p_openToWork = None \<rparr>"

section \<open>Run diagnostics (\<open>types.ts\<close>)\<close>

record CandidatePipelineCounts =
  sourced :: nat
  enriched :: nat
  enrichFailed :: nat
  externalDiscovered :: nat
  identityConfirmedHigh :: nat
  identityMediumLow :: nat
  cnt_shortlistEligible :: nat

record error_message =
  em_message :: string
  em_errorType :: string
  em_count :: nat

record ErrorAggregate =
  ea_stage :: string
  ea_count :: nat
  ea_topMessages :: "error_message list"

record failure_descriptor =
  fd_stage :: string
  fd_message :: string
  fd_errorType :: string

record account_health =
  requestedAccountId :: "string option"
  resolvedAccountId :: string
  ah_unipileAccountId :: "string option"
  ah_enabled :: bool
  ah_apiKeySource :: string
  ah_missingCredentials :: "string list"
  recruiterReady :: bool

record search_query_used =
  q_api :: string
  q_keywords :: "string option"
  q_roleKeywords :: "string list"
  q_skills :: "string list"
  q_companyKeywords :: "string list"
  q_location :: "string option"
  q_industry :: "string option"
  q_networkDistance :: "nat list"
  q_pageSize :: jsnum
  q_maxPages :: jsnum

record CandidatePipelineDiagnostics =
  d_counts :: CandidatePipelineCounts
  d_errorsByStage :: "ErrorAggregate list"
  d_searchQueryUsed :: search_query_used
  d_sourceQueryMode :: string
  d_evidenceQueryMode :: string
  d_accountHealth :: account_health
  d_failure :: "failure_descriptor option"

section \<open>Thrown values\<close>

text \<open>
  What a \<open>throw\<close> can carry: a \<open>PipelineStageError\<close> (stage, message, error type,
  retryable), any other \<open>Error\<close> object (name, message), or a plain string.
  A failing SQLite statement throws an \<open>Error\<close> whose message names the constraint.
\<close>

datatype thrown =
    StageError string string string bool
  | ErrorObj string string
  | StrVal string

definition unique_failed :: "string \<Rightarrow> thrown" where
  "unique_failed cols = ErrorObj ''Error'' (''UNIQUE constraint failed: '' @ cols)"

definition fk_failed :: thrown where
  "fk_failed = ErrorObj ''Error'' ''FOREIGN KEY constraint failed''"

definition not_null_failed :: "string \<Rightarrow> thrown" where
  "not_null_failed col = ErrorObj ''Error'' (''NOT NULL constraint failed: '' @ col)"

section \<open>The relational store (\<open>store.ts\<close>)\<close>

text \<open>
  Each table is the list of its rows in insertion order (the order of the
  \<open>AUTOINCREMENT\<close> ids). The columns that only hold serialised blobs which no
  modelled operation reads back (\<open>config_json\<close>, \<open>criteria_json\<close>, \<open>raw_json\<close>,
  \<open>details_json\<close>, \<open>payload_json\<close>) are left out; \<open>summary_json\<close> holds the
  diagnostics record itself, and the \<open>*_json\<close> list columns hold the list.
\<close>

record run_row =
  r_id :: string
  r_idempotency_key :: "string option"
  r_status :: string
  r_started_at :: int
  r_finished_at :: "int option"
  r_target_candidates :: jsnum
  r_role_key :: string
  r_role_title :: string
  r_summary_json :: "CandidatePipelineDiagnostics option"

record run_role_row =
  rr_run_id :: string
  rr_role_key :: string
  rr_role_title :: string
  rr_status :: string
  rr_started_at :: int
  rr_finished_at :: "int option"

record candidate_row =
  c_id :: string
  c_provider :: string
  c_provider_id :: "string option"
  c_public_identifier :: "string option"
  c_normalized_profile_url_hash :: "string option"
  c_full_name :: "string option"
  c_headline :: "string option"
  c_location :: "string option"
  c_current_company :: "string option"
  c_current_role :: "string option"
  c_first_seen_at :: int
  c_last_seen_at :: int

record source_row =
  sr_candidate_id :: string
  sr_run_id :: string
  sr_source :: string
  sr_source_rank :: nat
  sr_created_at :: int

record identity_row =
  i_candidate_id :: string
  i_platform :: string
  i_handle :: "string option"
  i_url :: "string option"
  i_confidence :: jsnum
  i_band :: IdentityBand
  i_reasons_json :: "string list"
  i_confirmed :: bool
  i_created_at :: int
  i_updated_at :: int

record signal_row =
  sg_candidate_id :: string
  sg_signal_key :: string
  sg_signal_value :: "string option"
  sg_numeric_value :: "jsnum option"
  sg_observed_at :: int
  sg_source :: string

record score_row =
  sc_candidate_id :: string
  sc_run_id :: string
  sc_total_score :: rat
  sc_breakdown_json :: CandidateScoreBreakdown
  sc_concerns_json :: "string list"
  sc_shortlist_eligible :: bool
  sc_outreach_angle :: "string option"
  sc_created_at :: int

record evidence_row =
  e_candidate_id :: string
  e_run_id :: string
  e_url :: string
  e_title :: "string option"
  e_source :: string
  e_relevance :: "rat option"
  e_created_at :: int

record failure_row =
  f_run_id :: string
  f_step :: string
  f_candidate_ref :: "string option"
  f_error_type :: string
  f_message :: string
  f_retryable :: bool
  f_created_at :: int

record review_row =
  rv_candidate_id :: string
  rv_run_id :: string
  rv_status :: string
  rv_priority :: int
  rv_notes :: "string option"
  rv_updated_by :: "string option"
  rv_created_at :: int
  rv_updated_at :: int

record verification_row =
  v_candidate_id :: string
  v_run_id :: string
  v_method :: string
  v_outcome :: string
  v_identity_confidence_before :: "jsnum option"
  v_identity_confidence_after :: "jsnum option"
  v_proof_json :: "string list"
  v_notes :: "string option"
  v_created_at :: int

record promotion_row =
  pr_candidate_id :: string
  pr_run_id :: string
  pr_promotion_reason :: string
  pr_confidence_override :: "jsnum option"
  pr_outreach_angle :: "string option"
  pr_proof_json :: "string list"
  pr_promoted_at :: int
  pr_promoted_by :: "string option"

record store =
  pipeline_runs :: "run_row list"
  run_roles :: "run_role_row list"
  candidates :: "candidate_row list"
  candidate_source_records :: "source_row list"
  candidate_identities :: "identity_row list"
  candidate_signals :: "signal_row list"
  candidate_scores :: "score_row list"
  candidate_evidence_links :: "evidence_row list"
  run_failures :: "failure_row list"
  candidate_reviews :: "review_row list"
  candidate_verifications :: "verification_row list"
  candidate_promotions :: "promotion_row list"

definition empty_store :: store where
  "empty_store =
     \<lparr> pipeline_runs = [], run_roles = [], candidates = [], candidate_source_records = [],
       candidate_identities = [], candidate_signals = [], candidate_scores = [],
       candidate_evidence_links = [], run_failures = [], candidate_reviews = [],
       candidate_verifications = [], candidate_promotions = [] \<rparr>"

subsection \<open>SQL helpers\<close>

text \<open>
  \<open>ORDER BY\<close> (and \<open>toSorted\<close>) as a stable insertion sort: \<open>precedes a b\<close> says that
  \<open>a\<close> may stand in front of \<open>b\<close>. Rows that tie keep their insertion order.
\<close>

fun insert_by :: "('a \<Rightarrow> 'a \<Rightarrow> bool) \<Rightarrow> 'a \<Rightarrow> 'a list \<Rightarrow> 'a list" where
  "insert_by precedes a [] = [a]"
| "insert_by precedes a (b # bs) =
     (if precedes a b then a # b # bs else b # insert_by precedes a bs)"

fun order_by :: "('a \<Rightarrow> 'a \<Rightarrow> bool) \<Rightarrow> 'a list \<Rightarrow> 'a list" where
  "order_by precedes [] = []"
| "order_by precedes (a # as) = insert_by precedes a (order_by precedes as)"

text \<open>\<open>LIMIT 1\<close> read with \<open>.get()\<close>: the first row, or \<open>undefined\<close>.\<close>

fun first_row :: "'a list \<Rightarrow> 'a option" where
  "first_row [] = None"
| "first_row (a # _) = Some a"


definition run_exists :: "store \<Rightarrow> string \<Rightarrow> bool" where
  "run_exists s rid = (rid \<in> r_id ` set (pipeline_runs s))"

definition candidate_exists :: "store \<Rightarrow> string \<Rightarrow> bool" where
  "candidate_exists s cid = (cid \<in> c_id ` set (candidates s))"

subsection \<open>Runs\<close>

record beginRun_params =
  bp_runId :: "string option"
  bp_idempotencyKey :: "string option"
  bp_roleKey :: string
  bp_roleTitle :: string
  bp_targetCandidates :: jsnum

text \<open>
  \<open>SELECT id, status FROM pipeline_runs WHERE idempotency_key = ? ORDER BY started_at
  DESC LIMIT 1\<close>.
\<close>

definition select_run_by_key :: "store \<Rightarrow> string \<Rightarrow> run_row option" where
  "select_run_by_key s k =
     first_row (order_by (\<lambda>a b. r_started_at b \<le> r_started_at a)
                  (filter (\<lambda>r. r_idempotency_key r = Some k) (pipeline_runs s)))"

text \<open>
  \<open>INSERT INTO pipeline_runs\<close>: \<open>target_candidates\<close> is \<open>NOT NULL\<close>, and a
  \<open>NaN\<close> is bound as \<open>NULL\<close>; \<open>idempotency_key\<close> is \<open>UNIQUE\<close> (any number of
  rows may hold \<open>NULL\<close>) and \<open>id\<close> is the primary key. SQLite tests \<open>NOT NULL\<close>
  first and the index of \<open>idempotency_key\<close> before that of \<open>id\<close>.
\<close>

definition insert_run :: "store \<Rightarrow> run_row \<Rightarrow> thrown + store" where
  "insert_run s row =
     (if r_target_candidates row = NaN
      then Inl (not_null_failed ''pipeline_runs.target_candidates'')
      else if r_idempotency_key row \<noteq> None \<and>
              r_idempotency_key row \<in> r_idempotency_key ` set (pipeline_runs s)
      then Inl (unique_failed ''pipeline_runs.idempotency_key'')
      else if r_id row \<in> r_id ` set (pipeline_runs s)
      then Inl (unique_failed ''pipeline_runs.id'')
      else Inr (s\<lparr>pipeline_runs := pipeline_runs s @ [row]\<rparr>))"

definition insert_run_role :: "store \<Rightarrow> run_role_row \<Rightarrow> thrown + store" where
  "insert_run_role s row =
     (if (rr_run_id row, rr_role_key row)
           \<in> (\<lambda>r. (rr_run_id r, rr_role_key r)) ` set (run_roles s)
      then Inl (unique_failed ''run_roles.run_id, run_roles.role_key'')
      else if \<not> run_exists s (rr_run_id row) then Inl fk_failed
      else Inr (s\<lparr>run_roles := run_roles s @ [row]\<rparr>))"

text \<open>The two \<open>INSERT\<close> statements at the end of \<open>beginRun\<close>.\<close>

definition insert_new_run ::
  "store \<Rightarrow> beginRun_params \<Rightarrow> int \<Rightarrow> string \<Rightarrow> store \<times> (thrown + string \<times> bool)" where
  "insert_new_run s params now uuid =
     (let runId = (if truthy (bp_runId params) then the (bp_runId params) else uuid)
      in case insert_run s
              \<lparr> r_id = runId, r_idempotency_key = bp_idempotencyKey params,
                r_status = ''running'', r_started_at = now, r_finished_at = None,
                r_target_candidates = bp_targetCandidates params,
                r_role_key = bp_roleKey params, r_role_title = bp_roleTitle params,
                r_summary_json = None \<rparr> of
           Inl err \<Rightarrow> (s, Inl err)
         | Inr s1 \<Rightarrow>
             (case insert_run_role s1
                     \<lparr> rr_run_id = runId, rr_role_key = bp_roleKey params,
                       rr_role_title = bp_roleTitle params, rr_status = ''running'',
                       rr_started_at = now, rr_finished_at = None \<rparr> of
                Inl err \<Rightarrow> (s1, Inl err)
              | Inr s2 \<Rightarrow> (s2, Inr (runId, False))))"

text \<open>
  \<open>beginRun\<close>. \<open>now\<close> is the reading of \<open>Date.now()\<close> and \<open>uuid\<close> the value of
  \<open>crypto.randomUUID()\<close>. The result pairs \<open>runId\<close> with \<open>resumed\<close>. The two
  inserts are separate statements, so the store is returned also when the call throws.
\<close>

definition beginRun ::
  "store \<Rightarrow> beginRun_params \<Rightarrow> int \<Rightarrow> string \<Rightarrow> store \<times> (thrown + string \<times> bool)" where
  "beginRun s params now uuid =
     (case (if truthy (bp_idempotencyKey params)
            then select_run_by_key s (the (bp_idempotencyKey params))
            else None) of
        Some existing \<Rightarrow>
          if r_status existing = ''running'' \<or> r_status existing = ''completed''
          then (s, Inr (r_id existing, True))
          else insert_new_run s params now uuid
      | None \<Rightarrow> insert_new_run s params now uuid)"

definition markRun ::
  "string \<Rightarrow> store \<Rightarrow> string \<Rightarrow> CandidatePipelineDiagnostics option \<Rightarrow> int \<Rightarrow> store" where
  "markRun status s runId summary now =
     s\<lparr> pipeline_runs :=
          map (\<lambda>r. if r_id r = runId
                   then r\<lparr> r_status := status, r_finished_at := Some now,
                           r_summary_json := summary \<rparr>
                   else r) (pipeline_runs s),
        run_roles :=
          map (\<lambda>r. if rr_run_id r = runId
                   then r\<lparr> rr_status := status, rr_finished_at := Some now \<rparr>
                   else r) (run_roles s) \<rparr>"

definition markRunCompleted ::
  "store \<Rightarrow> string \<Rightarrow> CandidatePipelineDiagnostics option \<Rightarrow> int \<Rightarrow> store" where
  "markRunCompleted = markRun ''completed''"

definition markRunFailed ::
  "store \<Rightarrow> string \<Rightarrow> CandidatePipelineDiagnostics option \<Rightarrow> int \<Rightarrow> store" where
  "markRunFailed = markRun ''failed''"

record failure_params =
  fp_runId :: string
  fp_step :: string
  fp_candidateRef :: "string option"
  fp_errorType :: string
  fp_message :: string
  fp_retryable :: bool

definition recordFailure :: "store \<Rightarrow> failure_params \<Rightarrow> int \<Rightarrow> thrown + store" where
  "recordFailure s params now =
     (if \<not> run_exists s (fp_runId params) then Inl fk_failed
      else Inr (s\<lparr> run_failures := run_failures s @
                  [\<lparr> f_run_id = fp_runId params, f_step = fp_step params,
                     f_candidate_ref = fp_candidateRef params,
                     f_error_type = fp_errorType params, f_message = fp_message params,
                     f_retryable = fp_retryable params, f_created_at = now \<rparr>] \<rparr>))"

record CandidatePipelineStatus =
  st_runId :: string
  st_status :: string
  st_startedAt :: int
  st_finishedAt :: "int option"
  st_targetCandidates :: jsnum
  st_roleKey :: string
  st_roleTitle :: string
  st_diagnostics :: "CandidatePipelineDiagnostics option"

definition getRunStatus :: "store \<Rightarrow> string \<Rightarrow> CandidatePipelineStatus option" where
  "getRunStatus s runId =
     (case first_row (filter (\<lambda>r. r_id r = runId) (pipeline_runs s)) of
        None \<Rightarrow> None
      | Some row \<Rightarrow>
          Some \<lparr> st_runId = r_id row, st_status = r_status row,
                 st_startedAt = r_started_at row, st_finishedAt = r_finished_at row,
                 st_targetCandidates = r_target_candidates row, st_roleKey = r_role_key row,
                 st_roleTitle = r_role_title row, st_diagnostics = r_summary_json row \<rparr>)"

subsection \<open>Candidates\<close>

record CandidateRecord =
  cr_providerId :: "string option"
  cr_publicIdentifier :: "string option"
  cr_profileUrl :: "string option"
  cr_name :: "string option"
  cr_headline :: "string option"
  cr_location :: "string option"
  cr_currentCompany :: "string option"
  cr_currentRole :: "string option"

definition normalizeProfileUrl :: "string option \<Rightarrow> string option" where
  "normalizeProfileUrl v =
     (case v of
        None \<Rightarrow> None
      | Some s \<Rightarrow>
          if s = [] then None
          else let trimmed = toLowerCase (trim s)
               in if trimmed = [] then None
                  else let withoutQuery = takeWhile (\<lambda>c. c \<noteq> CHR ''?'') trimmed
                       in Some (if endsWith withoutQuery ''/'' then butlast withoutQuery
                                else withoutQuery))"

text \<open>\<open>uuid\<close> is the value \<open>crypto.randomUUID()\<close> would return.\<close>

definition buildCandidateId ::
  "string option \<Rightarrow> string option \<Rightarrow> string option \<Rightarrow> string \<Rightarrow> string" where
  "buildCandidateId providerId publicIdentifier normalizedProfileUrlHash uuid =
     (if truthy providerId then ''li:'' @ the providerId
      else if truthy publicIdentifier then ''li_pub:'' @ the publicIdentifier
      else if truthy normalizedProfileUrlHash
      then ''li_url:'' @ take 24 (the normalizedProfileUrlHash)
      else ''li_rand:'' @ uuid)"

text \<open>
  A \<open>UNIQUE(provider, col)\<close> constraint: no two rows agree on the provider and on a
  non-\<open>NULL\<close> value of the column.
\<close>

definition unique_col :: "(candidate_row \<Rightarrow> string option) \<Rightarrow> candidate_row list \<Rightarrow> bool" where
  "unique_col col rows =
     distinct (map (\<lambda>c. (c_provider c, col c)) (filter (\<lambda>c. col c \<noteq> None) rows))"

text \<open>
  \<open>upsertCandidate\<close>; \<open>hashUrl\<close> stands for the SHA-256 digest. The statement is an
  \<open>INSERT ... ON CONFLICT(id) DO UPDATE\<close>: it fails when the row it leaves behind
  breaks one of the three other uniqueness constraints.
\<close>

definition upsertCandidate ::
  "(string \<Rightarrow> string) \<Rightarrow> store \<Rightarrow> CandidateRecord \<Rightarrow> int \<Rightarrow> string
     \<Rightarrow> thrown + store \<times> string \<times> string option" where
  "upsertCandidate hashUrl s input now uuid =
     (let normalizedProfileUrl = normalizeProfileUrl (cr_profileUrl input);
          normalizedProfileUrlHash =
            (if truthy normalizedProfileUrl then Some (hashUrl (the normalizedProfileUrl))
             else None);
          existing = first_row (filter
            (\<lambda>c. c_provider c = ''linkedin'' \<and>
               ((cr_providerId input \<noteq> None \<and> c_provider_id c = cr_providerId input) \<or>
                (cr_publicIdentifier input \<noteq> None \<and>
                   c_public_identifier c = cr_publicIdentifier input) \<or>
                (normalizedProfileUrlHash \<noteq> None \<and>
                   c_normalized_profile_url_hash c = normalizedProfileUrlHash)))
            (candidates s));
          candidateId =
            (case existing of
               Some c \<Rightarrow> c_id c
             | None \<Rightarrow> buildCandidateId (cr_providerId input) (cr_publicIdentifier input)
                         normalizedProfileUrlHash uuid);
          rows' =
            (if candidateId \<in> c_id ` set (candidates s)
             then map (\<lambda>c. if c_id c = candidateId
                            then c\<lparr> c_provider_id := cr_providerId input,
                                    c_public_identifier := cr_publicIdentifier input,
                                    c_normalized_profile_url_hash := normalizedProfileUrlHash,
                                    c_full_name := cr_name input,
                                    c_headline := cr_headline input,
                                    c_location := cr_location input,
                                    c_current_company := cr_currentCompany input,
                                    c_current_role := cr_currentRole input,
                                    c_last_seen_at := now \<rparr>
                            else c) (candidates s)
             else candidates s @
                  [\<lparr> c_id = candidateId, c_provider = ''linkedin'',
                     c_provider_id = cr_providerId input,
                     c_public_identifier = cr_publicIdentifier input,
                     c_normalized_profile_url_hash = normalizedProfileUrlHash,
                     c_full_name = cr_name input, c_headline = cr_headline input,
                     c_location = cr_location input,
                     c_current_company = cr_currentCompany input,
                     c_current_role = cr_currentRole input,
                     c_first_seen_at = now, c_last_seen_at = now \<rparr>])
      in if \<not> unique_col c_provider_id rows'
         then Inl (unique_failed ''candidates.provider, candidates.provider_id'')
         else if \<not> unique_col c_public_identifier rows'
         then Inl (unique_failed ''candidates.provider, candidates.public_identifier'')
         else if \<not> unique_col c_normalized_profile_url_hash rows'
         then Inl (unique_failed
                     ''candidates.provider, candidates.normalized_profile_url_hash'')
         else Inr (s\<lparr>candidates := rows'\<rparr>, candidateId, normalizedProfileUrlHash))"

text \<open>\<open>INSERT OR IGNORE\<close>: a duplicate key is skipped, a missing parent row throws.\<close>

definition addSourceRecord ::
  "store \<Rightarrow> string \<Rightarrow> string \<Rightarrow> string \<Rightarrow> nat \<Rightarrow> int \<Rightarrow> thrown + store" where
  "addSourceRecord s candidateId runId source sourceRank now =
     (if (candidateId, runId, source, sourceRank)
           \<in> (\<lambda>r. (sr_candidate_id r, sr_run_id r, sr_source r, sr_source_rank r))
               ` set (candidate_source_records s)
      then Inr s
      else if \<not> candidate_exists s candidateId \<or> \<not> run_exists s runId then Inl fk_failed
      else Inr (s\<lparr> candidate_source_records := candidate_source_records s @
                  [\<lparr> sr_candidate_id = candidateId, sr_run_id = runId, sr_source = source,
                     sr_source_rank = sourceRank, sr_created_at = now \<rparr>] \<rparr>))"

definition upsertIdentity ::
  "store \<Rightarrow> string \<Rightarrow> string \<Rightarrow> string option \<Rightarrow> string option \<Rightarrow> IdentityResolution
     \<Rightarrow> int \<Rightarrow> thrown + store" where
  "upsertIdentity s candidateId platform handle url resolution now =
     (if (candidateId, platform)
           \<in> (\<lambda>r. (i_candidate_id r, i_platform r)) ` set (candidate_identities s)
      then Inr (s\<lparr> candidate_identities :=
                  map (\<lambda>r. if i_candidate_id r = candidateId \<and> i_platform r = platform
                           then r\<lparr> i_handle := handle, i_url := url,
                                   i_confidence := confidence resolution,
                                   i_band := band resolution,
                                   i_reasons_json := reasons resolution,
                                   i_confirmed := shortlistEligible resolution,
                                   i_updated_at := now \<rparr>
                           else r) (candidate_identities s) \<rparr>)
      else if \<not> candidate_exists s candidateId then Inl fk_failed
      else Inr (s\<lparr> candidate_identities := candidate_identities s @
                  [\<lparr> i_candidate_id = candidateId, i_platform = platform, i_handle = handle,
                     i_url = url, i_confidence = confidence resolution,
                     i_band = band resolution, i_reasons_json = reasons resolution,
                     i_confirmed = shortlistEligible resolution,
                     i_created_at = now, i_updated_at = now \<rparr>] \<rparr>))"

text \<open>
  \<open>addSignals\<close> writes the batch inside one transaction: either every row is
  inserted or, after the rollback, none.
\<close>

definition addSignals :: "store \<Rightarrow> string \<Rightarrow> CandidateSignal list \<Rightarrow> int \<Rightarrow> thrown + store" where
  "addSignals s candidateId signals now =
     (if length signals = 0 then Inr s
      else if \<not> candidate_exists s candidateId then Inl fk_failed
      else Inr (s\<lparr> candidate_signals := candidate_signals s @
                  map (\<lambda>sg. \<lparr> sg_candidate_id = candidateId, sg_signal_key = sig_key sg,
                              sg_signal_value = sig_value sg,
                              sg_numeric_value = numericValue sg, sg_observed_at = now,
                              sg_source = sig_source sg \<rparr>) signals \<rparr>))"

definition upsertScore ::
  "store \<Rightarrow> string \<Rightarrow> string \<Rightarrow> CandidateScore \<Rightarrow> int \<Rightarrow> thrown + store" where
  "upsertScore s candidateId runId score now =
     (if (candidateId, runId)
           \<in> (\<lambda>r. (sc_candidate_id r, sc_run_id r)) ` set (candidate_scores s)
      then Inr (s\<lparr> candidate_scores :=
                  map (\<lambda>r. if sc_candidate_id r = candidateId \<and> sc_run_id r = runId
                           then r\<lparr> sc_total_score := total score,
                                   sc_breakdown_json := breakdown score,
                                   sc_concerns_json := concerns score,
                                   sc_shortlist_eligible := score_shortlistEligible score,
                                   sc_outreach_angle := Some (outreachAngle score),
                                   sc_created_at := now \<rparr>
                           else r) (candidate_scores s) \<rparr>)
      else if \<not> candidate_exists s candidateId \<or> \<not> run_exists s runId then Inl fk_failed
      else Inr (s\<lparr> candidate_scores := candidate_scores s @
                  [\<lparr> sc_candidate_id = candidateId, sc_run_id = runId,
                     sc_total_score = total score, sc_breakdown_json = breakdown score,
                     sc_concerns_json = concerns score,
                     sc_shortlist_eligible = score_shortlistEligible score,
                     sc_outreach_angle = Some (outreachAngle score),
                     sc_created_at = now \<rparr>] \<rparr>))"

text \<open>
  One \<open>INSERT OR IGNORE INTO candidate_evidence_links\<close>: a link whose
  \<open>(candidate_id, run_id, url)\<close> is already there is skipped.
\<close>

definition insert_evidence_link ::
  "string \<Rightarrow> string \<Rightarrow> int \<Rightarrow> evidence_row list \<Rightarrow> CandidateEvidenceLink \<Rightarrow> evidence_row list" where
  "insert_evidence_link candidateId runId now rows link =
     (if (candidateId, runId, ev_url link)
           \<in> (\<lambda>r. (e_candidate_id r, e_run_id r, e_url r)) ` set rows
      then rows
      else rows @ [\<lparr> e_candidate_id = candidateId, e_run_id = runId, e_url = ev_url link,
                     e_title = ev_title link, e_source = ev_source link,
                     e_relevance = ev_relevance link, e_created_at = now \<rparr>])"

text \<open>
  \<open>addEvidenceLinks\<close>, one transaction. A link that is not skipped needs its candidate
  and its run; when one is missing the statement throws and the batch is rolled back.
\<close>

definition addEvidenceLinks ::
  "store \<Rightarrow> string \<Rightarrow> string \<Rightarrow> CandidateEvidenceLink list \<Rightarrow> int \<Rightarrow> thrown + store" where
  "addEvidenceLinks s candidateId runId links now =
     (if length links = 0 then Inr s
      else let rows' = foldl (insert_evidence_link candidateId runId now)
                         (candidate_evidence_links s) links
           in if rows' \<noteq> candidate_evidence_links s \<and>
                 (\<not> candidate_exists s candidateId \<or> \<not> run_exists s runId)
              then Inl fk_failed
              else Inr (s\<lparr>candidate_evidence_links := rows'\<rparr>))"

subsection \<open>Reads: candidate detail and results\<close>













subsection \<open>Review, verification and promotion tables\<close>

definition upsertReviewStatus ::
  "store \<Rightarrow> string \<Rightarrow> string \<Rightarrow> string \<Rightarrow> int option \<Rightarrow> string option \<Rightarrow> string option
     \<Rightarrow> int \<Rightarrow> thrown + store" where
  "upsertReviewStatus s candidateId runId status priority notes updatedBy now =
     (if (candidateId, runId)
           \<in> (\<lambda>r. (rv_candidate_id r, rv_run_id r)) ` set (candidate_reviews s)
      then Inr (s\<lparr> candidate_reviews :=
                  map (\<lambda>r. if rv_candidate_id r = candidateId \<and> rv_run_id r = runId
                           then r\<lparr> rv_status := status,
                                   rv_priority := (case priority of Some p \<Rightarrow> p | None \<Rightarrow> 0),
                                   rv_notes := notes, rv_updated_by := updatedBy,
                                   rv_updated_at := now \<rparr>
                           else r) (candidate_reviews s) \<rparr>)
      else if \<not> candidate_exists s candidateId \<or> \<not> run_exists s runId then Inl fk_failed
      else Inr (s\<lparr> candidate_reviews := candidate_reviews s @
                  [\<lparr> rv_candidate_id = candidateId, rv_run_id = runId, rv_status = status,
                     rv_priority = (case priority of Some p \<Rightarrow> p | None \<Rightarrow> 0),
                     rv_notes = notes, rv_updated_by = updatedBy,
                     rv_created_at = now, rv_updated_at = now \<rparr>] \<rparr>))"

definition getReviewStatus :: "store \<Rightarrow> string \<Rightarrow> string \<Rightarrow> review_row option" where
  "getReviewStatus s candidateId runId =
     first_row (filter (\<lambda>r. rv_candidate_id r = candidateId \<and> rv_run_id r = runId)
                  (candidate_reviews s))"

text \<open>The store's \<open>submitVerification\<close>: one plain \<open>INSERT\<close>.\<close>

definition store_submitVerification :: "store \<Rightarrow> verification_row \<Rightarrow> thrown + store" where
  "store_submitVerification s row =
     (if \<not> candidate_exists s (v_candidate_id row) \<or> \<not> run_exists s (v_run_id row)
      then Inl fk_failed
      else Inr (s\<lparr>candidate_verifications := candidate_verifications s @ [row]\<rparr>))"

text \<open>
  The store's \<open>promoteCandidate\<close>: an \<open>INSERT\<close> into \<open>candidate_promotions\<close>, then
  the review upsert. They are two statements, so the store is returned with the error.
\<close>

definition store_promoteCandidate :: "store \<Rightarrow> promotion_row \<Rightarrow> int \<Rightarrow> store \<times> thrown option" where
  "store_promoteCandidate s row now =
     (if \<not> candidate_exists s (pr_candidate_id row) \<or> \<not> run_exists s (pr_run_id row)
      then (s, Some fk_failed)
      else let s1 = s\<lparr>candidate_promotions := candidate_promotions s @ [row]\<rparr>
           in case upsertReviewStatus s1 (pr_candidate_id row) (pr_run_id row)
                     ''promoted_shortlist'' None None (pr_promoted_by row) now of
                Inl err \<Rightarrow> (s1, Some err)
              | Inr s2 \<Rightarrow> (s2, None))"

definition getPromotion :: "store \<Rightarrow> string \<Rightarrow> string \<Rightarrow> promotion_row option" where
  "getPromotion s candidateId runId =
     first_row (order_by (\<lambda>a b. pr_promoted_at b \<le> pr_promoted_at a)
                  (filter (\<lambda>r. pr_candidate_id r = candidateId \<and> pr_run_id r = runId)
                     (candidate_promotions s)))"

section \<open>Resolved configuration (\<open>config.ts\<close>)\<close>

text \<open>
  The fields of \<open>tools.recruiting\<close> that the modelled operations read, after the
  \<open>typeof\<close> tests of \<open>resolveRecruitingConfig\<close>: a field of another type, or a
  missing one, is \<open>None\<close>.
\<close>

record raw_recruiting =
  raw_enabled :: bool
  raw_minConfidenceForShortlist :: "jsnum option"
  raw_targetCandidatesPerRole :: "jsnum option"
  raw_browserVerification_enabled :: bool
  raw_browserVerification_mode :: "string option"
  raw_minProofLinks :: "jsnum option"

record RecruitingConfig =
  cfg_enabled :: bool
  minConfidenceForShortlist :: rat
  targetCandidatesPerRole :: rat
  browserVerification_enabled :: bool
  browserVerification_mode :: string
  promotion_minProofLinks :: "rat option"

definition clampNumber :: "jsnum option \<Rightarrow> rat \<Rightarrow> rat \<Rightarrow> rat \<Rightarrow> rat" where
  "clampNumber v lo hi fallback =
     (case v of Some (Fin q) \<Rightarrow> min hi (max lo q) | _ \<Rightarrow> fallback)"

definition resolveRecruitingConfig :: "raw_recruiting \<Rightarrow> RecruitingConfig" where
  "resolveRecruitingConfig raw =
     (let modeRaw = (case raw_browserVerification_mode raw of
                       Some m \<Rightarrow> toLowerCase (trim m) | None \<Rightarrow> [])
      in \<lparr> cfg_enabled = raw_enabled raw,
           minConfidenceForShortlist =
             clampNumber (raw_minConfidenceForShortlist raw) 0 1 (8 / 10),
           targetCandidatesPerRole =
             Math_trunc (clampNumber (raw_targetCandidatesPerRole raw) 1 2000 300),
           browserVerification_enabled = raw_browserVerification_enabled raw,
           browserVerification_mode = (if modeRaw = ''always'' then ''always'' else ''high_only''),
           promotion_minProofLinks =
             Some (Math_trunc (clampNumber (raw_minProofLinks raw) 1 10 2)) \<rparr>)"

section \<open>Run orchestrator (\<open>pipeline.ts\<close>)\<close>

subsection \<open>Collaborator data\<close>

record search_filter =
  flt_keywords :: "string option"
  flt_id :: "string option"
  flt_name :: "string option"

record TalentSearchParams =
  ts_api :: "string option"
  ts_keywords :: "string option"
  ts_role :: "search_filter list option"
  ts_skills :: "search_filter list option"
  ts_company :: "search_filter list option"
  ts_location :: "string option"
  ts_industry :: "string option"
  ts_network_distance :: "nat list option"
  ts_accountId :: "string option"

record TalentCandidate =
  tc_provider_id :: string
  tc_public_identifier :: "string option"
  tc_public_profile_url :: "string option"
  tc_profile_url :: "string option"
  tc_name :: string
  tc_headline :: "string option"
  tc_location :: "string option"
  tc_current_company :: "string option"
  tc_current_role :: "string option"
  tc_skills :: "string list"

record search_result =
  sres_success :: bool
  sres_candidates :: "TalentCandidate list"
  sres_error :: "string option"

record linkedin_account =
  acct_accountId :: string
  acct_unipileAccountId :: "string option"
  acct_enabled :: bool
  acct_apiKeySource :: string

record linkedin_error =
  le_type :: string
  le_isTransient :: bool
  le_message :: string

datatype ts_value = TsNum jsnum | TsStr string | TsOther

record activity_item =
  ai_created_at :: "ts_value option"
  ai_published_at :: "ts_value option"
  ai_timestamp :: "ts_value option"

record identity_hint =
  h_handle :: "string option"
  h_url :: "string option"

record external_footprint =
  ex_evidenceLinks :: "CandidateEvidenceLink list"
  ex_signals :: "CandidateSignal list"
  ex_github :: "identity_hint option"
  ex_x :: "identity_hint option"
  ex_personalSite :: "string option option"

text \<open>
  The collaborators and the impure primitives of a run. Every function imported from
  another module can throw, so it returns a thrown value or its result. A remote call is
  a function of the attempt number (from 1), so that a call can fail on one attempt and
  succeed on the next; \<open>items\<close> is \<open>None\<close> when the response holds no array. The
  clock is read once per run and \<open>randomUUID\<close> is indexed by its use: 0 for the run,
  the source rank for a candidate.
\<close>

record env =
  now :: int
  today :: string
  randomUUID :: "nat \<Rightarrow> string"
  hashUrl :: "string \<Rightarrow> string"
  String_of_number :: "jsnum \<Rightarrow> string"
  Date_parse :: "string \<Rightarrow> jsnum"
  stripAiNativeTerms :: "string \<Rightarrow> string"
  resolveLinkedInAccount :: "string option \<Rightarrow> thrown + linkedin_account"
  getMissingCredentials :: "linkedin_account \<Rightarrow> thrown + string list"
  buildClientOptions :: "linkedin_account \<Rightarrow> thrown + string option"
  classifyLinkedInError :: "thrown \<Rightarrow> thrown + linkedin_error"
  searchTalent :: "TalentSearchParams \<Rightarrow> jsnum \<Rightarrow> jsnum \<Rightarrow> nat \<Rightarrow> thrown + search_result"
  getUserProfile :: "string \<Rightarrow> nat \<Rightarrow> thrown + bool"
  getUserPosts :: "string \<Rightarrow> nat \<Rightarrow> thrown + activity_item list option"
  getUserComments :: "string \<Rightarrow> nat \<Rightarrow> thrown + activity_item list option"
  getUserReactions :: "string \<Rightarrow> nat \<Rightarrow> thrown + activity_item list option"
  enrichExternalFootprint :: "TalentCandidate \<Rightarrow> string \<Rightarrow> nat \<Rightarrow> thrown + external_footprint"

subsection \<open>Retries and error classification\<close>

definition thrown_message :: "thrown \<Rightarrow> string" where
  "thrown_message err =
     (case err of StageError _ m _ _ \<Rightarrow> m | ErrorObj _ m \<Rightarrow> m | StrVal v \<Rightarrow> v)"

definition isRetryableExternalError :: "thrown \<Rightarrow> bool" where
  "isRetryableExternalError err =
     (let message = toLowerCase (thrown_message err)
      in str_includes message ''429'' \<or> str_includes message ''503'' \<or>
         str_includes message ''timeout'' \<or> str_includes message ''network'' \<or>
         str_includes message ''econn'')"

datatype provider = unipile | exa

definition retryable_for :: "env \<Rightarrow> provider \<Rightarrow> thrown \<Rightarrow> thrown + bool" where
  "retryable_for e p err =
     (case p of
        unipile \<Rightarrow> (case classifyLinkedInError e err of
                      Inl thrownByClassifier \<Rightarrow> Inl thrownByClassifier
                    | Inr classified \<Rightarrow> Inr (le_isTransient classified))
      | exa \<Rightarrow> Inr (isRetryableExternalError err))"

text \<open>
  The loop of \<open>withRetry\<close>, without its sleeps. What the test for a retry throws
  leaves the \<open>catch\<close> block and the loop. The statement after the loop is reached
  only when no attempt is made; \<open>lastError\<close> is then \<open>undefined\<close>.
\<close>

function retry_from ::
  "(thrown \<Rightarrow> thrown + bool) \<Rightarrow> (nat \<Rightarrow> thrown + 'a) \<Rightarrow> nat \<Rightarrow> nat \<Rightarrow> thrown + 'a" where
  "retry_from retryable task maxAttempts attempt =
     (if attempt \<le> maxAttempts
      then (case task attempt of
              Inr v \<Rightarrow> Inr v
            | Inl err \<Rightarrow>
                (case retryable err of
                   Inl thrownInCatch \<Rightarrow> Inl thrownInCatch
                 | Inr again \<Rightarrow>
                     if \<not> again \<or> attempt = maxAttempts then Inl err
                     else retry_from retryable task maxAttempts (attempt + 1)))
      else Inl (ErrorObj ''Error'' ''undefined''))"
  by pat_completeness auto
termination
  by (relation "measure (\<lambda>(retryable, task, maxAttempts, attempt). Suc maxAttempts - attempt)")
     auto

definition withRetry :: "env \<Rightarrow> provider \<Rightarrow> (nat \<Rightarrow> thrown + 'a) \<Rightarrow> thrown + 'a" where
  "withRetry e p task = retry_from (retryable_for e p) task 4 1"

record run_error_info =
  info_message :: string
  info_errorType :: string
  info_retryable :: bool

text \<open>
  \<open>classifyRunError\<close>: a \<open>PipelineStageError\<close> is read directly; any other value
  goes through \<open>classifyLinkedInError\<close>, and what that call throws is thrown on.
\<close>

definition classifyRunError :: "env \<Rightarrow> thrown \<Rightarrow> thrown + run_error_info" where
  "classifyRunError e err =
     (case err of
        StageError _ m t r \<Rightarrow>
          Inr \<lparr> info_message = m, info_errorType = t, info_retryable = r \<rparr>
      | _ \<Rightarrow>
          (case classifyLinkedInError e err of
             Inl thrownByClassifier \<Rightarrow> Inl thrownByClassifier
           | Inr linkedInError \<Rightarrow>
               Inr (if le_type linkedInError \<noteq> ''unknown''
                    then \<lparr> info_message = le_message linkedInError,
                           info_errorType = le_type linkedInError,
                           info_retryable = le_isTransient linkedInError \<rparr>
                    else \<lparr> info_message = thrown_message err,
                           info_errorType =
                             (case err of ErrorObj n _ \<Rightarrow> (if n \<noteq> [] then n else ''error'')
                                        | _ \<Rightarrow> ''error''),
                           info_retryable = isRetryableExternalError err \<rparr>)))"

definition error_stage :: "thrown \<Rightarrow> string" where
  "error_stage err = (case err of StageError st _ _ _ \<Rightarrow> st | _ \<Rightarrow> ''pipeline_run'')"

subsection \<open>Signals from LinkedIn activity\<close>

definition toNumber :: "(string \<Rightarrow> jsnum) \<Rightarrow> ts_value option \<Rightarrow> rat option" where
  "toNumber parse v =
     (case v of
        Some (TsNum (Fin q)) \<Rightarrow>
          if q > 1000000000000 then Some q
          else if q > 1000000000 then Some (q * 1000)
          else None
      | Some (TsStr str) \<Rightarrow>
          if trim str \<noteq> []
          then (case parse str of Fin p \<Rightarrow> Some p | _ \<Rightarrow> None)
          else None
      | _ \<Rightarrow> None)"

definition item_time :: "activity_item \<Rightarrow> ts_value option" where
  "item_time item =
     (case ai_created_at item of
        Some v \<Rightarrow> Some v
      | None \<Rightarrow> (case ai_published_at item of Some v \<Rightarrow> Some v | None \<Rightarrow> ai_timestamp item))"

definition calcRecentActivityScore ::
  "(string \<Rightarrow> jsnum) \<Rightarrow> int \<Rightarrow> activity_item list \<Rightarrow> int \<Rightarrow> rat" where
  "calcRecentActivityScore parse clock activityItems windowMs =
     (if length activityItems = 0 then 0
      else let cutoff = of_int (clock - windowMs);
               recentCount = length (filter (\<lambda>ts. case ts of Some t \<Rightarrow> cutoff \<le> t
                                                           | None \<Rightarrow> False)
                                       (map (\<lambda>item. toNumber parse (item_time item))
                                          activityItems))
           in if recentCount \<le> 0 then 0 else min 1 (of_nat recentCount / 12))"

definition linkedinSignals ::
  "env \<Rightarrow> TalentCandidate \<Rightarrow> activity_item list \<Rightarrow> activity_item list \<Rightarrow> activity_item list
     \<Rightarrow> CandidateSignal list" where
  "linkedinSignals e candidate posts comments reactions =
     (let windowMs = 90 * 24 * 60 * 60 * 1000
      in [\<lparr> sig_key = ''builder_activity'', sig_value = None,
            numericValue = Some (Fin (calcRecentActivityScore (Date_parse e) (now e) posts windowMs)),
            sig_source = ''linkedin.posts'' \<rparr>,
          \<lparr> sig_key = ''builder_activity'', sig_value = None,
            numericValue = Some (Fin (calcRecentActivityScore (Date_parse e) (now e) comments windowMs)),
            sig_source = ''linkedin.comments'' \<rparr>,
          \<lparr> sig_key = ''builder_activity'', sig_value = None,
            numericValue = Some (Fin (calcRecentActivityScore (Date_parse e) (now e) reactions windowMs)),
            sig_source = ''linkedin.reactions'' \<rparr>,
          \<lparr> sig_key = ''technical_depth'', sig_value = None,
            numericValue = Some (Fin (if length (tc_skills candidate) > 0
                                      then min 1 (of_nat (length (tc_skills candidate)) / 12)
                                      else 0)),
            sig_source = ''linkedin.profile'' \<rparr>,
          \<lparr> sig_key = ''role_fit'', sig_value = None,
            numericValue = Some (Fin (if truthy (tc_headline candidate) then 6 / 10 else 3 / 10)),
            sig_source = ''linkedin.profile'' \<rparr>])"

subsection \<open>Search normalisation and diagnostics\<close>

definition DEFAULT_PAGE_SIZE :: rat where
  "DEFAULT_PAGE_SIZE = 50"

definition strip_keywords :: "env \<Rightarrow> string option \<Rightarrow> string option" where
  "strip_keywords e kw =
     (if truthy kw
      then (let t = stripAiNativeTerms e (the kw) in if t = [] then None else Some t)
      else kw)"

definition normalizeSearchForSourceMode ::
  "env \<Rightarrow> TalentSearchParams \<Rightarrow> string \<Rightarrow> TalentSearchParams" where
  "normalizeSearchForSourceMode e input mode =
     (if mode \<noteq> ''broad'' then input
      else input\<lparr>
        ts_keywords := strip_keywords e (ts_keywords input),
        ts_role := map_option
          (\<lambda>fs. filter (\<lambda>f. truthy (flt_keywords f) \<or> truthy (flt_id f))
                  (map (\<lambda>f. f\<lparr>flt_keywords := strip_keywords e (flt_keywords f)\<rparr>) fs))
          (ts_role input),
        ts_skills := map_option
          (\<lambda>fs. filter (\<lambda>f. truthy (flt_keywords f) \<or> truthy (flt_id f))
                  (map (\<lambda>f. f\<lparr>flt_keywords := strip_keywords e (flt_keywords f)\<rparr>) fs))
          (ts_skills input),
        ts_company := map_option
          (\<lambda>fs. filter (\<lambda>f. truthy (flt_keywords f) \<or> truthy (flt_id f) \<or> truthy (flt_name f))
                  (map (\<lambda>f. f\<lparr>flt_keywords := strip_keywords e (flt_keywords f)\<rparr>) fs))
          (ts_company input) \<rparr>)"

definition trimmed_keywords :: "search_filter list option \<Rightarrow> string list" where
  "trimmed_keywords fs =
     filter (\<lambda>k. k \<noteq> [])
       (map (\<lambda>f. case flt_keywords f of Some k \<Rightarrow> trim k | None \<Rightarrow> [])
          (case fs of Some l \<Rightarrow> l | None \<Rightarrow> []))"

definition buildSearchQueryUsed ::
  "string \<Rightarrow> TalentSearchParams \<Rightarrow> jsnum \<Rightarrow> jsnum \<Rightarrow> search_query_used" where
  "buildSearchQueryUsed api search pageSize maxPages =
     \<lparr> q_api = api,
       q_keywords = ts_keywords search,
       q_roleKeywords = trimmed_keywords (ts_role search),
       q_skills = trimmed_keywords (ts_skills search),
       q_companyKeywords =
         filter (\<lambda>k. k \<noteq> [])
           (map (\<lambda>f. let k = (case flt_keywords f of Some k \<Rightarrow> trim k | None \<Rightarrow> [])
                     in if k \<noteq> [] then k
                        else (case flt_name f of Some n \<Rightarrow> trim n | None \<Rightarrow> []))
              (case ts_company search of Some l \<Rightarrow> l | None \<Rightarrow> [])),
       q_location = ts_location search,
       q_industry = ts_industry search,
       q_networkDistance =
         filter (\<lambda>v. v = 1 \<or> v = 2 \<or> v = 3)
           (case ts_network_distance search of Some l \<Rightarrow> l | None \<Rightarrow> []),
       q_pageSize = pageSize,
       q_maxPages = maxPages \<rparr>"

definition resolvedApi :: "TalentSearchParams \<Rightarrow> string" where
  "resolvedApi search =
     (if ts_api search = Some ''recruiter'' \<or> ts_api search = Some ''sales_navigator''
      then the (ts_api search) else ''classic'')"

definition emptyCounts :: CandidatePipelineCounts where
  "emptyCounts =
     \<lparr> sourced = 0, enriched = 0, enrichFailed = 0, externalDiscovered = 0,
       identityConfirmedHigh = 0, identityMediumLow = 0, cnt_shortlistEligible = 0 \<rparr>"

text \<open>
  A JavaScript \<open>Map\<close> keeps its keys in insertion order: an association list in
  which \<open>set\<close> overwrites in place or appends.
\<close>

type_synonym stage_errors = "(string \<times> (string \<times> error_message) list) list"

fun map_set :: "'k \<Rightarrow> 'v \<Rightarrow> ('k \<times> 'v) list \<Rightarrow> ('k \<times> 'v) list" where
  "map_set k v [] = [(k, v)]"
| "map_set k v ((k', v') # kvs) =
     (if k' = k then (k, v) # kvs else (k', v') # map_set k v kvs)"

definition upsertStageError :: "stage_errors \<Rightarrow> string \<Rightarrow> string \<Rightarrow> string \<Rightarrow> stage_errors" where
  "upsertStageError m stage message errorType =
     (let stageMap = (case map_of m stage of Some sm \<Rightarrow> sm | None \<Rightarrow> []);
          k = errorType @ '':'' @ message;
          stageMap' =
            (case map_of stageMap k of
               Some current \<Rightarrow> map_set k (current\<lparr>em_count := em_count current + 1\<rparr>) stageMap
             | None \<Rightarrow> map_set k \<lparr> em_message = message, em_errorType = errorType,
                                   em_count = 1 \<rparr> stageMap)
      in map_set stage stageMap' m)"

definition buildStageErrors :: "stage_errors \<Rightarrow> ErrorAggregate list" where
  "buildStageErrors m =
     order_by (\<lambda>a b. ea_count b \<le> ea_count a)
       (map (\<lambda>(stage, entries).
               let messages = take 3 (order_by (\<lambda>a b. em_count b \<le> em_count a)
                                        (map snd entries))
               in \<lparr> ea_stage = stage, ea_count = sum_list (map em_count messages),
                    ea_topMessages = messages \<rparr>) m)"

text \<open>The mutable state of one run: the store and the two closures' variables.\<close>

record run_acc =
  acc_store :: store
  acc_counts :: CandidatePipelineCounts
  acc_stageErrors :: stage_errors

text \<open>
  \<open>persistFailure\<close>: the stage aggregate is updated first, then the store is asked
  to record the failure, which may throw.
\<close>

definition persistFailure ::
  "env \<Rightarrow> string \<Rightarrow> run_acc \<Rightarrow> string \<Rightarrow> string option \<Rightarrow> run_error_info
     \<Rightarrow> run_acc \<times> thrown option" where
  "persistFailure e runId acc stage candidateRef info =
     (let acc1 = acc\<lparr>acc_stageErrors :=
                   upsertStageError (acc_stageErrors acc) stage (info_message info)
                     (info_errorType info)\<rparr>
      in case recordFailure (acc_store acc1)
                \<lparr> fp_runId = runId, fp_step = stage, fp_candidateRef = candidateRef,
                  fp_errorType = info_errorType info, fp_message = info_message info,
                  fp_retryable = info_retryable info \<rparr> (now e) of
           Inl err \<Rightarrow> (acc1, Some err)
         | Inr s' \<Rightarrow> (acc1\<lparr>acc_store := s'\<rparr>, None))"

record run_context =
  ctx_runId :: string
  ctx_searchQueryUsed :: search_query_used
  ctx_sourceQueryMode :: string
  ctx_evidenceQueryMode :: string
  ctx_accountHealth :: account_health
  ctx_browserVerificationEnabled :: bool

definition buildDiagnostics ::
  "run_context \<Rightarrow> run_acc \<Rightarrow> failure_descriptor option \<Rightarrow> CandidatePipelineDiagnostics" where
  "buildDiagnostics ctx acc failure =
     \<lparr> d_counts = acc_counts acc,
       d_errorsByStage = buildStageErrors (acc_stageErrors acc),
       d_searchQueryUsed = ctx_searchQueryUsed ctx,
       d_sourceQueryMode = ctx_sourceQueryMode ctx,
       d_evidenceQueryMode = ctx_evidenceQueryMode ctx,
       d_accountHealth = ctx_accountHealth ctx,
       d_failure = failure \<rparr>"

subsection \<open>One candidate\<close>

text \<open>A sequence of store statements: the first that throws ends the sequence.\<close>

fun run_ops :: "(store \<Rightarrow> thrown + store) list \<Rightarrow> store \<Rightarrow> store \<times> thrown option" where
  "run_ops [] s = (s, None)"
| "run_ops (f # fs) s = (case f s of Inl err \<Rightarrow> (s, Some err) | Inr s' \<Rightarrow> run_ops fs s')"

definition profileUrlOf :: "TalentCandidate \<Rightarrow> string option" where
  "profileUrlOf candidate =
     (case tc_public_profile_url candidate of
        Some u \<Rightarrow> Some u | None \<Rightarrow> tc_profile_url candidate)"

text \<open>
  The identity the run works with: \<open>resolveIdentity\<close> on the LinkedIn record and the
  hints of the external enricher, with \<open>shortlistEligible\<close> replaced by the comparison
  of the confidence with the configured threshold.
\<close>

definition identityInput :: "TalentCandidate \<Rightarrow> external_footprint \<Rightarrow> IdentityResolutionInput" where
  "identityInput candidate external =
     \<lparr> linkedin = \<lparr> li_providerId = Some (tc_provider_id candidate),
                    li_publicIdentifier = tc_public_identifier candidate,
                    li_profileUrl = profileUrlOf candidate,
                    li_name = Some (tc_name candidate),
                    li_employer = tc_current_company candidate,
                    li_location = tc_location candidate \<rparr>,
       github = Some \<lparr> gh_handle = opt_field h_handle (ex_github external),
                       gh_url = opt_field h_url (ex_github external),
                       gh_profileLinkedinUrl = None, gh_employer = None,
                       gh_location = None \<rparr>,
       x = Some \<lparr> x_handle = opt_field h_handle (ex_x external),
                  x_url = opt_field h_url (ex_x external),
                  x_profileLinkedinUrl = None \<rparr>,
       personalSite = Some \<lparr> site_url = (case ex_personalSite external of
                                           Some u \<Rightarrow> u | None \<Rightarrow> None),
                             site_linkedinUrl = None, site_githubUrl = None,
                             site_xUrl = None \<rparr> \<rparr>"

definition pipelineIdentity ::
  "RecruitingConfig \<Rightarrow> TalentCandidate \<Rightarrow> external_footprint \<Rightarrow> IdentityResolution" where
  "pipelineIdentity recruiting candidate external =
     (let rawIdentity = resolveIdentity (identityInput candidate external)
      in rawIdentity\<lparr> shortlistEligible :=
           js_ge (confidence rawIdentity) (Fin (minConfidenceForShortlist recruiting)) \<rparr>)"

definition pipelineEvidence :: "TalentCandidate \<Rightarrow> external_footprint \<Rightarrow> CandidateEvidenceLink list" where
  "pipelineEvidence candidate external =
     filter (\<lambda>item. ev_url item \<noteq> [])
       (\<lparr> ev_url = (case profileUrlOf candidate of Some u \<Rightarrow> u | None \<Rightarrow> []),
          ev_title = Some (''LinkedIn: '' @ tc_name candidate),
          ev_source = ''linkedin.profile'', ev_relevance = Some 1 \<rparr>
        # ex_evidenceLinks external)"

definition pipelineSignals ::
  "RecruitingConfig \<Rightarrow> bool \<Rightarrow> IdentityResolution \<Rightarrow> CandidateSignal list
     \<Rightarrow> external_footprint \<Rightarrow> CandidateSignal list" where
  "pipelineSignals recruiting browserVerificationEnabled identity signals external =
     signals @ ex_signals external @
     (if browserVerificationEnabled \<and> browserVerification_mode recruiting = ''high_only'' \<and>
         band identity = HIGH
      then [\<lparr> sig_key = ''browser_verification_needed'', sig_value = Some ''true'',
              numericValue = Some (Fin 1), sig_source = ''pipeline'' \<rparr>]
      else [])"

definition pipelineScore ::
  "RecruitingConfig \<Rightarrow> bool \<Rightarrow> TalentCandidate \<Rightarrow> CandidateSignal list \<Rightarrow> external_footprint
     \<Rightarrow> bool \<Rightarrow> CandidateScore" where
  "pipelineScore recruiting browserVerificationEnabled candidate signals external openToWork =
     (let identity = pipelineIdentity recruiting candidate external
      in computeCandidateScore
           \<lparr> p_signals = pipelineSignals recruiting browserVerificationEnabled identity
                            signals external,
             p_identity = identity,
             p_evidence = pipelineEvidence candidate external,
             p_openToWork = Some openToWork \<rparr>)"

text \<open>The writes at the end of the candidate's \<open>try\<close> block, in the source's order.\<close>

definition persistCandidate ::
  "env \<Rightarrow> RecruitingConfig \<Rightarrow> run_context \<Rightarrow> TalentCandidate \<Rightarrow> string
     \<Rightarrow> CandidateSignal list \<Rightarrow> external_footprint \<Rightarrow> bool \<Rightarrow> store \<Rightarrow> store \<times> thrown option" where
  "persistCandidate e recruiting ctx candidate candidateId signals external openToWork s =
     (let identity = pipelineIdentity recruiting candidate external;
          gh = ex_github external;
          xh = ex_x external
      in run_ops
           [\<lambda>s. upsertIdentity s candidateId ''cross_platform'' None None identity (now e),
            \<lambda>s. if truthy (opt_field h_handle gh) \<or> truthy (opt_field h_url gh)
                 then upsertIdentity s candidateId ''github'' (opt_field h_handle gh)
                        (opt_field h_url gh) identity (now e)
                 else Inr s,
            \<lambda>s. if truthy (opt_field h_handle xh) \<or> truthy (opt_field h_url xh)
                 then upsertIdentity s candidateId ''x'' (opt_field h_handle xh)
                        (opt_field h_url xh) identity (now e)
                 else Inr s,
            \<lambda>s. addSignals s candidateId
                   (pipelineSignals recruiting (ctx_browserVerificationEnabled ctx) identity
                      signals external) (now e),
            \<lambda>s. upsertScore s candidateId (ctx_runId ctx)
                   (pipelineScore recruiting (ctx_browserVerificationEnabled ctx) candidate
                      signals external openToWork) (now e),
            \<lambda>s. addEvidenceLinks s candidateId (ctx_runId ctx)
                   (pipelineEvidence candidate external) (now e)] s)"

text \<open>
  The four LinkedIn reads. The three activity reads run side by side under
  \<open>Promise.all\<close>; the model reports the failure of the first of them in argument order.
\<close>

definition fetchLinkedIn ::
  "env \<Rightarrow> TalentCandidate
     \<Rightarrow> thrown + bool \<times> activity_item list \<times> activity_item list \<times> activity_item list" where
  "fetchLinkedIn e candidate =
     (case withRetry e unipile (getUserProfile e (tc_provider_id candidate)) of
        Inl err \<Rightarrow> Inl err
      | Inr openToWork \<Rightarrow>
      (case withRetry e unipile (getUserPosts e (tc_provider_id candidate)) of
        Inl err \<Rightarrow> Inl err
      | Inr postsRes \<Rightarrow>
      (case withRetry e unipile (getUserComments e (tc_provider_id candidate)) of
        Inl err \<Rightarrow> Inl err
      | Inr commentsRes \<Rightarrow>
      (case withRetry e unipile (getUserReactions e (tc_provider_id candidate)) of
        Inl err \<Rightarrow> Inl err
      | Inr reactionsRes \<Rightarrow>
          Inr (openToWork,
               (case postsRes of Some l \<Rightarrow> l | None \<Rightarrow> []),
               (case commentsRes of Some l \<Rightarrow> l | None \<Rightarrow> []),
               (case reactionsRes of Some l \<Rightarrow> l | None \<Rightarrow> []))))))"

definition countCandidate ::
  "CandidatePipelineCounts \<Rightarrow> external_footprint \<Rightarrow> IdentityResolution \<Rightarrow> CandidatePipelineCounts" where
  "countCandidate counts external identity =
     (let c1 = (if length (ex_evidenceLinks external) > 0
                then counts\<lparr>externalDiscovered := externalDiscovered counts + 1\<rparr>
                else counts)
      in if band identity = CONFIRMED \<or> band identity = HIGH
         then c1\<lparr>identityConfirmedHigh := identityConfirmedHigh c1 + 1\<rparr>
         else c1\<lparr>identityMediumLow := identityMediumLow c1 + 1\<rparr>)"

text \<open>
  The \<open>try\<close> block of the loop body for the candidate of source rank \<open>rank\<close>. It
  returns the state reached and the value thrown, if any.
\<close>

definition enrichCandidate ::
  "env \<Rightarrow> RecruitingConfig \<Rightarrow> run_context \<Rightarrow> nat \<Rightarrow> TalentCandidate \<Rightarrow> run_acc
     \<Rightarrow> run_acc \<times> thrown option" where
  "enrichCandidate e recruiting ctx rank candidate acc =
     (case upsertCandidate (hashUrl e) (acc_store acc)
             \<lparr> cr_providerId = Some (tc_provider_id candidate),
               cr_publicIdentifier = tc_public_identifier candidate,
               cr_profileUrl = profileUrlOf candidate,
               cr_name = Some (tc_name candidate),
               cr_headline = tc_headline candidate,
               cr_location = tc_location candidate,
               cr_currentCompany = tc_current_company candidate,
               cr_currentRole = tc_current_role candidate \<rparr> (now e) (randomUUID e rank) of
        Inl err \<Rightarrow> (acc, Some err)
      | Inr (s1, candidateId, _) \<Rightarrow>
      (case addSourceRecord s1 candidateId (ctx_runId ctx) ''linkedin.search'' rank (now e) of
        Inl err \<Rightarrow> (acc\<lparr>acc_store := s1\<rparr>, Some err)
      | Inr s2 \<Rightarrow>
      (case fetchLinkedIn e candidate of
        Inl err \<Rightarrow> (acc\<lparr>acc_store := s2\<rparr>, Some err)
      | Inr (openToWork, posts, comments, reactions) \<Rightarrow>
      (case withRetry e exa (enrichExternalFootprint e candidate (ctx_evidenceQueryMode ctx)) of
        Inl err \<Rightarrow> (acc\<lparr>acc_store := s2\<rparr>, Some err)
      | Inr external \<Rightarrow>
          (let signals = linkedinSignals e candidate posts comments reactions;
               identity = pipelineIdentity recruiting candidate external;
               counts1 = countCandidate (acc_counts acc) external identity;
               score = pipelineScore recruiting (ctx_browserVerificationEnabled ctx)
                         candidate signals external openToWork
           in case persistCandidate e recruiting ctx candidate candidateId signals external
                     openToWork s2 of
                (s3, Some err) \<Rightarrow> (acc\<lparr>acc_store := s3, acc_counts := counts1\<rparr>, Some err)
              | (s3, None) \<Rightarrow>
                  (let counts2 = (if score_shortlistEligible score
                                  then counts1\<lparr>cnt_shortlistEligible :=
                                                 cnt_shortlistEligible counts1 + 1\<rparr>
                                  else counts1)
                   in (acc\<lparr>acc_store := s3,
                           acc_counts := counts2\<lparr>enriched := enriched counts2 + 1\<rparr>\<rparr>,
                       None)))))))"

text \<open>
  The loop body with its \<open>catch\<close>: a failed candidate is counted, classified and
  recorded. Only a throw from inside the \<open>catch\<close> (from the classifier or from the
  store) leaves the body.
\<close>

definition processCandidate ::
  "env \<Rightarrow> RecruitingConfig \<Rightarrow> run_context \<Rightarrow> nat \<Rightarrow> TalentCandidate \<Rightarrow> run_acc
     \<Rightarrow> run_acc \<times> thrown option" where
  "processCandidate e recruiting ctx rank candidate acc =
     (case enrichCandidate e recruiting ctx rank candidate acc of
        (acc1, None) \<Rightarrow> (acc1, None)
      | (acc1, Some err) \<Rightarrow>
          (let acc2 = acc1\<lparr>acc_counts :=
                        (acc_counts acc1)\<lparr>enrichFailed := enrichFailed (acc_counts acc1) + 1\<rparr>\<rparr>
           in case classifyRunError e err of
                Inl thrownByClassifier \<Rightarrow> (acc2, Some thrownByClassifier)
              | Inr info \<Rightarrow>
                  persistFailure e (ctx_runId ctx) acc2 ''candidate_enrich_score''
                    (Some (tc_provider_id candidate)) info))"

fun processCandidates ::
  "env \<Rightarrow> RecruitingConfig \<Rightarrow> run_context \<Rightarrow> nat \<Rightarrow> TalentCandidate list \<Rightarrow> run_acc
     \<Rightarrow> run_acc \<times> thrown option" where
  "processCandidates e recruiting ctx rank [] acc = (acc, None)"
| "processCandidates e recruiting ctx rank (candidate # rest) acc =
     (case processCandidate e recruiting ctx rank candidate acc of
        (acc1, Some err) \<Rightarrow> (acc1, Some err)
      | (acc1, None) \<Rightarrow> processCandidates e recruiting ctx (rank + 1) rest acc1)"

subsection \<open>\<open>CandidatePipelineService.run\<close>\<close>

record PipelineRoleInput =
  role_roleKey :: string
  role_roleTitle :: string
  role_search :: TalentSearchParams
  role_targetCandidates :: "jsnum option"

record CandidatePipelineRunInput =
  in_role :: PipelineRoleInput
  in_runId :: "string option"
  in_idempotencyKey :: "string option"
  in_browserVerificationEnabled :: "bool option"
  in_sourceQueryMode :: "string option"
  in_evidenceQueryMode :: "string option"

record run_result =
  out_runId :: string
  out_resumed :: bool
  out_status :: "CandidatePipelineStatus option"

text \<open>
  \<open>Math.max(1, Math.trunc(role.targetCandidates ?? this.recruiting.run.targetCandidatesPerRole))\<close>.
\<close>

definition effectiveTargetCandidates :: "RecruitingConfig \<Rightarrow> PipelineRoleInput \<Rightarrow> jsnum" where
  "effectiveTargetCandidates recruiting role =
     js_max (Fin 1)
       (js_trunc (case role_targetCandidates role of
                    Some v \<Rightarrow> v
                  | None \<Rightarrow> Fin (targetCandidatesPerRole recruiting)))"

definition buildIdempotencyKey :: "env \<Rightarrow> string \<Rightarrow> jsnum \<Rightarrow> string \<Rightarrow> string" where
  "buildIdempotencyKey e roleKey targetCandidates date =
     roleKey @ '':'' @ String_of_number e targetCandidates @ '':'' @ date"

text \<open>\<open>Math.ceil(targetCandidates / DEFAULT_PAGE_SIZE)\<close>.\<close>

fun ceil_pages :: "jsnum \<Rightarrow> jsnum" where
  "ceil_pages (Fin v) = Fin (of_int \<lceil>v / DEFAULT_PAGE_SIZE\<rceil>)"
| "ceil_pages n = n"

fun join_with :: "string \<Rightarrow> string list \<Rightarrow> string" where
  "join_with sep [] = []"
| "join_with sep [a] = a"
| "join_with sep (a # b # rest) = a @ sep @ join_with sep (b # rest)"

text \<open>
  The \<open>try\<close> block of \<open>run\<close>: preflight, sourcing, the loop over the candidates and
  \<open>markRunCompleted\<close>. It returns the state reached and the value thrown, if any.
\<close>

definition runBody ::
  "env \<Rightarrow> RecruitingConfig \<Rightarrow> run_context \<Rightarrow> linkedin_account \<Rightarrow> string list
     \<Rightarrow> TalentSearchParams \<Rightarrow> string \<Rightarrow> jsnum \<Rightarrow> jsnum \<Rightarrow> run_acc
     \<Rightarrow> run_acc \<times> thrown option" where
  "runBody e recruiting ctx account missingCredentials normalizedSearch api targetCandidates
       maxPages acc =
     (if \<not> acct_enabled account
      then (acc, Some (StageError ''linkedin_preflight''
                         ''LinkedIn integration is disabled for the resolved account.''
                         ''auth'' False))
      else case buildClientOptions e account of
        Inl err \<Rightarrow> (acc, Some err)
      | Inr None \<Rightarrow>
          (acc, Some (StageError ''linkedin_preflight''
                        (''LinkedIn credentials missing: '' @
                           join_with '', '' missingCredentials @ ''.'')
                        ''auth'' False))
      | Inr (Some clientOpts) \<Rightarrow>
          (case withRetry e unipile
                  (searchTalent e (normalizedSearch\<lparr>ts_api := Some api\<rparr>)
                     targetCandidates maxPages) of
             Inl err \<Rightarrow> (acc, Some err)
           | Inr searchResult \<Rightarrow>
               if \<not> sres_success searchResult
               then (case classifyLinkedInError e
                            (StrVal (case sres_error searchResult of
                                       Some m \<Rightarrow> m | None \<Rightarrow> ''LinkedIn search failed'')) of
                       Inl err \<Rightarrow> (acc, Some err)
                     | Inr classified \<Rightarrow>
                         (acc, Some (StageError ''linkedin_search''
                                       (if truthy (sres_error searchResult)
                                        then the (sres_error searchResult)
                                        else ''LinkedIn search failed'')
                                       (le_type classified) (le_isTransient classified))))
               else (case processCandidates e recruiting ctx 1 (sres_candidates searchResult)
                            (acc\<lparr>acc_counts := (acc_counts acc)
                                   \<lparr>sourced := length (sres_candidates searchResult)\<rparr>\<rparr>) of
                       (acc1, Some err) \<Rightarrow> (acc1, Some err)
                     | (acc1, None) \<Rightarrow>
                         (acc1\<lparr>acc_store :=
                                 markRunCompleted (acc_store acc1) (ctx_runId ctx)
                                   (Some (buildDiagnostics ctx acc1 None)) (now e)\<rparr>,
                          None))))"

text \<open>
  The \<open>catch\<close> block of \<open>run\<close>: classify, record the failure, mark the run failed.
  A throw from \<open>classifyRunError\<close> or from \<open>persistFailure\<close> leaves \<open>run\<close>.
\<close>

definition runCatch ::
  "env \<Rightarrow> run_context \<Rightarrow> run_acc \<Rightarrow> thrown \<Rightarrow> store \<times> (thrown + run_result)" where
  "runCatch e ctx acc err =
     (case classifyRunError e err of
        Inl thrownByClassifier \<Rightarrow> (acc_store acc, Inl thrownByClassifier)
      | Inr info \<Rightarrow>
          (let stage = error_stage err
           in case persistFailure e (ctx_runId ctx) acc stage None info of
                (acc1, Some err1) \<Rightarrow> (acc_store acc1, Inl err1)
              | (acc1, None) \<Rightarrow>
                  (let s1 = markRunFailed (acc_store acc1) (ctx_runId ctx)
                              (Some (buildDiagnostics ctx acc1
                                       (Some \<lparr> fd_stage = stage,
                                               fd_message = info_message info,
                                               fd_errorType = info_errorType info \<rparr>)))
                              (now e)
                   in (s1, Inr \<lparr> out_runId = ctx_runId ctx, out_resumed = False,
                                 out_status = getRunStatus s1 (ctx_runId ctx) \<rparr>))))"

definition runParams :: "env \<Rightarrow> RecruitingConfig \<Rightarrow> CandidatePipelineRunInput \<Rightarrow> beginRun_params" where
  "runParams e recruiting input =
     (let role = in_role input;
          targetCandidates = effectiveTargetCandidates recruiting role;
          dailyKey = buildIdempotencyKey e (role_roleKey role) targetCandidates (today e)
      in \<lparr> bp_runId = in_runId input,
           bp_idempotencyKey = Some (case in_idempotencyKey input of
                                       Some k \<Rightarrow> k | None \<Rightarrow> dailyKey),
           bp_roleKey = role_roleKey role, bp_roleTitle = role_roleTitle role,
           bp_targetCandidates = targetCandidates \<rparr>)"

text \<open>
  What the closures of \<open>run\<close> read, fixed before the \<open>try\<close> block from the input, the
  resolved account and its missing credentials.
\<close>

definition runContext ::
  "env \<Rightarrow> RecruitingConfig \<Rightarrow> CandidatePipelineRunInput \<Rightarrow> string \<Rightarrow> linkedin_account
     \<Rightarrow> string list \<Rightarrow> run_context" where
  "runContext e recruiting input runId account missingCredentials =
     (let role = in_role input;
          sourceQueryMode = (case in_sourceQueryMode input of Some m \<Rightarrow> m | None \<Rightarrow> ''default'');
          evidenceQueryMode =
            (case in_evidenceQueryMode input of Some m \<Rightarrow> m | None \<Rightarrow> ''default'');
          targetCandidates = effectiveTargetCandidates recruiting role;
          maxPages = js_max (Fin 3) (js_max (Fin 1) (ceil_pages targetCandidates))
      in \<lparr> ctx_runId = runId,
           ctx_searchQueryUsed =
             buildSearchQueryUsed (resolvedApi (role_search role))
               (normalizeSearchForSourceMode e (role_search role) sourceQueryMode)
               (Fin DEFAULT_PAGE_SIZE) maxPages,
           ctx_sourceQueryMode = sourceQueryMode,
           ctx_evidenceQueryMode = evidenceQueryMode,
           ctx_accountHealth =
             \<lparr> requestedAccountId = ts_accountId (role_search role),
               resolvedAccountId = acct_accountId account,
               ah_unipileAccountId = acct_unipileAccountId account,
               ah_enabled = acct_enabled account,
               ah_apiKeySource = acct_apiKeySource account,
               ah_missingCredentials = missingCredentials,
               recruiterReady = (acct_enabled account \<and> length missingCredentials = 0) \<rparr>,
           ctx_browserVerificationEnabled =
             (case in_browserVerificationEnabled input of
                Some b \<Rightarrow> b | None \<Rightarrow> browserVerification_enabled recruiting) \<rparr>)"

text \<open>
  The \<open>try\<close> block as \<open>run\<close> enters it, once \<open>beginRun\<close> has created the run
  \<open>runId\<close> in the store \<open>s0\<close> and the account has been resolved.
\<close>

definition runTry ::
  "env \<Rightarrow> RecruitingConfig \<Rightarrow> CandidatePipelineRunInput \<Rightarrow> string \<Rightarrow> linkedin_account
     \<Rightarrow> string list \<Rightarrow> store \<Rightarrow> run_acc \<times> thrown option" where
  "runTry e recruiting input runId account missingCredentials s0 =
     (let role = in_role input;
          ctx = runContext e recruiting input runId account missingCredentials;
          targetCandidates = effectiveTargetCandidates recruiting role;
          maxPages = js_max (Fin 3) (js_max (Fin 1) (ceil_pages targetCandidates));
          normalizedSearch =
            normalizeSearchForSourceMode e (role_search role) (ctx_sourceQueryMode ctx)
      in runBody e recruiting ctx account missingCredentials normalizedSearch
           (resolvedApi (role_search role)) targetCandidates maxPages
           \<lparr> acc_store = s0, acc_counts = emptyCounts, acc_stageErrors = [] \<rparr>)"

text \<open>
  \<open>run\<close>: the result is the store it leaves and either the value thrown to the
  caller or the object it resolves with. \<open>beginRun\<close>, \<open>resolveLinkedInAccount\<close> and
  \<open>getMissingCredentials\<close> are called before the \<open>try\<close>.
\<close>

definition run ::
  "env \<Rightarrow> RecruitingConfig \<Rightarrow> CandidatePipelineRunInput \<Rightarrow> store
     \<Rightarrow> store \<times> (thrown + run_result)" where
  "run e recruiting input s =
     (case beginRun s (runParams e recruiting input) (now e) (randomUUID e 0) of
        (s0, Inl err) \<Rightarrow> (s0, Inl err)
      | (s0, Inr (runId, resumed)) \<Rightarrow>
          if resumed
          then (s0, Inr \<lparr> out_runId = runId, out_resumed = True,
                          out_status = getRunStatus s0 runId \<rparr>)
          else
            (case resolveLinkedInAccount e (ts_accountId (role_search (in_role input))) of
               Inl err \<Rightarrow> (s0, Inl err)
             | Inr account \<Rightarrow>
            (case getMissingCredentials e account of
               Inl err \<Rightarrow> (s0, Inl err)
             | Inr missingCredentials \<Rightarrow>
            (case runTry e recruiting input runId account missingCredentials s0 of
               (acc1, None) \<Rightarrow>
                 (acc_store acc1,
                  Inr \<lparr> out_runId = runId, out_resumed = False,
                        out_status = getRunStatus (acc_store acc1) runId \<rparr>)
             | (acc1, Some err) \<Rightarrow>
                 runCatch e (runContext e recruiting input runId account missingCredentials)
                   acc1 err))))"

subsection \<open>Hybrid workflow: verification and promotion\<close>






record promote_params =
  pp_runId :: string
  pp_candidateId :: string
  pp_promotionReason :: string
  pp_evidenceLinks :: "string list"
  pp_confidenceOverride :: "jsnum option"
  pp_outreachAngle :: "string option"

record promote_result =
  success :: bool
  error :: "string option"

text \<open>\<open>this.recruiting.promotion?.minProofLinks ?? 2\<close>.\<close>

definition minProofLinks :: "RecruitingConfig \<Rightarrow> rat" where
  "minProofLinks recruiting =
     (case promotion_minProofLinks recruiting of Some m \<Rightarrow> m | None \<Rightarrow> 2)"

text \<open>The row \<open>promoteCandidate\<close> hands to the store.\<close>

definition promotion_of :: "promote_params \<Rightarrow> int \<Rightarrow> promotion_row" where
  "promotion_of params clock =
     \<lparr> pr_candidate_id = pp_candidateId params, pr_run_id = pp_runId params,
       pr_promotion_reason = pp_promotionReason params,
       pr_confidence_override = pp_confidenceOverride params,
       pr_outreach_angle = pp_outreachAngle params,
       pr_proof_json = pp_evidenceLinks params,
       pr_promoted_at = clock, pr_promoted_by = None \<rparr>"

text \<open>
  The service's \<open>promoteCandidate\<close>; \<open>fmt\<close> renders a number inside the error
  message.
\<close>

definition promoteCandidate ::
  "(jsnum \<Rightarrow> string) \<Rightarrow> RecruitingConfig \<Rightarrow> store \<Rightarrow> promote_params \<Rightarrow> int
     \<Rightarrow> store \<times> (thrown + promote_result)" where
  "promoteCandidate fmt recruiting s params clock =
     (if of_nat (length (pp_evidenceLinks params)) < minProofLinks recruiting
      then (s, Inr \<lparr> success = False,
                     error = Some (''Promotion requires at least '' @
                                   fmt (Fin (minProofLinks recruiting)) @
                                   '' evidence links. Provided: '' @
                                   fmt (Fin (of_nat (length (pp_evidenceLinks params)))) @
                                   ''.'') \<rparr>)
      else case getPromotion s (pp_candidateId params) (pp_runId params) of
        Some existing \<Rightarrow>
          (s, Inr \<lparr> success = False,
                    error = Some ''Candidate has already been promoted for this run.'' \<rparr>)
      | None \<Rightarrow>
          (case store_promoteCandidate s (promotion_of params clock) clock of
             (s1, Some err) \<Rightarrow> (s1, Inl err)
           | (s1, None) \<Rightarrow> (s1, Inr \<lparr> success = True, error = None \<rparr>)))"

section \<open>Histories of the store\<close>

text \<open>
  Every statement the store can be asked to run, and the store a call leaves behind
  (also when the call throws). A database is whatever a sequence of such calls makes of
  the empty one.
\<close>

datatype store_op =
    OpBeginRun beginRun_params int string
  | OpMarkRunCompleted string "CandidatePipelineDiagnostics option" int
  | OpMarkRunFailed string "CandidatePipelineDiagnostics option" int
  | OpRecordFailure failure_params int
  | OpUpsertCandidate "string \<Rightarrow> string" CandidateRecord int string
  | OpAddSourceRecord string string string nat int
  | OpUpsertIdentity string string "string option" "string option" IdentityResolution int
  | OpAddSignals string "CandidateSignal list" int
  | OpUpsertScore string string CandidateScore int
  | OpAddEvidenceLinks string string "CandidateEvidenceLink list" int
  | OpUpsertReviewStatus string string string "int option" "string option" "string option" int
  | OpSubmitVerification verification_row
  | OpPromoteCandidate promotion_row int

definition or_unchanged :: "store \<Rightarrow> thrown + store \<Rightarrow> store" where
  "or_unchanged s r = (case r of Inl _ \<Rightarrow> s | Inr s' \<Rightarrow> s')"

fun apply_op :: "store_op \<Rightarrow> store \<Rightarrow> store" where
  "apply_op (OpBeginRun params clock uuid) s = fst (beginRun s params clock uuid)"
| "apply_op (OpMarkRunCompleted runId summary clock) s = markRunCompleted s runId summary clock"
| "apply_op (OpMarkRunFailed runId summary clock) s = markRunFailed s runId summary clock"
| "apply_op (OpRecordFailure params clock) s = or_unchanged s (recordFailure s params clock)"
| "apply_op (OpUpsertCandidate h input clock uuid) s =
     (case upsertCandidate h s input clock uuid of Inl _ \<Rightarrow> s | Inr (s', _) \<Rightarrow> s')"
| "apply_op (OpAddSourceRecord candidateId runId source sourceRank clock) s =
     or_unchanged s (addSourceRecord s candidateId runId source sourceRank clock)"
| "apply_op (OpUpsertIdentity candidateId platform handle url resolution clock) s =
     or_unchanged s (upsertIdentity s candidateId platform handle url resolution clock)"
| "apply_op (OpAddSignals candidateId signals clock) s =
     or_unchanged s (addSignals s candidateId signals clock)"
| "apply_op (OpUpsertScore candidateId runId score clock) s =
     or_unchanged s (upsertScore s candidateId runId score clock)"
| "apply_op (OpAddEvidenceLinks candidateId runId links clock) s =
     or_unchanged s (addEvidenceLinks s candidateId runId links clock)"
| "apply_op (OpUpsertReviewStatus candidateId runId status priority notes updatedBy clock) s =
     or_unchanged s (upsertReviewStatus s candidateId runId status priority notes updatedBy clock)"
| "apply_op (OpSubmitVerification row) s = or_unchanged s (store_submitVerification s row)"
| "apply_op (OpPromoteCandidate row clock) s = fst (store_promoteCandidate s row clock)"

fun apply_ops :: "store_op list \<Rightarrow> store \<Rightarrow> store" where
  "apply_ops [] s = s"
| "apply_ops (c # cs) s = apply_ops cs (apply_op c s)"

text \<open>
  The constraints of \<open>pipeline_runs\<close>: \<open>id\<close> is a key, and so is every
  \<open>idempotency_key\<close> that is not \<open>NULL\<close>.
\<close>

definition runs_ok :: "store \<Rightarrow> bool" where
  "runs_ok s =
     (distinct (map r_id (pipeline_runs s)) \<and>
      distinct (map r_idempotency_key
                  (filter (\<lambda>r. r_idempotency_key r \<noteq> None) (pipeline_runs s))))"


text \<open>
  The store holds, for a candidate and a platform, a row with the confidence, the band
  and the shortlist flag of a resolution.
\<close>

definition holds_identity :: "string \<Rightarrow> string \<Rightarrow> IdentityResolution \<Rightarrow> store \<Rightarrow> bool" where
  "holds_identity cid pf res s =
     (\<exists>row \<in> set (candidate_identities s).
        i_candidate_id row = cid \<and> i_platform row = pf \<and>
        i_confidence row = confidence res \<and> i_band row = band res \<and>
        i_confirmed row = shortlistEligible res)"

text \<open>A promotion is already recorded for the candidate in the run.\<close>

definition promoted_before :: "store \<Rightarrow> string \<Rightarrow> string \<Rightarrow> bool" where
  "promoted_before s candidateId runId =
     (\<exists>p \<in> set (candidate_promotions s). pr_candidate_id p = candidateId \<and> pr_run_id p = runId)"

text \<open>A decimal rendering of the integers, as \<open>String(n)\<close> gives for them.\<close>

fun decimal :: "nat \<Rightarrow> string" where
  "decimal n =
     (if n < 10 then [char_of (48 + n)]
      else decimal (n div 10) @ [char_of (48 + n mod 10)])"

definition render_number :: "jsnum \<Rightarrow> string" where
  "render_number n =
     (case n of
        Fin v \<Rightarrow> (if v < 0 then ''-'' else []) @ decimal (nat \<lfloor>\<bar>v\<bar>\<rfloor>)
      | NaN \<Rightarrow> ''NaN'' | PosInf \<Rightarrow> ''Infinity'' | NegInf \<Rightarrow> ''-Infinity'')"

subsection \<open>Sample data\<close>

definition backend_params :: beginRun_params where
  "backend_params =
     \<lparr> bp_runId = None, bp_idempotencyKey = Some ''role:2026-01-01'',
       bp_roleKey = ''backend'', bp_roleTitle = ''Backend Engineer'',
       bp_targetCandidates = Fin 300 \<rparr>"

text \<open>The store after a first run with that key has started, and after it has failed.\<close>

definition store_running :: store where
  "store_running = fst (beginRun empty_store backend_params 1000 ''run-1'')"

definition store_failed :: store where
  "store_failed = markRunFailed store_running ''run-1'' None 2000"

subsection \<open>A sample configuration, environment and candidate\<close>

definition default_recruiting :: RecruitingConfig where
  "default_recruiting =
     resolveRecruitingConfig
       \<lparr> raw_enabled = True, raw_minConfidenceForShortlist = None,
         raw_targetCandidatesPerRole = None, raw_browserVerification_enabled = False,
         raw_browserVerification_mode = None, raw_minProofLinks = None \<rparr>"

text \<open>A configuration whose shortlist threshold is set to 0.\<close>

definition open_recruiting :: RecruitingConfig where
  "open_recruiting =
     resolveRecruitingConfig
       \<lparr> raw_enabled = True, raw_minConfidenceForShortlist = Some (Fin 0),
         raw_targetCandidatesPerRole = None, raw_browserVerification_enabled = False,
         raw_browserVerification_mode = None, raw_minProofLinks = None \<rparr>"

definition no_search :: TalentSearchParams where
  "no_search =
     \<lparr> ts_api = None, ts_keywords = Some ''backend engineer'', ts_role = None,
       ts_skills = None, ts_company = None, ts_location = None, ts_industry = None,
       ts_network_distance = None, ts_accountId = None \<rparr>"

definition large_role :: PipelineRoleInput where
  "large_role =
     \<lparr> role_roleKey = ''backend'', role_roleTitle = ''Backend Engineer'',
       role_search = no_search, role_targetCandidates = Some (Fin 5000) \<rparr>"

definition carol :: TalentCandidate where
  "carol =
     \<lparr> tc_provider_id = ''carol-1'', tc_public_identifier = Some ''carol'',
       tc_public_profile_url = Some ''https://linkedin.com/in/carol'', tc_profile_url = None,
       tc_name = ''Carol'', tc_headline = Some ''Engineer'', tc_location = Some ''Berlin'',
       tc_current_company = Some ''OpenClaw'', tc_current_role = None,
       tc_skills = [''typescript''] \<rparr>"

definition no_footprint :: external_footprint where
  "no_footprint =
     \<lparr> ex_evidenceLinks = [], ex_signals = [], ex_github = None, ex_x = None,
       ex_personalSite = None \<rparr>"

text \<open>
  An environment in which the resolved LinkedIn account is disabled and every remote
  call answers with an empty result.
\<close>

definition quiet_account :: linkedin_account where
  "quiet_account =
     \<lparr> acct_accountId = ''default'', acct_unipileAccountId = None,
       acct_enabled = False, acct_apiKeySource = ''none'' \<rparr>"

definition quiet_env :: env where
  "quiet_env =
     \<lparr> now = 5000, today = ''2026-01-01'',
       randomUUID = (\<lambda>n. if n = 0 then ''run-2'' else ''uuid''),
       hashUrl = (\<lambda>u. u),
       String_of_number = render_number,
       Date_parse = (\<lambda>_. NaN),
       stripAiNativeTerms = (\<lambda>t. t),
       resolveLinkedInAccount = (\<lambda>_. Inr quiet_account),
       getMissingCredentials = (\<lambda>_. Inr [''apiKey'']),
       buildClientOptions = (\<lambda>_. Inr None),
       classifyLinkedInError =
         (\<lambda>err. Inr \<lparr> le_type = ''unknown'', le_isTransient = False, le_message = [] \<rparr>),
       searchTalent =
         (\<lambda>_ _ _ _. Inr \<lparr> sres_success = True, sres_candidates = [], sres_error = None \<rparr>),
       getUserProfile = (\<lambda>_ _. Inr False),
       getUserPosts = (\<lambda>_ _. Inr None),
       getUserComments = (\<lambda>_ _. Inr None),
       getUserReactions = (\<lambda>_ _. Inr None),
       enrichExternalFootprint = (\<lambda>_ _ _. Inr no_footprint) \<rparr>"

text \<open>
  The same environment with an account resolver that throws, and with an enabled account
  whose search fails with a timeout that the error classifier cannot read.
\<close>

definition account_failure :: thrown where
  "account_failure = ErrorObj ''TypeError'' ''Cannot read properties of undefined''"

definition unresolved_env :: env where
  "unresolved_env = quiet_env\<lparr> resolveLinkedInAccount := (\<lambda>_. Inl account_failure) \<rparr>"

definition classifier_failure :: thrown where
  "classifier_failure = ErrorObj ''TypeError'' ''err.message is undefined''"

definition opaque_env :: env where
  "opaque_env =
     quiet_env\<lparr> resolveLinkedInAccount := (\<lambda>_. Inr (quiet_account\<lparr>acct_enabled := True\<rparr>)),
                getMissingCredentials := (\<lambda>_. Inr []),
                buildClientOptions := (\<lambda>_. Inr (Some ''key'')),
                searchTalent := (\<lambda>_ _ _ _. Inl (StrVal ''socket closed'')),
                classifyLinkedInError := (\<lambda>_. Inl classifier_failure) \<rparr>"

definition backend_input :: CandidatePipelineRunInput where
  "backend_input =
     \<lparr> in_role = \<lparr> role_roleKey = ''backend'', role_roleTitle = ''Backend Engineer'',
                   role_search = no_search, role_targetCandidates = None \<rparr>,
       in_runId = None, in_idempotencyKey = None, in_browserVerificationEnabled = None,
       in_sourceQueryMode = None, in_evidenceQueryMode = None \<rparr>"

text \<open>The same request, asking for a run id that is already taken, under another key.\<close>

definition taken_id_input :: CandidatePipelineRunInput where
  "taken_id_input =
     backend_input\<lparr> in_runId := Some ''run-1'', in_idempotencyKey := Some ''another-key'' \<rparr>"

text \<open>The same request with a target that is not a number.\<close>

definition nan_target_input :: CandidatePipelineRunInput where
  "nan_target_input =
     backend_input\<lparr> in_role := (in_role backend_input)\<lparr> role_targetCandidates := Some NaN \<rparr> \<rparr>"

definition carol_context :: run_context where
  "carol_context =
     runContext quiet_env open_recruiting backend_input ''run-1'' quiet_account [''apiKey'']"

text \<open>The store once Carol has been sourced in the first run.\<close>

definition store_sourced :: store where
  "store_sourced =
     apply_ops
       [OpUpsertCandidate (\<lambda>u. u)
          \<lparr> cr_providerId = Some ''carol-1'', cr_publicIdentifier = Some ''carol'',
            cr_profileUrl = Some ''https://linkedin.com/in/carol'', cr_name = Some ''Carol'',
            cr_headline = Some ''Engineer'', cr_location = Some ''Berlin'',
            cr_currentCompany = Some ''OpenClaw'', cr_currentRole = None \<rparr> 1500 ''uuid'']
       store_running"

text \<open>
  A database in which Carol has been sourced, scored and given two evidence links in the
  first run, as a history of store calls.
\<close>

definition scored_history :: "store_op list" where
  "scored_history =
     [OpBeginRun backend_params 1000 ''run-1'',
      OpUpsertCandidate (\<lambda>u. u)
        \<lparr> cr_providerId = Some ''carol-1'', cr_publicIdentifier = Some ''carol'',
          cr_profileUrl = Some ''https://linkedin.com/in/carol'', cr_name = Some ''Carol'',
          cr_headline = Some ''Engineer'', cr_location = Some ''Berlin'',
          cr_currentCompany = Some ''OpenClaw'', cr_currentRole = None \<rparr> 1500 ''uuid'',
      OpUpsertIdentity ''li:carol-1'' ''cross_platform'' None None
        (pipelineIdentity default_recruiting carol no_footprint) 1550,
      OpUpsertScore ''li:carol-1'' ''run-1''
        (pipelineScore default_recruiting False carol [] no_footprint False) 1600,
      OpAddEvidenceLinks ''li:carol-1'' ''run-1''
        [\<lparr> ev_url = ''https://linkedin.com/in/carol'', ev_title = Some ''LinkedIn: Carol'',
           ev_source = ''linkedin.profile'', ev_relevance = Some 1 \<rparr>,
         \<lparr> ev_url = ''https://github.com/carol'', ev_title = None,
           ev_source = ''exa.search'', ev_relevance = None \<rparr>] 1700]"

definition store_scored :: store where
  "store_scored = apply_ops scored_history empty_store"

definition promote_carol :: promote_params where
  "promote_carol =
     \<lparr> pp_runId = ''run-1'', pp_candidateId = ''li:carol-1'',
       pp_promotionReason = ''strong builder'',
       pp_evidenceLinks = [''https://github.com/carol'', ''https://carol.dev''],
       pp_confidenceOverride = None, pp_outreachAngle = None \<rparr>"

text \<open>The same promotion for a candidate id that the store does not hold.\<close>

definition promote_ghost :: promote_params where
  "promote_ghost = promote_carol\<lparr> pp_candidateId := ''li:ghost'' \<rparr>"







section \<open>Properties of the identity resolver\<close>

lemma scoreRules_cases:
  "scoreRules d r e l h =
    (if d then
       \<lparr>confidence = Fin (95 / 100), band = CONFIRMED, shortlistEligible = True,
        reasons = [''direct_profile_link''] @ (if r then [''reverse_link_via_site''] else [])
          @ (if e \<and> l \<and> h then [''strong_context_employer_location_handle'']
             else if e \<and> (l \<or> h) then [''context_partial_match''] else [])\<rparr>
     else if r then
       \<lparr>confidence = Fin (9 / 10), band = CONFIRMED, shortlistEligible = True,
        reasons = [''reverse_link_via_site'']
          @ (if e \<and> l \<and> h then [''strong_context_employer_location_handle'']
             else if e \<and> (l \<or> h) then [''context_partial_match''] else [])\<rparr>
     else if e \<and> l \<and> h then
       \<lparr>confidence = Fin (82 / 100), band = HIGH, shortlistEligible = True,
        reasons = [''strong_context_employer_location_handle'']\<rparr>
     else if e \<and> (l \<or> h) then
       \<lparr>confidence = Fin (7 / 10), band = MEDIUM, shortlistEligible = False,
        reasons = [''context_partial_match'']\<rparr>
     else
       \<lparr>confidence = Fin 0, band = LOW, shortlistEligible = False,
        reasons = [''unconfirmed_no_strong_match'']\<rparr>)"
  by (cases d; cases r; cases e; cases l; cases h;
      simp add: scoreRules_def Let_def resolveBand_def Math_round_def floor_eq_iff)

lemma alice_resolved:
  "resolveIdentity alice =
     \<lparr>confidence = Fin (95 / 100), band = CONFIRMED, shortlistEligible = True,
      reasons = [''direct_profile_link'']\<rparr>"
  by code_simp

lemma bob_resolved:
  "resolveIdentity bob =
     \<lparr>confidence = Fin (7 / 10), band = MEDIUM, shortlistEligible = False,
      reasons = [''context_partial_match'']\<rparr>"
  by code_simp

text \<open>
  Claim C10. Whatever the input, \<open>resolveIdentity\<close> returns one of the five
  confidences 0, 0.7, 0.82, 0.9 and 0.95. The band is CONFIRMED exactly for 0.9 and 0.95,
  and then one of the two link rules has left its reason; it is MEDIUM exactly for 0.7,
  and then the partial-context rule has left its reason. The list of reasons is never
  empty, and it holds \<open>unconfirmed_no_strong_match\<close> exactly when the confidence is 0.
\<close>

theorem resolveIdentity_confidence_reasons:
  "confidence (resolveIdentity input)
     \<in> {Fin 0, Fin (7 / 10), Fin (82 / 100), Fin (9 / 10), Fin (95 / 100)}
   \<and> reasons (resolveIdentity input) \<noteq> []
   \<and> (''unconfirmed_no_strong_match'' \<in> set (reasons (resolveIdentity input))
        \<longleftrightarrow> confidence (resolveIdentity input) = Fin 0)
   \<and> (band (resolveIdentity input) = CONFIRMED \<longleftrightarrow>
        confidence (resolveIdentity input) \<in> {Fin (9 / 10), Fin (95 / 100)})
   \<and> (band (resolveIdentity input) = CONFIRMED \<longrightarrow>
        ''direct_profile_link'' \<in> set (reasons (resolveIdentity input))
        \<or> ''reverse_link_via_site'' \<in> set (reasons (resolveIdentity input)))
   \<and> (band (resolveIdentity input) = MEDIUM \<longleftrightarrow>
        confidence (resolveIdentity input) = Fin (7 / 10))
   \<and> (band (resolveIdentity input) = MEDIUM \<longrightarrow>
        ''context_partial_match'' \<in> set (reasons (resolveIdentity input)))"
  unfolding resolveIdentity_def scoreRules_cases
  by simp

theorem resolveIdentity_confidence_reasons_witness:
  "band (resolveIdentity alice) = CONFIRMED
   \<and> ''direct_profile_link'' \<in> set (reasons (resolveIdentity alice))
   \<and> band (resolveIdentity bob) = MEDIUM
   \<and> ''context_partial_match'' \<in> set (reasons (resolveIdentity bob))"
  using resolveIdentity_confidence_reasons [of alice]
        resolveIdentity_confidence_reasons [of bob]
  by (simp add: alice_resolved bob_resolved)
section \<open>Properties of the scorer\<close>

subsection \<open>Rounding to a double\<close>

lemma round_even_close: "\<bar>of_int (round_even q) - q\<bar> \<le> 1 / 2"
proof -
  have "of_int \<lfloor>q\<rfloor> \<le> q" and "q < of_int \<lfloor>q\<rfloor> + 1"
    by linarith+
  then show ?thesis
    unfolding round_even_def Let_def by (auto simp: abs_le_iff)
qed

lemma binade_le:
  assumes "\<bar>a\<bar> < 2048"
  shows "binade a \<le> 10"
proof (cases "1 \<le> \<bar>a\<bar>")
  case True
  from assms have "\<lfloor>\<bar>a\<bar>\<rfloor> < 2 ^ nat 11"
    by (simp add: floor_less_iff)
  then have "bitlen \<lfloor>\<bar>a\<bar>\<rfloor> \<le> 11"
    by (simp only: bitlen_le_iff_power) simp
  with True show ?thesis
    by (simp add: binade_def)
next
  case False
  have "0 \<le> bitlen (\<lceil>1 / \<bar>a\<bar>\<rceil> - 1)"
    by (rule bitlen_nonneg)
  with False show ?thesis
    by (simp add: binade_def)
qed

lemma pow2_pos: "0 < pow2 n"
  by (simp add: pow2_def)

lemma pow2_le:
  assumes "n \<le> - 42"
  shows "pow2 n \<le> 1 / 2 ^ 42"
proof -
  from assms have "42 \<le> nat (- n)" by simp
  then have "(2 :: rat) ^ 42 \<le> 2 ^ nat (- n)"
    by (intro power_increasing) simp_all
  then have "1 / (2 :: rat) ^ nat (- n) \<le> 1 / 2 ^ 42"
    by (intro divide_left_mono) simp_all
  with assms show ?thesis
    by (simp add: pow2_def)
qed

lemma ulp_pos: "0 < ulp a"
  by (simp add: ulp_def pow2_pos)

lemma ulp_le:
  assumes "\<bar>a\<bar> < 2048"
  shows "ulp a \<le> 1 / 2 ^ 42"
proof -
  from binade_le [OF assms] have "max (binade a) (- 1022) - 52 \<le> - 42"
    by simp
  then show ?thesis
    unfolding ulp_def by (rule pow2_le)
qed

text \<open>\<open>fl\<close> divides by \<open>ulp\<close>, rounds to a whole number and multiplies by \<open>ulp\<close>.\<close>

lemma fl_ulp: "fl a = of_int (round_even (a / ulp a)) * ulp a"
  by (simp add: fl_def ulp_def pow2_def Let_def)

text \<open>Below 2048 a number and its double differ by at most \<open>eps\<close>.\<close>

lemma eps_bounds: "0 < eps" "eps \<le> 1 / 1000000000000" "32 * eps = 1 / 2 ^ 38"
  by (simp_all add: eps_def)

lemma fl_close:
  assumes "\<bar>a\<bar> < 2048"
  shows "\<bar>fl a - a\<bar> \<le> eps"
proof -
  let ?u = "ulp a"
  have u: "0 < ?u" by (rule ulp_pos)
  have "fl a - a = (of_int (round_even (a / ?u)) - a / ?u) * ?u"
    using u by (simp add: fl_ulp field_simps)
  then have "\<bar>fl a - a\<bar> = \<bar>of_int (round_even (a / ?u)) - a / ?u\<bar> * ?u"
    using u by (simp add: abs_mult)
  also have "\<dots> \<le> 1 / 2 * ?u"
    using u round_even_close [of "a / ?u"] by (intro mult_right_mono) simp_all
  also have "\<dots> \<le> 1 / 2 * (1 / 2 ^ 42)"
    using ulp_le [OF assms] by (intro mult_left_mono) simp_all
  finally show ?thesis by (simp add: eps_def)
qed

lemma Math_round_close: "\<bar>Math_round v - v\<bar> \<le> 1 / 2"
proof -
  have "of_int \<lfloor>v + 1 / 2\<rfloor> \<le> v + 1 / 2" and "v + 1 / 2 < of_int \<lfloor>v + 1 / 2\<rfloor> + 1"
    by linarith+
  then show ?thesis
    unfolding Math_round_def by linarith
qed

subsection \<open>\<open>round3\<close>\<close>

text \<open>
  \<open>round3\<close> on a value between 0 and 1, up to a rounding error: the result is the
  double of a whole number of thousandths.
\<close>

lemma round3_rounds:
  assumes lo: "- (1 / 1000000) \<le> v" and hi: "v \<le> 1 + 1 / 1000000"
  shows "\<exists>k. 0 \<le> k \<and> k \<le> 1000 \<and> round3 v = fl (of_int k / 1000)
             \<and> \<bar>of_int k / 1000 - v\<bar> \<le> 1 / 2000 + eps
             \<and> \<bar>round3 v - v\<bar> \<le> 1 / 2000 + 2 * eps"
proof -
  note e = eps_bounds(1,2)
  define y where "y = fl (v * 1000)"
  define k where "k = \<lfloor>y + 1 / 2\<rfloor>"
  from lo hi have "\<bar>v * 1000\<bar> < 2048"
    by linarith
  from fl_close [OF this] have y: "\<bar>y - v * 1000\<bar> \<le> eps"
    by (simp add: y_def)
  from y lo e have "0 \<le> y + 1 / 2"
    by linarith
  then have k0: "0 \<le> k" by (simp add: k_def)
  from y hi e have "y + 1 / 2 < 1001"
    by linarith
  then have "k < 1001" by (simp add: k_def floor_less_iff)
  then have k1: "k \<le> 1000" by simp
  have r: "round3 v = fl (of_int k / 1000)"
    by (simp add: round3_def ddiv_def dmul_def Math_round_def k_def y_def)
  have "of_int k \<le> y + 1 / 2" and "y + 1 / 2 < of_int k + 1"
    unfolding k_def by linarith+
  with y have kv: "\<bar>of_int k / 1000 - v\<bar> \<le> 1 / 2000 + eps"
    using e by linarith
  from k0 k1 have "(0 :: rat) \<le> of_int k" and "(of_int k :: rat) \<le> 1000"
    by simp_all
  then have "\<bar>(of_int k :: rat) / 1000\<bar> < 2048"
    by linarith
  from fl_close [OF this] r have "\<bar>round3 v - of_int k / 1000\<bar> \<le> eps"
    by simp
  with kv have "\<bar>round3 v - v\<bar> \<le> 1 / 2000 + 2 * eps"
    by linarith
  with k0 k1 r kv show ?thesis by blast
qed

lemma round3_rounds_to:
  assumes "0 \<le> v" and "v \<le> 1"
  shows "\<exists>k. rounds_to v k (round3 v)"
proof -
  from assms have "- (1 / 1000000) \<le> v" and "v \<le> 1 + 1 / 1000000"
    by simp_all
  from round3_rounds [OF this] obtain k where
    k: "0 \<le> k" "k \<le> 1000" "round3 v = fl (of_int k / 1000)"
    and kv: "\<bar>of_int k / 1000 - v\<bar> \<le> 1 / 2000 + eps"
    by blast
  from kv eps_bounds have "\<bar>of_int k / 1000 - v\<bar> \<le> 1 / 2000 + 1 / 2 ^ 38"
    by linarith
  with k have "rounds_to v k (round3 v)"
    by (simp add: rounds_to_def)
  then show ?thesis ..
qed

lemma round3_range:
  assumes "0 \<le> v" and "v \<le> 1"
  shows "- eps \<le> round3 v \<and> round3 v \<le> 1 + eps"
proof -
  from assms have "- (1 / 1000000) \<le> v" and "v \<le> 1 + 1 / 1000000"
    by simp_all
  from round3_rounds [OF this] obtain k where
    k: "0 \<le> k" "k \<le> 1000" and r: "round3 v = fl (of_int k / 1000)"
    by blast
  from k have "(0 :: rat) \<le> of_int k" and "(of_int k :: rat) \<le> 1000"
    by simp_all
  then have b: "(0 :: rat) \<le> of_int k / 1000" "(of_int k :: rat) / 1000 \<le> 1"
    by simp_all
  then have "\<bar>(of_int k :: rat) / 1000\<bar> < 2048"
    by linarith
  from fl_close [OF this] have "\<bar>round3 v - of_int k / 1000\<bar> \<le> eps"
    by (simp add: r)
  with b show ?thesis
    by linarith
qed

subsection \<open>The raw components\<close>

lemma clamp01_range: "0 \<le> clamp01 v \<and> clamp01 v \<le> 1"
  unfolding clamp01_def by (cases v) simp_all

lemma scoreFromSignals_range:
  "0 \<le> scoreFromSignals signals k \<and> scoreFromSignals signals k \<le> 1"
  unfolding scoreFromSignals_def Let_def by (simp add: clamp01_range)

lemma literal_range: "0 \<le> fl (7 / 10) \<and> fl (7 / 10) \<le> 1"
proof -
  have "\<bar>(7 :: rat) / 10\<bar> < 2048" by simp
  from fl_close [OF this] eps_bounds(1,2) show ?thesis by linarith
qed

lemma aiNative_range:
  "0 \<le> max (scoreFromSignals signals k) (if c then fl (7 / 10) else 0)
   \<and> max (scoreFromSignals signals k) (if c then fl (7 / 10) else 0) \<le> 1"
  using scoreFromSignals_range [of signals k] literal_range
  by (cases c) (auto simp: le_max_iff_disj)

lemma breakdown_components:
  "builder_activity (breakdown (computeCandidateScore params))
     = round3 (scoreFromSignals (p_signals params) ''builder_activity'')"
  "ai_native_evidence (breakdown (computeCandidateScore params))
     = round3 (max (scoreFromSignals (p_signals params) ''ai_native_evidence'')
                   (if hasAiEvidence (p_evidence params) then fl (7 / 10) else 0))"
  "technical_depth (breakdown (computeCandidateScore params))
     = round3 (scoreFromSignals (p_signals params) ''technical_depth'')"
  "role_fit (breakdown (computeCandidateScore params))
     = round3 (scoreFromSignals (p_signals params) ''role_fit'')"
  "identity_confidence (breakdown (computeCandidateScore params))
     = round3 (clamp01 (number (confidence (p_identity params))))"
  unfolding computeCandidateScore_def Let_def by simp_all

lemma breakdown_range:
  "- eps \<le> builder_activity (breakdown (computeCandidateScore params))
   \<and> builder_activity (breakdown (computeCandidateScore params)) \<le> 1 + eps"
  "- eps \<le> ai_native_evidence (breakdown (computeCandidateScore params))
   \<and> ai_native_evidence (breakdown (computeCandidateScore params)) \<le> 1 + eps"
  "- eps \<le> technical_depth (breakdown (computeCandidateScore params))
   \<and> technical_depth (breakdown (computeCandidateScore params)) \<le> 1 + eps"
  "- eps \<le> role_fit (breakdown (computeCandidateScore params))
   \<and> role_fit (breakdown (computeCandidateScore params)) \<le> 1 + eps"
  "- eps \<le> identity_confidence (breakdown (computeCandidateScore params))
   \<and> identity_confidence (breakdown (computeCandidateScore params)) \<le> 1 + eps"
proof -
  show "- eps \<le> builder_activity (breakdown (computeCandidateScore params))
   \<and> builder_activity (breakdown (computeCandidateScore params)) \<le> 1 + eps"
    unfolding breakdown_components
    by (rule round3_range) (simp_all only: scoreFromSignals_range)
  show "- eps \<le> ai_native_evidence (breakdown (computeCandidateScore params))
   \<and> ai_native_evidence (breakdown (computeCandidateScore params)) \<le> 1 + eps"
    unfolding breakdown_components
    by (rule round3_range) (simp_all only: aiNative_range)
  show "- eps \<le> technical_depth (breakdown (computeCandidateScore params))
   \<and> technical_depth (breakdown (computeCandidateScore params)) \<le> 1 + eps"
    unfolding breakdown_components
    by (rule round3_range) (simp_all only: scoreFromSignals_range)
  show "- eps \<le> role_fit (breakdown (computeCandidateScore params))
   \<and> role_fit (breakdown (computeCandidateScore params)) \<le> 1 + eps"
    unfolding breakdown_components
    by (rule round3_range) (simp_all only: scoreFromSignals_range)
  show "- eps \<le> identity_confidence (breakdown (computeCandidateScore params))
   \<and> identity_confidence (breakdown (computeCandidateScore params)) \<le> 1 + eps"
    unfolding breakdown_components
    by (rule round3_range) (simp_all only: clamp01_range)
qed

subsection \<open>The weighted sum in doubles\<close>

text \<open>One term \<open>component * weight\<close>, for a weight of at most a quarter.\<close>

lemma term_close:
  assumes b: "\<bar>b\<bar> \<le> 2" and w: "0 \<le> w" "w \<le> 1 / 4"
  shows "\<bar>dmul b (fl w) - w * b\<bar> \<le> 3 * eps" and "\<bar>dmul b (fl w)\<bar> \<le> 1"
proof -
  note e = eps_bounds(1,2)
  from w have "\<bar>w\<bar> < 2048" by linarith
  from fl_close [OF this] have W: "\<bar>fl w - w\<bar> \<le> eps" .
  with w e have W1: "\<bar>fl w\<bar> \<le> 1" by linarith
  have "\<bar>b * fl w\<bar> = \<bar>b\<bar> * \<bar>fl w\<bar>" by (rule abs_mult)
  also have "\<dots> \<le> 2 * 1"
    using b W1 by (intro mult_mono) simp_all
  finally have "\<bar>b * fl w\<bar> < 2048" by simp
  from fl_close [OF this] have p: "\<bar>dmul b (fl w) - b * fl w\<bar> \<le> eps"
    by (simp add: dmul_def)
  have "b * fl w - w * b = b * (fl w - w)"
    by (simp add: algebra_simps)
  then have "\<bar>b * fl w - w * b\<bar> = \<bar>b\<bar> * \<bar>fl w - w\<bar>"
    by (simp only: abs_mult)
  also have "\<dots> \<le> 2 * eps"
    using b W by (intro mult_mono) simp_all
  finally have q: "\<bar>b * fl w - w * b\<bar> \<le> 2 * eps" .
  from p q show close: "\<bar>dmul b (fl w) - w * b\<bar> \<le> 3 * eps"
    by linarith
  have "\<bar>w * b\<bar> = w * \<bar>b\<bar>"
    using w by (simp add: abs_mult)
  also have "\<dots> \<le> 1 / 4 * 2"
    using b w by (intro mult_mono) simp_all
  finally have "\<bar>w * b\<bar> \<le> 1 / 2" by simp
  with close e show "\<bar>dmul b (fl w)\<bar> \<le> 1"
    by linarith
qed

lemma dadd_close:
  assumes "\<bar>a\<bar> \<le> 8" and "\<bar>b\<bar> \<le> 8"
  shows "\<bar>dadd a b - (a + b)\<bar> \<le> eps"
proof -
  from assms have "\<bar>a + b\<bar> < 2048" by linarith
  from fl_close [OF this] show ?thesis by (simp add: dadd_def)
qed

text \<open>
  The sum that \<open>computeCandidateScore\<close> hands to \<open>round3\<close> is within \<open>19 * eps\<close>
  of the exact weighted sum of the components.
\<close>

lemma double_sum_close:
  assumes "\<bar>b1\<bar> \<le> 2" "\<bar>b2\<bar> \<le> 2" "\<bar>b3\<bar> \<le> 2" "\<bar>b4\<bar> \<le> 2" "\<bar>b5\<bar> \<le> 2"
  shows "\<bar>dadd (dadd (dadd (dadd (dmul b1 W_builder_activity)
                                  (dmul b2 W_ai_native_evidence))
                            (dmul b3 W_technical_depth))
                      (dmul b4 W_role_fit))
                (dmul b5 W_identity_confidence)
          - (25 / 100 * b1 + 25 / 100 * b2 + 20 / 100 * b3 + 20 / 100 * b4 + 10 / 100 * b5)\<bar>
         \<le> 19 * eps"
proof -
  note e = eps_bounds(1,2)
  define t1 where "t1 = dmul b1 (fl (25 / 100))"
  define t2 where "t2 = dmul b2 (fl (25 / 100))"
  define t3 where "t3 = dmul b3 (fl (2 / 10))"
  define t4 where "t4 = dmul b4 (fl (2 / 10))"
  define t5 where "t5 = dmul b5 (fl (1 / 10))"
  define s2 where "s2 = dadd t1 t2"
  define s3 where "s3 = dadd s2 t3"
  define s4 where "s4 = dadd s3 t4"
  define s5 where "s5 = dadd s4 t5"
  have t1: "\<bar>t1 - 25 / 100 * b1\<bar> \<le> 3 * eps" "\<bar>t1\<bar> \<le> 1"
    unfolding t1_def using term_close [OF assms(1), of "25 / 100"] by simp_all
  have t2: "\<bar>t2 - 25 / 100 * b2\<bar> \<le> 3 * eps" "\<bar>t2\<bar> \<le> 1"
    unfolding t2_def using term_close [OF assms(2), of "25 / 100"] by simp_all
  have t3: "\<bar>t3 - 20 / 100 * b3\<bar> \<le> 3 * eps" "\<bar>t3\<bar> \<le> 1"
    unfolding t3_def using term_close [OF assms(3), of "2 / 10"] by simp_all
  have t4: "\<bar>t4 - 20 / 100 * b4\<bar> \<le> 3 * eps" "\<bar>t4\<bar> \<le> 1"
    unfolding t4_def using term_close [OF assms(4), of "2 / 10"] by simp_all
  have t5: "\<bar>t5 - 10 / 100 * b5\<bar> \<le> 3 * eps" "\<bar>t5\<bar> \<le> 1"
    unfolding t5_def using term_close [OF assms(5), of "1 / 10"] by simp_all
  have s2: "\<bar>s2 - (t1 + t2)\<bar> \<le> eps"
    unfolding s2_def using t1(2) t2(2) by (intro dadd_close) linarith+
  with t1(2) t2(2) e have b2: "\<bar>s2\<bar> \<le> 3" by linarith
  have s3: "\<bar>s3 - (s2 + t3)\<bar> \<le> eps"
    unfolding s3_def using b2 t3(2) by (intro dadd_close) linarith+
  with b2 t3(2) e have b3: "\<bar>s3\<bar> \<le> 5" by linarith
  have s4: "\<bar>s4 - (s3 + t4)\<bar> \<le> eps"
    unfolding s4_def using b3 t4(2) by (intro dadd_close) linarith+
  with b3 t4(2) e have b4: "\<bar>s4\<bar> \<le> 7" by linarith
  have s5: "\<bar>s5 - (s4 + t5)\<bar> \<le> eps"
    unfolding s5_def using b4 t5(2) by (intro dadd_close) linarith+
  have a2: "\<bar>s2 - (25 / 100 * b1 + 25 / 100 * b2)\<bar> \<le> 7 * eps"
    using t1(1) t2(1) s2 by linarith
  have a3: "\<bar>s3 - (25 / 100 * b1 + 25 / 100 * b2 + 20 / 100 * b3)\<bar> \<le> 11 * eps"
    using a2 t3(1) s3 by linarith
  have a4: "\<bar>s4 - (25 / 100 * b1 + 25 / 100 * b2 + 20 / 100 * b3 + 20 / 100 * b4)\<bar>
              \<le> 15 * eps"
    using a3 t4(1) s4 by linarith
  have "\<bar>s5 - (25 / 100 * b1 + 25 / 100 * b2 + 20 / 100 * b3 + 20 / 100 * b4
                + 10 / 100 * b5)\<bar> \<le> 19 * eps"
    using a4 t5(1) s5 by linarith
  then show ?thesis
    by (simp only: s5_def s4_def s3_def s2_def t1_def t2_def t3_def t4_def t5_def
          W_builder_activity_def W_ai_native_evidence_def W_technical_depth_def
          W_role_fit_def W_identity_confidence_def)
qed

lemma total_is_round3:
  "total (computeCandidateScore params)
     = round3
         (dadd (dadd (dadd (dadd (dmul (builder_activity (breakdown (computeCandidateScore params)))
                                       W_builder_activity)
                                 (dmul (ai_native_evidence (breakdown (computeCandidateScore params)))
                                       W_ai_native_evidence))
                           (dmul (technical_depth (breakdown (computeCandidateScore params)))
                                 W_technical_depth))
                     (dmul (role_fit (breakdown (computeCandidateScore params))) W_role_fit))
               (dmul (identity_confidence (breakdown (computeCandidateScore params)))
                     W_identity_confidence))"
  unfolding computeCandidateScore_def Let_def by simp

text \<open>
  The total: the double of a whole number of thousandths that is within half a
  thousandth of the exact weighted sum, up to the rounding error of the sum.
\<close>

lemma total_rounds:
  "\<exists>m. rounds_to (weighted_sum (breakdown (computeCandidateScore params))) m
          (total (computeCandidateScore params))"
  "\<bar>total (computeCandidateScore params)
     - weighted_sum (breakdown (computeCandidateScore params))\<bar> \<le> 1 / 1000"
proof -
  note e = eps_bounds(1,2)
  define b1 where "b1 = builder_activity (breakdown (computeCandidateScore params))"
  define b2 where "b2 = ai_native_evidence (breakdown (computeCandidateScore params))"
  define b3 where "b3 = technical_depth (breakdown (computeCandidateScore params))"
  define b4 where "b4 = role_fit (breakdown (computeCandidateScore params))"
  define b5 where "b5 = identity_confidence (breakdown (computeCandidateScore params))"
  define S where "S = dadd (dadd (dadd (dadd (dmul b1 W_builder_activity)
                                  (dmul b2 W_ai_native_evidence))
                            (dmul b3 W_technical_depth))
                      (dmul b4 W_role_fit))
                (dmul b5 W_identity_confidence)"
  define ws where "ws = 25 / 100 * b1 + 25 / 100 * b2 + 20 / 100 * b3 + 20 / 100 * b4
                          + 10 / 100 * b5"
  have ws_eq: "weighted_sum (breakdown (computeCandidateScore params)) = ws"
    by (simp add: weighted_sum_def ws_def b1_def b2_def b3_def b4_def b5_def)
  have r: "- eps \<le> b1 \<and> b1 \<le> 1 + eps" "- eps \<le> b2 \<and> b2 \<le> 1 + eps"
    "- eps \<le> b3 \<and> b3 \<le> 1 + eps" "- eps \<le> b4 \<and> b4 \<le> 1 + eps"
    "- eps \<le> b5 \<and> b5 \<le> 1 + eps"
    unfolding b1_def b2_def b3_def b4_def b5_def by (rule breakdown_range)+
  from r e have small: "\<bar>b1\<bar> \<le> 2" "\<bar>b2\<bar> \<le> 2" "\<bar>b3\<bar> \<le> 2" "\<bar>b4\<bar> \<le> 2" "\<bar>b5\<bar> \<le> 2"
    by linarith+
  from double_sum_close [OF small] have S: "\<bar>S - ws\<bar> \<le> 19 * eps"
    by (simp only: S_def ws_def)
  from r have ws: "- eps \<le> ws" "ws \<le> 1 + eps"
    unfolding ws_def by linarith+
  from S ws e have "- (1 / 1000000) \<le> S" and "S \<le> 1 + 1 / 1000000"
    by linarith+
  from round3_rounds [OF this] obtain m where
    m: "0 \<le> m" "m \<le> 1000" "round3 S = fl (of_int m / 1000)"
    and mS: "\<bar>of_int m / 1000 - S\<bar> \<le> 1 / 2000 + eps"
    and rS: "\<bar>round3 S - S\<bar> \<le> 1 / 2000 + 2 * eps"
    by blast
  have t: "total (computeCandidateScore params) = round3 S"
    unfolding S_def b1_def b2_def b3_def b4_def b5_def by (rule total_is_round3)
  from mS S eps_bounds have "\<bar>of_int m / 1000 - ws\<bar> \<le> 1 / 2000 + 1 / 2 ^ 38"
    by linarith
  with m t have "rounds_to ws m (total (computeCandidateScore params))"
    by (simp add: rounds_to_def)
  then show "\<exists>m. rounds_to (weighted_sum (breakdown (computeCandidateScore params))) m
          (total (computeCandidateScore params))"
    unfolding ws_eq ..
  from rS S e have "\<bar>round3 S - ws\<bar> \<le> 1 / 1000"
    by linarith
  then show "\<bar>total (computeCandidateScore params)
     - weighted_sum (breakdown (computeCandidateScore params))\<bar> \<le> 1 / 1000"
    by (simp only: t ws_eq)
qed

subsection \<open>The scorer on three inputs\<close>

lemma tie_score:
  "scoreFromSignals (p_signals tie_params) ''builder_activity'' = fl (45 / 10000)"
  "round3 (fl (45 / 10000)) = fl (5 / 1000)"
  "round3_half_away (fl (45 / 10000)) = 4 / 1000"
  "fl (5 / 1000) \<noteq> fl (4 / 1000)"
  by code_simp+

lemma decimal_score:
  "scoreFromSignals (p_signals decimal_params) ''builder_activity'' = fl (5005 / 10000)"
  "round3 (fl (5005 / 10000)) = fl (500 / 1000)"
  "round3_half_away (5005 / 10000) = 501 / 1000"
  "fl (500 / 1000) \<noteq> fl (501 / 1000)"
  by code_simp+

lemma sum_score:
  "computeCandidateScore sum_params
     = \<lparr> total = fl (657 / 1000), score_shortlistEligible = False,
         breakdown =
           \<lparr> builder_activity = fl (942 / 1000), ai_native_evidence = fl (88 / 100),
             technical_depth = fl (561 / 1000), role_fit = fl (237 / 1000),
             identity_confidence = fl (414 / 1000) \<rparr>,
         concerns = [''identity_unconfirmed'', ''weak_role_fit''],
         outreachAngle =
           ''Lead with AI-native shipping evidence and ask about current build velocity.'' \<rparr>"
  by code_simp

lemma sum_exact:
  "round3_half_away
     (weighted_sum
        \<lparr> builder_activity = fl (942 / 1000), ai_native_evidence = fl (88 / 100),
          technical_depth = fl (561 / 1000), role_fit = fl (237 / 1000),
          identity_confidence = fl (414 / 1000) \<rparr>) = 656 / 1000"
  "fl (657 / 1000) \<noteq> fl (656 / 1000)"
  by code_simp+

text \<open>
  Claim C6 as stated fails: the rounding is done in double arithmetic, where the product
  by 1000 and the weighted sum are themselves rounded, and this can move a value across
  a tie. The double nearest to 0.0045 lies below 0.0045, so to three decimals it is
  0.004, but the builder activity of the breakdown is 0.005; read as the decimal 0.5005
  the builder activity rounds to 0.501, but the breakdown holds 0.5; and for the
  breakdown 0.942, 0.88, 0.561, 0.237, 0.414 the exact weighted sum rounds to 0.656 where
  the total is 0.657.
\<close>

theorem computeCandidateScore_not_half_away:
  "builder_activity (breakdown (computeCandidateScore tie_params)) = fl (5 / 1000)
   \<and> round3_half_away (scoreFromSignals (p_signals tie_params) ''builder_activity'') = 4 / 1000
   \<and> fl (5 / 1000) \<noteq> fl (4 / 1000)
   \<and> builder_activity (breakdown (computeCandidateScore decimal_params)) = fl (500 / 1000)
   \<and> round3_half_away (5005 / 10000) = 501 / 1000
   \<and> fl (500 / 1000) \<noteq> fl (501 / 1000)
   \<and> total (computeCandidateScore sum_params) = fl (657 / 1000)
   \<and> round3_half_away (weighted_sum (breakdown (computeCandidateScore sum_params)))
       = 656 / 1000
   \<and> fl (657 / 1000) \<noteq> fl (656 / 1000)"
proof -
  have "builder_activity (breakdown (computeCandidateScore tie_params)) = fl (5 / 1000)"
    by (simp only: breakdown_components tie_score)
  moreover have "round3_half_away (scoreFromSignals (p_signals tie_params) ''builder_activity'')
                   = 4 / 1000"
    by (simp only: tie_score)
  moreover have "builder_activity (breakdown (computeCandidateScore decimal_params))
                   = fl (500 / 1000)"
    by (simp only: breakdown_components decimal_score)
  moreover have "total (computeCandidateScore sum_params) = fl (657 / 1000)"
    by (simp add: sum_score)
  moreover have "round3_half_away (weighted_sum (breakdown (computeCandidateScore sum_params)))
                   = 656 / 1000"
    by (simp only: sum_score CandidateScore.simps sum_exact)
  ultimately show ?thesis
    using tie_score(4) decimal_score(3,4) sum_exact(2) by (intro conjI)
qed

text \<open>
  Claim C6, amended. For every input, each of the five components of the breakdown is
  \<open>Math.round(v * 1000) / 1000\<close> computed in doubles on its raw value \<open>v\<close>: it is the
  double nearest to a whole number of thousandths between 0 and 1, and that number is
  within half a thousandth of \<open>v\<close>, up to a rounding error below \<open>2^-38\<close>. The total is
  obtained in the same way from the sum of the components times their weights (0.25,
  0.25, 0.20, 0.20, 0.10), added in doubles. The total and the exact weighted sum of the
  components differ by at most one thousandth.
\<close>

theorem computeCandidateScore_rounds_in_doubles:
  "(\<exists>k. rounds_to (scoreFromSignals (p_signals params) ''builder_activity'') k
          (builder_activity (breakdown (computeCandidateScore params))))
   \<and> (\<exists>k. rounds_to (max (scoreFromSignals (p_signals params) ''ai_native_evidence'')
                          (if hasAiEvidence (p_evidence params) then fl (7 / 10) else 0)) k
          (ai_native_evidence (breakdown (computeCandidateScore params))))
   \<and> (\<exists>k. rounds_to (scoreFromSignals (p_signals params) ''technical_depth'') k
          (technical_depth (breakdown (computeCandidateScore params))))
   \<and> (\<exists>k. rounds_to (scoreFromSignals (p_signals params) ''role_fit'') k
          (role_fit (breakdown (computeCandidateScore params))))
   \<and> (\<exists>k. rounds_to (clamp01 (number (confidence (p_identity params)))) k
          (identity_confidence (breakdown (computeCandidateScore params))))
   \<and> (\<exists>m. rounds_to (weighted_sum (breakdown (computeCandidateScore params))) m
          (total (computeCandidateScore params)))
   \<and> \<bar>total (computeCandidateScore params)
        - weighted_sum (breakdown (computeCandidateScore params))\<bar> \<le> 1 / 1000"
proof (intro conjI)
  show "\<exists>k. rounds_to (scoreFromSignals (p_signals params) ''builder_activity'') k
          (builder_activity (breakdown (computeCandidateScore params)))"
    unfolding breakdown_components
    by (rule round3_rounds_to) (simp_all add: scoreFromSignals_range)
  show "\<exists>k. rounds_to (max (scoreFromSignals (p_signals params) ''ai_native_evidence'')
                          (if hasAiEvidence (p_evidence params) then fl (7 / 10) else 0)) k
          (ai_native_evidence (breakdown (computeCandidateScore params)))"
    unfolding breakdown_components
    by (rule round3_rounds_to) (simp_all only: aiNative_range)
  show "\<exists>k. rounds_to (scoreFromSignals (p_signals params) ''technical_depth'') k
          (technical_depth (breakdown (computeCandidateScore params)))"
    unfolding breakdown_components
    by (rule round3_rounds_to) (simp_all add: scoreFromSignals_range)
  show "\<exists>k. rounds_to (scoreFromSignals (p_signals params) ''role_fit'') k
          (role_fit (breakdown (computeCandidateScore params)))"
    unfolding breakdown_components
    by (rule round3_rounds_to) (simp_all add: scoreFromSignals_range)
  show "\<exists>k. rounds_to (clamp01 (number (confidence (p_identity params)))) k
          (identity_confidence (breakdown (computeCandidateScore params)))"
    unfolding breakdown_components
    by (rule round3_rounds_to) (simp_all add: clamp01_range)
  show "\<exists>m. rounds_to (weighted_sum (breakdown (computeCandidateScore params))) m
          (total (computeCandidateScore params))"
    by (rule total_rounds)
  show "\<bar>total (computeCandidateScore params)
        - weighted_sum (breakdown (computeCandidateScore params))\<bar> \<le> 1 / 1000"
    by (rule total_rounds)
qed

section \<open>Properties of the store\<close>

subsection \<open>Ordering\<close>

lemma set_insert_by [simp]: "set (insert_by le a xs) = insert a (set xs)"
  by (induction xs) auto

lemma set_order_by [simp]: "set (order_by le xs) = set xs"
  by (induction xs) auto

lemma length_insert_by [simp]: "length (insert_by le a xs) = Suc (length xs)"
  by (induction xs) auto

lemma length_order_by [simp]: "length (order_by le xs) = length xs"
  by (induction xs) auto






lemma first_row_single: "xs = [a] \<Longrightarrow> first_row (order_by le xs) = Some a"
  by simp

lemma filter_key_single:
  "distinct (map f xs) \<Longrightarrow> a \<in> set xs \<Longrightarrow> filter (\<lambda>b. f b = f a) xs = [a]"
proof (induction xs)
  case Nil
  then show ?case by simp
next
  case (Cons b bs)
  show ?case
  proof (cases "b = a")
    case True
    with Cons.prems have "f a \<notin> f ` set bs" by simp
    then have "\<forall>b \<in> set bs. f b \<noteq> f a"
      by (metis imageI)
    then have "filter (\<lambda>b. f b = f a) bs = []"
      by (simp add: filter_empty_conv)
    with True show ?thesis by simp
  next
    case False
    with Cons.prems have "a \<in> set bs" and "f b \<noteq> f a" by auto
    with Cons show ?thesis by simp
  qed
qed

subsection \<open>Which statements touch \<open>pipeline_runs\<close>\<close>

lemma recordFailure_runs:
  "recordFailure s p c = Inr s' \<Longrightarrow> pipeline_runs s' = pipeline_runs s"
  by (auto simp: recordFailure_def split: if_splits)

lemma upsertCandidate_runs:
  "upsertCandidate h s input c u = Inr (s', cid, hsh) \<Longrightarrow> pipeline_runs s' = pipeline_runs s"
  unfolding upsertCandidate_def Let_def by (auto split: if_splits)

lemma addSourceRecord_runs:
  "addSourceRecord s cid rid src rank c = Inr s' \<Longrightarrow> pipeline_runs s' = pipeline_runs s"
  by (auto simp: addSourceRecord_def split: if_splits)

lemma upsertIdentity_runs:
  "upsertIdentity s cid pf h u res c = Inr s' \<Longrightarrow> pipeline_runs s' = pipeline_runs s"
  by (auto simp: upsertIdentity_def split: if_splits)

lemma addSignals_runs:
  "addSignals s cid sigs c = Inr s' \<Longrightarrow> pipeline_runs s' = pipeline_runs s"
  by (auto simp: addSignals_def split: if_splits)

lemma upsertScore_runs:
  "upsertScore s cid rid sc c = Inr s' \<Longrightarrow> pipeline_runs s' = pipeline_runs s"
  by (auto simp: upsertScore_def split: if_splits)

lemma addEvidenceLinks_runs:
  "addEvidenceLinks s cid rid links c = Inr s' \<Longrightarrow> pipeline_runs s' = pipeline_runs s"
  by (auto simp: addEvidenceLinks_def Let_def split: if_splits)

lemma upsertReviewStatus_runs:
  "upsertReviewStatus s cid rid st pr n ub c = Inr s' \<Longrightarrow> pipeline_runs s' = pipeline_runs s"
  by (auto simp: upsertReviewStatus_def split: if_splits)

lemma store_submitVerification_runs:
  "store_submitVerification s row = Inr s' \<Longrightarrow> pipeline_runs s' = pipeline_runs s"
  by (auto simp: store_submitVerification_def split: if_splits)

lemma store_promoteCandidate_runs:
  "pipeline_runs (fst (store_promoteCandidate s row c)) = pipeline_runs s"
  by (auto simp: store_promoteCandidate_def Let_def split: if_splits sum.splits
           dest: upsertReviewStatus_runs)

lemma or_unchanged_runs:
  "(\<And>s'. r = Inr s' \<Longrightarrow> pipeline_runs s' = pipeline_runs s)
     \<Longrightarrow> pipeline_runs (or_unchanged s r) = pipeline_runs s"
  by (cases r) (simp_all add: or_unchanged_def)

text \<open>The identifiers and keys of the runs, in table order.\<close>

lemma markRun_keys:
  "map (\<lambda>r. (r_id r, r_idempotency_key r)) (pipeline_runs (markRun st s rid sm c))
     = map (\<lambda>r. (r_id r, r_idempotency_key r)) (pipeline_runs s)"
  by (simp add: markRun_def comp_def)

lemma insert_new_run_keys:
  "map (\<lambda>r. (r_id r, r_idempotency_key r)) (pipeline_runs (fst (insert_new_run s p c u)))
     = map (\<lambda>r. (r_id r, r_idempotency_key r)) (pipeline_runs s)
   \<or> (\<exists>rid. map (\<lambda>r. (r_id r, r_idempotency_key r)) (pipeline_runs (fst (insert_new_run s p c u)))
          = map (\<lambda>r. (r_id r, r_idempotency_key r)) (pipeline_runs s)
              @ [(rid, bp_idempotencyKey p)]
        \<and> rid \<notin> r_id ` set (pipeline_runs s)
        \<and> (bp_idempotencyKey p = None
             \<or> bp_idempotencyKey p \<notin> r_idempotency_key ` set (pipeline_runs s)))"
  unfolding insert_new_run_def insert_run_def insert_run_role_def Let_def
  by (auto split: if_splits sum.splits)

lemma beginRun_keys:
  "map (\<lambda>r. (r_id r, r_idempotency_key r)) (pipeline_runs (fst (beginRun s p c u)))
     = map (\<lambda>r. (r_id r, r_idempotency_key r)) (pipeline_runs s)
   \<or> (\<exists>rid. map (\<lambda>r. (r_id r, r_idempotency_key r)) (pipeline_runs (fst (beginRun s p c u)))
          = map (\<lambda>r. (r_id r, r_idempotency_key r)) (pipeline_runs s)
              @ [(rid, bp_idempotencyKey p)]
        \<and> rid \<notin> r_id ` set (pipeline_runs s)
        \<and> (bp_idempotencyKey p = None
             \<or> bp_idempotencyKey p \<notin> r_idempotency_key ` set (pipeline_runs s)))"
  unfolding beginRun_def using insert_new_run_keys [of s p c u]
  by (auto split: option.splits)

lemma apply_op_keys:
  "map (\<lambda>r. (r_id r, r_idempotency_key r)) (pipeline_runs (apply_op c s))
     = map (\<lambda>r. (r_id r, r_idempotency_key r)) (pipeline_runs s)
   \<or> (\<exists>rid k. map (\<lambda>r. (r_id r, r_idempotency_key r)) (pipeline_runs (apply_op c s))
          = map (\<lambda>r. (r_id r, r_idempotency_key r)) (pipeline_runs s) @ [(rid, k)]
        \<and> rid \<notin> r_id ` set (pipeline_runs s)
        \<and> (k = None \<or> k \<notin> r_idempotency_key ` set (pipeline_runs s)))"
proof (cases c)
  case (OpBeginRun p clock u)
  then show ?thesis using beginRun_keys [of s p clock u] by auto
next
  case (OpUpsertCandidate h input clock u)
  then show ?thesis
    by (auto split: sum.splits dest: upsertCandidate_runs)
qed (simp_all add: markRunCompleted_def markRunFailed_def markRun_keys
       store_promoteCandidate_runs
       or_unchanged_runs [OF recordFailure_runs] or_unchanged_runs [OF addSourceRecord_runs]
       or_unchanged_runs [OF upsertIdentity_runs] or_unchanged_runs [OF addSignals_runs]
       or_unchanged_runs [OF upsertScore_runs] or_unchanged_runs [OF addEvidenceLinks_runs]
       or_unchanged_runs [OF upsertReviewStatus_runs]
       or_unchanged_runs [OF store_submitVerification_runs])

subsection \<open>\<open>beginRun\<close>\<close>

lemma runs_ok_keys:
  "runs_ok s \<longleftrightarrow>
     distinct (map fst (map (\<lambda>r. (r_id r, r_idempotency_key r)) (pipeline_runs s))) \<and>
     distinct (filter (\<lambda>k. k \<noteq> None)
                 (map snd (map (\<lambda>r. (r_id r, r_idempotency_key r)) (pipeline_runs s))))"
  by (simp add: runs_ok_def comp_def filter_map)

lemma runs_ok_empty: "runs_ok empty_store"
  by (simp add: runs_ok_def empty_store_def)

lemma apply_op_runs_ok:
  assumes "runs_ok s"
  shows "runs_ok (apply_op c s)"
proof -
  let ?K = "\<lambda>t. map (\<lambda>r. (r_id r, r_idempotency_key r)) (pipeline_runs t)"
  from apply_op_keys [of c s] consider
      (same) "?K (apply_op c s) = ?K s"
    | (new) rid k where "?K (apply_op c s) = ?K s @ [(rid, k)]"
        "rid \<notin> r_id ` set (pipeline_runs s)"
        "k = None \<or> k \<notin> r_idempotency_key ` set (pipeline_runs s)"
    by blast
  then show ?thesis
  proof cases
    case same
    with assms show ?thesis by (simp only: runs_ok_keys)
  next
    case new
    have ids: "set (map fst (?K s)) = r_id ` set (pipeline_runs s)"
      by (simp add: comp_def)
    have keys: "set (map snd (?K s)) = r_idempotency_key ` set (pipeline_runs s)"
      by (simp add: comp_def)
    from assms have "distinct (map fst (?K s))"
      and "distinct (filter (\<lambda>k. k \<noteq> None) (map snd (?K s)))"
      by (simp_all only: runs_ok_keys)
    with new ids keys
    have "distinct (map fst (?K s @ [(rid, k)]))"
      and "distinct (filter (\<lambda>k. k \<noteq> None) (map snd (?K s @ [(rid, k)])))"
      by auto
    with new(1) show ?thesis by (simp only: runs_ok_keys)
  qed
qed

lemma apply_ops_runs_ok: "runs_ok s \<Longrightarrow> runs_ok (apply_ops cs s)"
  by (induction cs arbitrary: s) (simp_all add: apply_op_runs_ok)

lemma apply_op_keeps_run:
  assumes "(rid, k) \<in> (\<lambda>r. (r_id r, r_idempotency_key r)) ` set (pipeline_runs s)"
  shows "(rid, k) \<in> (\<lambda>r. (r_id r, r_idempotency_key r)) ` set (pipeline_runs (apply_op c s))"
proof -
  let ?K = "\<lambda>t. map (\<lambda>r. (r_id r, r_idempotency_key r)) (pipeline_runs t)"
  from apply_op_keys [of c s] consider
      (same) "?K (apply_op c s) = ?K s"
    | (new) rid' k' where "?K (apply_op c s) = ?K s @ [(rid', k')]"
    by blast
  then have "set (?K s) \<subseteq> set (?K (apply_op c s))"
  proof cases
    case same
    then have "set (?K (apply_op c s)) = set (?K s)" by (rule arg_cong)
    then show ?thesis by blast
  next
    case new
    then have "set (?K (apply_op c s)) = set (?K s @ [(rid', k')])" by (rule arg_cong)
    then show ?thesis by auto
  qed
  with assms show ?thesis by auto
qed

lemma apply_ops_keeps_run:
  "(rid, k) \<in> (\<lambda>r. (r_id r, r_idempotency_key r)) ` set (pipeline_runs s)
     \<Longrightarrow> (rid, k) \<in> (\<lambda>r. (r_id r, r_idempotency_key r)) ` set (pipeline_runs (apply_ops cs s))"
  by (induction cs arbitrary: s) (simp_all add: apply_op_keeps_run)

lemma first_row_in_set: "first_row xs = Some a \<Longrightarrow> a \<in> set xs"
  by (cases xs) auto

lemma select_run_by_key_found:
  assumes "select_run_by_key s k = Some r"
  shows "r \<in> set (pipeline_runs s) \<and> r_idempotency_key r = Some k"
proof -
  from assms have "r \<in> set (order_by (\<lambda>a b. r_started_at b \<le> r_started_at a)
                       (filter (\<lambda>r. r_idempotency_key r = Some k) (pipeline_runs s)))"
    unfolding select_run_by_key_def by (rule first_row_in_set)
  then show ?thesis by simp
qed

lemma select_run_by_key_unique:
  assumes ok: "runs_ok s" and r: "r \<in> set (pipeline_runs s)"
    and k: "r_idempotency_key r = Some k"
  shows "select_run_by_key s k = Some r"
proof -
  let ?keyed = "filter (\<lambda>r. r_idempotency_key r \<noteq> None) (pipeline_runs s)"
  from ok have "distinct (map r_idempotency_key ?keyed)"
    by (simp add: runs_ok_def)
  moreover from r k have "r \<in> set ?keyed" by simp
  ultimately have "filter (\<lambda>b. r_idempotency_key b = r_idempotency_key r) ?keyed = [r]"
    by (rule filter_key_single)
  moreover have "filter (\<lambda>b. r_idempotency_key b = r_idempotency_key r) ?keyed
      = filter (\<lambda>r. r_idempotency_key r = Some k) (pipeline_runs s)"
    using k by (auto intro: filter_cong)
  ultimately have "filter (\<lambda>r. r_idempotency_key r = Some k) (pipeline_runs s) = [r]"
    by metis
  then show ?thesis
    by (simp add: select_run_by_key_def)
qed

lemma insert_new_run_row:
  assumes "insert_new_run s p c u = (s1, Inr (rid, res))"
  shows "(rid, bp_idempotencyKey p)
           \<in> (\<lambda>r. (r_id r, r_idempotency_key r)) ` set (pipeline_runs s1)"
  using assms
  unfolding insert_new_run_def insert_run_def insert_run_role_def Let_def
  by (auto split: if_splits sum.splits simp: image_iff)

lemma beginRun_returns_keyed_run:
  assumes call: "beginRun s p c u = (s1, Inr (rid, res))"
    and key: "bp_idempotencyKey p = Some k" "k \<noteq> []"
  shows "(rid, Some k) \<in> (\<lambda>r. (r_id r, r_idempotency_key r)) ` set (pipeline_runs s1)"
proof (cases "select_run_by_key s k")
  case None
  with call key have "insert_new_run s p c u = (s1, Inr (rid, res))"
    by (simp add: beginRun_def)
  from insert_new_run_row [OF this] key show ?thesis by simp
next
  case (Some ex)
  note found = select_run_by_key_found [OF Some]
  show ?thesis
  proof (cases "r_status ex = ''running'' \<or> r_status ex = ''completed''")
    case True
    with call key Some have "s1 = s" and "rid = r_id ex"
      by (auto simp: beginRun_def)
    with found show ?thesis by force
  next
    case False
    with call key Some have "insert_new_run s p c u = (s1, Inr (rid, res))"
      by (auto simp: beginRun_def)
    from insert_new_run_row [OF this] key show ?thesis by simp
  qed
qed

lemma getRunStatus_row:
  assumes "getRunStatus s rid = Some st"
  shows "\<exists>r \<in> set (pipeline_runs s). r_id r = rid \<and> r_status r = st_status st"
proof -
  from assms obtain r where f: "first_row (filter (\<lambda>r. r_id r = rid) (pipeline_runs s)) = Some r"
    and st: "st_status st = r_status r"
    by (auto simp: getRunStatus_def split: option.splits)
  from first_row_in_set [OF f] st show ?thesis by auto
qed

text \<open>
  A key whose run is there in status \<open>running\<close> or \<open>completed\<close>: the call resumes
  that run and leaves the store as it is.
\<close>

lemma beginRun_resumes:
  assumes ok: "runs_ok s" and r: "r \<in> set (pipeline_runs s)"
    and k: "r_idempotency_key r = Some k" "k \<noteq> []" "bp_idempotencyKey p = Some k"
    and st: "r_status r = ''running'' \<or> r_status r = ''completed''"
  shows "beginRun s p c u = (s, Inr (r_id r, True))"
  using select_run_by_key_unique [OF ok r k(1)] k st
  by (simp add: beginRun_def)

text \<open>
  A key whose run is there in status \<open>failed\<close>: the call reaches the \<open>INSERT\<close>,
  which the constraints of \<open>pipeline_runs\<close> refuse.
\<close>

lemma beginRun_failed_key_throws:
  assumes ok: "runs_ok s" and r: "r \<in> set (pipeline_runs s)"
    and k: "r_idempotency_key r = Some k" "k \<noteq> []" "bp_idempotencyKey p = Some k"
    and st: "r_status r = ''failed''"
  shows "\<exists>err. beginRun s p c u = (s, Inl err)"
proof -
  from r k have "bp_idempotencyKey p \<in> r_idempotency_key ` set (pipeline_runs s)"
    by force
  with k have "\<exists>err. insert_new_run s p c u = (s, Inl err)"
    by (simp add: insert_new_run_def insert_run_def Let_def)
  with select_run_by_key_unique [OF ok r k(1)] k st show ?thesis
    by (simp add: beginRun_def)
qed

lemma store_failed_eval:
  "getRunStatus store_failed ''run-1''
     = Some \<lparr> st_runId = ''run-1'', st_status = ''failed'', st_startedAt = 1000,
              st_finishedAt = Some 2000, st_targetCandidates = Fin 300,
              st_roleKey = ''backend'', st_roleTitle = ''Backend Engineer'',
              st_diagnostics = None \<rparr>"
  by code_simp

text \<open>
  Claim C1, at a concrete store. A first run with the key \<open>role:2026-01-01\<close> has been
  started and marked failed. A second \<open>beginRun\<close> with the same key does not restart
  the run: the \<open>INSERT\<close> breaks \<open>UNIQUE(idempotency_key)\<close>, the call throws and the
  store is left as it was.
\<close>

theorem beginRun_after_failed_run:
  "map_option st_status (getRunStatus store_failed ''run-1'') = Some ''failed''
   \<and> beginRun store_failed backend_params 3000 ''run-2''
       = (store_failed, Inl (unique_failed ''pipeline_runs.idempotency_key''))"
  by code_simp

text \<open>
  Claim C2. Take any database, a \<open>beginRun\<close> with a non-empty key that returns
  \<open>runId\<close>, and any calls of the store after it. If the run \<open>runId\<close> is then in status
  \<open>running\<close> or \<open>completed\<close>, a second \<open>beginRun\<close> with the same key returns
  \<open>runId\<close> with \<open>resumed = true\<close> and leaves the store, hence the table of runs, as it
  is.
\<close>

theorem beginRun_same_key_resumes:
  assumes db: "s0 = apply_ops history empty_store"
    and key1: "bp_idempotencyKey p1 = Some k" and nonempty: "k \<noteq> []"
    and first: "beginRun s0 p1 clock1 uuid1 = (s1, Inr (runId, resumed))"
    and later: "s2 = apply_ops between s1"
    and status: "getRunStatus s2 runId = Some st"
    and alive: "st_status st = ''running'' \<or> st_status st = ''completed''"
    and key2: "bp_idempotencyKey p2 = Some k"
  shows "beginRun s2 p2 clock2 uuid2 = (s2, Inr (runId, True))"
proof -
  have "runs_ok s0"
    unfolding db by (rule apply_ops_runs_ok [OF runs_ok_empty])
  then have "runs_ok (apply_op (OpBeginRun p1 clock1 uuid1) s0)"
    by (rule apply_op_runs_ok)
  with first have "runs_ok s1" by simp
  then have ok: "runs_ok s2"
    unfolding later by (rule apply_ops_runs_ok)
  have "(runId, Some k) \<in> (\<lambda>r. (r_id r, r_idempotency_key r)) ` set (pipeline_runs s1)"
    using first key1 nonempty by (rule beginRun_returns_keyed_run)
  then have "(runId, Some k) \<in> (\<lambda>r. (r_id r, r_idempotency_key r)) ` set (pipeline_runs s2)"
    unfolding later by (rule apply_ops_keeps_run)
  then obtain r where r: "r \<in> set (pipeline_runs s2)" "r_id r = runId"
      "r_idempotency_key r = Some k"
    by auto
  from getRunStatus_row [OF status] obtain r' where r': "r' \<in> set (pipeline_runs s2)"
      "r_id r' = runId" "r_status r' = st_status st"
    by auto
  from ok have "distinct (map r_id (pipeline_runs s2))"
    by (simp add: runs_ok_def)
  with r r' have "r' = r"
    by (metis distinct_map inj_onD)
  with r' alive have "r_status r = ''running'' \<or> r_status r = ''completed''"
    by simp
  from beginRun_resumes [OF ok r(1) r(3) nonempty key2 this] r(2)
  show ?thesis by simp
qed

lemma store_running_eval:
  "beginRun empty_store backend_params 1000 ''run-1'' = (store_running, Inr (''run-1'', False))"
  by code_simp

lemma store_completed_eval:
  "getRunStatus (apply_ops [OpMarkRunCompleted ''run-1'' None 2000] store_running) ''run-1''
     = Some \<lparr> st_runId = ''run-1'', st_status = ''completed'', st_startedAt = 1000,
              st_finishedAt = Some 2000, st_targetCandidates = Fin 300,
              st_roleKey = ''backend'', st_roleTitle = ''Backend Engineer'',
              st_diagnostics = None \<rparr>"
  by code_simp

theorem beginRun_same_key_resumes_witness:
  "beginRun (apply_ops [OpMarkRunCompleted ''run-1'' None 2000] store_running)
      backend_params 3000 ''run-2''
     = (apply_ops [OpMarkRunCompleted ''run-1'' None 2000] store_running,
        Inr (''run-1'', True))"
proof -
  have db: "empty_store = apply_ops [] empty_store" by simp
  have key: "bp_idempotencyKey backend_params = Some ''role:2026-01-01''"
    by (simp add: backend_params_def)
  have nonempty: "''role:2026-01-01'' \<noteq> []" by simp
  have later: "apply_ops [OpMarkRunCompleted ''run-1'' None 2000] store_running
      = apply_ops [OpMarkRunCompleted ''run-1'' None 2000] store_running" by simp
  have alive: "st_status \<lparr> st_runId = ''run-1'', st_status = ''completed'', st_startedAt = 1000,
              st_finishedAt = Some 2000, st_targetCandidates = Fin 300,
              st_roleKey = ''backend'', st_roleTitle = ''Backend Engineer'',
              st_diagnostics = None \<rparr> = ''running''
       \<or> st_status \<lparr> st_runId = ''run-1'', st_status = ''completed'', st_startedAt = 1000,
              st_finishedAt = Some 2000, st_targetCandidates = Fin 300,
              st_roleKey = ''backend'', st_roleTitle = ''Backend Engineer'',
              st_diagnostics = None \<rparr> = ''completed''"
    by simp
  show ?thesis
    by (rule beginRun_same_key_resumes
          [OF db key nonempty store_running_eval later store_completed_eval alive key])
qed

section \<open>Properties of the run orchestrator\<close>

subsection \<open>The target number of candidates\<close>

lemma Math_trunc_ge_1: "1 \<le> v \<Longrightarrow> 1 \<le> Math_trunc v"
proof -
  assume "1 \<le> v"
  then have "(1 :: int) \<le> \<lfloor>v\<rfloor>" by (simp add: le_floor_iff)
  then have "(1 :: rat) \<le> of_int \<lfloor>v\<rfloor>" by linarith
  with \<open>1 \<le> v\<close> show ?thesis by (simp add: Math_trunc_def)
qed

lemma Math_trunc_le: "0 \<le> v \<Longrightarrow> Math_trunc v \<le> v"
  by (simp add: Math_trunc_def)

lemma clampNumber_range: "lo \<le> hi \<Longrightarrow> lo \<le> fb \<Longrightarrow> fb \<le> hi
    \<Longrightarrow> lo \<le> clampNumber v lo hi fb \<and> clampNumber v lo hi fb \<le> hi"
  by (auto simp: clampNumber_def split: option.splits jsnum.splits)

lemma configured_target_range:
  "1 \<le> targetCandidatesPerRole (resolveRecruitingConfig raw)
   \<and> targetCandidatesPerRole (resolveRecruitingConfig raw) \<le> 2000"
proof -
  let ?c = "clampNumber (raw_targetCandidatesPerRole raw) 1 2000 300"
  have r: "1 \<le> ?c \<and> ?c \<le> 2000"
    by (rule clampNumber_range) simp_all
  then have "1 \<le> Math_trunc ?c"
    by (simp add: Math_trunc_ge_1)
  moreover from r have "Math_trunc ?c \<le> ?c"
    by (intro Math_trunc_le) linarith
  ultimately show ?thesis
    using r by (simp add: resolveRecruitingConfig_def Let_def)
qed

text \<open>
  What \<open>run\<close> computes: a number given with the role is truncated and raised to 1,
  with no upper bound; the configured number is used when the role gives none.
\<close>

lemma effectiveTargetCandidates_given:
  "role_targetCandidates role = Some (Fin v)
     \<Longrightarrow> effectiveTargetCandidates recruiting role = Fin (max 1 (Math_trunc v))"
  by (simp add: effectiveTargetCandidates_def)

lemma effectiveTargetCandidates_default:
  assumes "role_targetCandidates role = None"
  shows "effectiveTargetCandidates (resolveRecruitingConfig raw) role
           = Fin (targetCandidatesPerRole (resolveRecruitingConfig raw))"
proof -
  let ?t = "targetCandidatesPerRole (resolveRecruitingConfig raw)"
  have "Math_trunc (Math_trunc v) = Math_trunc v" for v
    by (simp add: Math_trunc_def)
  then have "Math_trunc ?t = ?t"
    by (simp add: resolveRecruitingConfig_def Let_def)
  moreover have "1 \<le> ?t"
    using configured_target_range [of raw] by simp
  ultimately show ?thesis
    using assms by (simp add: effectiveTargetCandidates_def max_def)
qed

text \<open>
  Claim C4, at a concrete input. With the default configuration and a role that asks
  for 5000 candidates, the run works with 5000 candidates, not with 2000: the number
  given with the role is only bounded from below.
\<close>

theorem effectiveTargetCandidates_not_capped:
  "effectiveTargetCandidates default_recruiting large_role = Fin 5000
   \<and> bp_targetCandidates
        (runParams quiet_env default_recruiting (backend_input\<lparr>in_role := large_role\<rparr>))
       = Fin 5000"
  by code_simp

subsection \<open>The identity of a candidate inside a run\<close>

lemma resolveIdentity_banded:
  "band (resolveIdentity input) = resolveBand (confidence (resolveIdentity input))"
  by (simp add: resolveIdentity_def scoreRules_def Let_def split: prod.splits)

text \<open>
  Inside a run the resolver is never told what the GitHub, X or personal-site pages
  declare, so none of its rules can fire.
\<close>

lemma identityInput_unconfirmed:
  "confidence (resolveIdentity (identityInput candidate external)) = Fin 0
   \<and> band (resolveIdentity (identityInput candidate external)) = LOW"
proof -
  let ?input = "identityInput candidate external"
  have n: "normalizeUrl None = None"
    by (simp add: normalizeUrl_def)
  have d: "\<not> directProfileLink ?input"
    by (simp add: directProfileLink_def identityInput_def opt_field_def n
          includesLinkedinUrl_def)
  have "\<not> (truthy u \<and> None = u)" for u :: "string option"
    by auto
  then have r: "\<not> reverseLinkViaSite ?input"
    by (simp add: reverseLinkViaSite_def identityInput_def opt_field_def n Let_def)
  have e: "\<not> sameEmployer ?input"
    by (simp add: sameEmployer_def identityInput_def opt_field_def sameText_def
          split: option.splits)
  from d r e show ?thesis
    by (simp add: resolveIdentity_def scoreRules_cases)
qed

lemma pipelineIdentity_fields:
  "confidence (pipelineIdentity recruiting candidate external)
     = confidence (resolveIdentity (identityInput candidate external))"
  "band (pipelineIdentity recruiting candidate external)
     = band (resolveIdentity (identityInput candidate external))"
  "shortlistEligible (pipelineIdentity recruiting candidate external)
     = js_ge (confidence (resolveIdentity (identityInput candidate external)))
         (Fin (minConfidenceForShortlist recruiting))"
  by (simp_all add: pipelineIdentity_def Let_def)

subsubsection \<open>What \<open>persistCandidate\<close> leaves in \<open>candidate_identities\<close>\<close>

lemma run_ops_Cons_None:
  "run_ops (f # fs) s = (s', None) \<longleftrightarrow> (\<exists>s1. f s = Inr s1 \<and> run_ops fs s1 = (s', None))"
  by (auto split: sum.splits)

lemma run_ops_preserves:
  assumes step: "\<And>f t t'. f \<in> set fs \<Longrightarrow> f t = Inr t' \<Longrightarrow> P t \<Longrightarrow> P t'"
  shows "P s \<Longrightarrow> run_ops fs s = (s', r) \<Longrightarrow> P s'"
  using step
proof (induction fs arbitrary: s)
  case Nil
  then show ?case by simp
next
  case (Cons f fs)
  show ?case
  proof (cases "f s")
    case (Inl err)
    with Cons.prems show ?thesis by simp
  next
    case (Inr s1)
    with Cons.prems have "P s1" by auto
    moreover from Inr Cons.prems have "run_ops fs s1 = (s', r)" by simp
    ultimately show ?thesis
      using Cons.IH Cons.prems(3) by auto
  qed
qed

lemma upsertIdentity_writes:
  assumes "upsertIdentity s cid pf h u res c = Inr s'"
  shows "holds_identity cid pf res s'"
proof (cases "(cid, pf) \<in> (\<lambda>r. (i_candidate_id r, i_platform r)) ` set (candidate_identities s)")
  case True
  then obtain r where r: "r \<in> set (candidate_identities s)" "i_candidate_id r = cid"
      "i_platform r = pf"
    by auto
  let ?r' = "r\<lparr> i_handle := h, i_url := u, i_confidence := confidence res,
                 i_band := band res, i_reasons_json := reasons res,
                 i_confirmed := shortlistEligible res, i_updated_at := c \<rparr>"
  from assms True r have "?r' \<in> set (candidate_identities s')"
    by (force simp: upsertIdentity_def)
  with r show ?thesis
    unfolding holds_identity_def by (intro bexI [of _ ?r']) simp_all
next
  case False
  with assms show ?thesis
    by (auto simp: upsertIdentity_def holds_identity_def split: if_splits)
qed

lemma upsertIdentity_keeps_other:
  assumes "upsertIdentity s cid pf h u res c = Inr s'" and "pf \<noteq> pf0"
    and "holds_identity cid0 pf0 res0 s"
  shows "holds_identity cid0 pf0 res0 s'"
proof -
  from assms(3) obtain row where row: "row \<in> set (candidate_identities s)"
      "i_candidate_id row = cid0" "i_platform row = pf0"
      "i_confidence row = confidence res0" "i_band row = band res0"
      "i_confirmed row = shortlistEligible res0"
    unfolding holds_identity_def by blast
  from assms(1,2) row(1,3) have "row \<in> set (candidate_identities s')"
    by (auto simp: upsertIdentity_def image_iff split: if_splits)
  with row show ?thesis
    unfolding holds_identity_def by blast
qed

lemma addSignals_identities:
  "addSignals s cid sigs c = Inr s' \<Longrightarrow> candidate_identities s' = candidate_identities s"
  by (auto simp: addSignals_def split: if_splits)

lemma upsertScore_identities:
  "upsertScore s cid rid sc c = Inr s' \<Longrightarrow> candidate_identities s' = candidate_identities s"
  by (auto simp: upsertScore_def split: if_splits)

lemma addEvidenceLinks_identities:
  "addEvidenceLinks s cid rid links c = Inr s' \<Longrightarrow> candidate_identities s' = candidate_identities s"
  by (auto simp: addEvidenceLinks_def Let_def split: if_splits)

lemma holds_identity_cong:
  "candidate_identities t' = candidate_identities t \<Longrightarrow> holds_identity cid pf res t
     \<Longrightarrow> holds_identity cid pf res t'"
  by (simp add: holds_identity_def)

lemma optional_upsertIdentity_keeps:
  assumes "(if b then upsertIdentity t cid pf h u res c else Inr t) = Inr t'"
    and "pf \<noteq> pf0" and "holds_identity cid0 pf0 res0 t"
  shows "holds_identity cid0 pf0 res0 t'"
proof (cases b)
  case True
  with assms(1) have "upsertIdentity t cid pf h u res c = Inr t'" by simp
  then show ?thesis using assms(2,3) by (rule upsertIdentity_keeps_other)
next
  case False
  with assms(1,3) show ?thesis by simp
qed

lemma persistCandidate_identity:
  assumes "persistCandidate e recruiting ctx candidate cid signals external otw s = (s', None)"
  shows "holds_identity cid ''cross_platform''
           (pipelineIdentity recruiting candidate external) s'"
proof -
  let ?i = "pipelineIdentity recruiting candidate external"
  let ?P = "holds_identity cid ''cross_platform'' ?i"
  note step = run_ops_Cons_None [THEN iffD1]
  from assms obtain s1 fs1 where
    a1: "upsertIdentity s cid ''cross_platform'' None None ?i (now e) = Inr s1"
    and r1: "run_ops fs1 s1 = (s', None)"
    and fs1: "fs1 =
      [\<lambda>s. if truthy (opt_field h_handle (ex_github external))
               \<or> truthy (opt_field h_url (ex_github external))
            then upsertIdentity s cid ''github'' (opt_field h_handle (ex_github external))
                   (opt_field h_url (ex_github external)) ?i (now e)
            else Inr s,
       \<lambda>s. if truthy (opt_field h_handle (ex_x external))
               \<or> truthy (opt_field h_url (ex_x external))
            then upsertIdentity s cid ''x'' (opt_field h_handle (ex_x external))
                   (opt_field h_url (ex_x external)) ?i (now e)
            else Inr s,
       \<lambda>s. addSignals s cid
              (pipelineSignals recruiting (ctx_browserVerificationEnabled ctx) ?i
                 signals external) (now e),
       \<lambda>s. upsertScore s cid (ctx_runId ctx)
              (pipelineScore recruiting (ctx_browserVerificationEnabled ctx) candidate
                 signals external otw) (now e),
       \<lambda>s. addEvidenceLinks s cid (ctx_runId ctx)
              (pipelineEvidence candidate external) (now e)]"
    unfolding persistCandidate_def Let_def by (blast dest: step)
  from r1 [unfolded fs1] obtain s2 fs2 where
    a2: "(if truthy (opt_field h_handle (ex_github external))
               \<or> truthy (opt_field h_url (ex_github external))
            then upsertIdentity s1 cid ''github'' (opt_field h_handle (ex_github external))
                   (opt_field h_url (ex_github external)) ?i (now e)
            else Inr s1) = Inr s2"
    and r2: "run_ops fs2 s2 = (s', None)"
    and fs2: "fs2 = tl fs1"
    unfolding fs1 list.sel by (blast dest: step)
  from r2 [unfolded fs2 fs1 list.sel] obtain s3 fs3 where
    a3: "(if truthy (opt_field h_handle (ex_x external))
               \<or> truthy (opt_field h_url (ex_x external))
            then upsertIdentity s2 cid ''x'' (opt_field h_handle (ex_x external))
                   (opt_field h_url (ex_x external)) ?i (now e)
            else Inr s2) = Inr s3"
    and r3: "run_ops fs3 s3 = (s', None)"
    and fs3: "fs3 = tl (tl fs1)"
    unfolding fs1 list.sel by (blast dest: step)
  from r3 [unfolded fs3 fs1 list.sel] obtain s4 fs4 where
    a4: "addSignals s3 cid
              (pipelineSignals recruiting (ctx_browserVerificationEnabled ctx) ?i
                 signals external) (now e) = Inr s4"
    and r4: "run_ops fs4 s4 = (s', None)"
    and fs4: "fs4 = tl (tl (tl fs1))"
    unfolding fs1 list.sel by (blast dest: step)
  from r4 [unfolded fs4 fs1 list.sel] obtain s5 fs5 where
    a5: "upsertScore s4 cid (ctx_runId ctx)
              (pipelineScore recruiting (ctx_browserVerificationEnabled ctx) candidate
                 signals external otw) (now e) = Inr s5"
    and r5: "run_ops fs5 s5 = (s', None)"
    and fs5: "fs5 = tl (tl (tl (tl fs1)))"
    unfolding fs1 list.sel by (blast dest: step)
  from r5 [unfolded fs5 fs1 list.sel] obtain s6 where
    a6: "addEvidenceLinks s5 cid (ctx_runId ctx)
              (pipelineEvidence candidate external) (now e) = Inr s6"
    and r6: "run_ops [] s6 = (s', None)"
    by (blast dest: step)
  have "?P s1"
    using a1 by (rule upsertIdentity_writes)
  then have "?P s2"
    by (intro optional_upsertIdentity_keeps [OF a2]) simp_all
  then have "?P s3"
    by (intro optional_upsertIdentity_keeps [OF a3]) simp_all
  then have "?P s4"
    by (rule holds_identity_cong [OF addSignals_identities [OF a4]])
  then have "?P s5"
    by (rule holds_identity_cong [OF upsertScore_identities [OF a5]])
  then have "?P s6"
    by (rule holds_identity_cong [OF addEvidenceLinks_identities [OF a6]])
  with r6 show ?thesis by simp
qed

lemma carol_persisted:
  "snd (persistCandidate quiet_env open_recruiting carol_context carol ''li:carol-1'' []
          no_footprint False store_sourced) = None"
  by code_simp

text \<open>
  Claim C5 as stated fails. With the threshold configured to 0, the identity of a
  candidate has confidence 0 and band LOW, and it is persisted and scored as eligible
  for the shortlist: the band takes no part in the flag.
\<close>

theorem pipelineIdentity_eligible_in_band_LOW:
  "\<not> (shortlistEligible (pipelineIdentity open_recruiting carol no_footprint)
        \<longleftrightarrow>
        (band (pipelineIdentity open_recruiting carol no_footprint) = CONFIRMED
           \<or> band (pipelineIdentity open_recruiting carol no_footprint) = HIGH)
        \<and> js_ge (confidence (pipelineIdentity open_recruiting carol no_footprint))
              (Fin (minConfidenceForShortlist open_recruiting)))
   \<and> map (\<lambda>row. (i_platform row, i_band row, i_confirmed row))
         (candidate_identities
            (fst (persistCandidate quiet_env open_recruiting carol_context carol
                    ''li:carol-1'' [] no_footprint False store_sourced)))
       = [(''cross_platform'', LOW, True)]"
  by code_simp

text \<open>
  Claim C5, amended. For every candidate of a run and every configured threshold, the
  identity has the band of its confidence, and it is eligible for the shortlist exactly
  when its confidence reaches the threshold. The scorer is given that identity, and
  when the candidate's writes go through, the \<open>cross_platform\<close> row of the
  candidate holds its confidence, band and flag.
\<close>

theorem pipelineIdentity_band_and_threshold:
  "band (pipelineIdentity recruiting candidate external)
     = resolveBand (confidence (pipelineIdentity recruiting candidate external))
   \<and> (shortlistEligible (pipelineIdentity recruiting candidate external)
        \<longleftrightarrow> js_ge (confidence (pipelineIdentity recruiting candidate external))
              (Fin (minConfidenceForShortlist recruiting)))
   \<and> score_shortlistEligible
        (pipelineScore recruiting bv candidate signals external otw)
       = shortlistEligible (pipelineIdentity recruiting candidate external)
   \<and> (persistCandidate e recruiting ctx candidate cid signals external otw s = (s', None)
        \<longrightarrow> holds_identity cid ''cross_platform''
              (pipelineIdentity recruiting candidate external) s')"
proof -
  have "score_shortlistEligible (pipelineScore recruiting bv candidate signals external otw)
      = shortlistEligible (pipelineIdentity recruiting candidate external)"
    by (simp add: pipelineScore_def computeCandidateScore_def Let_def)
  then show ?thesis
    by (simp add: pipelineIdentity_fields resolveIdentity_banded persistCandidate_identity)
qed

theorem pipelineIdentity_band_and_threshold_witness:
  "holds_identity ''li:carol-1'' ''cross_platform''
     (pipelineIdentity open_recruiting carol no_footprint)
     (fst (persistCandidate quiet_env open_recruiting carol_context carol ''li:carol-1'' []
             no_footprint False store_sourced))"
proof -
  have "persistCandidate quiet_env open_recruiting carol_context carol ''li:carol-1'' []
          no_footprint False store_sourced
        = (fst (persistCandidate quiet_env open_recruiting carol_context carol ''li:carol-1''
                  [] no_footprint False store_sourced), None)"
    using carol_persisted by (simp add: prod_eq_iff)
  with pipelineIdentity_band_and_threshold
         [of open_recruiting carol no_footprint False "[]" False quiet_env carol_context
             "''li:carol-1''" store_sourced]
  show ?thesis by blast
qed

subsection \<open>\<open>run\<close> and its \<open>catch\<close>\<close>

lemma beginRun_run_exists:
  assumes "beginRun s p c u = (s1, Inr (rid, res))"
  shows "run_exists s1 rid"
proof -
  have new: "run_exists s1 rid" if "insert_new_run s p c u = (s1, Inr (rid, res))"
    using insert_new_run_row [OF that] by (auto simp: run_exists_def)
  show ?thesis
  proof (cases "if truthy (bp_idempotencyKey p)
                then select_run_by_key s (the (bp_idempotencyKey p)) else None")
    case None
    with assms have "insert_new_run s p c u = (s1, Inr (rid, res))"
      by (simp add: beginRun_def)
    then show ?thesis by (rule new)
  next
    case (Some ex)
    then have "select_run_by_key s (the (bp_idempotencyKey p)) = Some ex"
      by (simp split: if_splits)
    then have ex: "ex \<in> set (pipeline_runs s)"
      by (simp add: select_run_by_key_found)
    show ?thesis
    proof (cases "r_status ex = ''running'' \<or> r_status ex = ''completed''")
      case True
      with assms Some have "s1 = s" "rid = r_id ex"
        by (auto simp: beginRun_def)
      with ex show ?thesis by (simp add: run_exists_def)
    next
      case False
      with assms Some have "insert_new_run s p c u = (s1, Inr (rid, res))"
        by (auto simp: beginRun_def)
      then show ?thesis by (rule new)
    qed
  qed
qed

lemma markRun_ids:
  "map r_id (pipeline_runs (markRun st s rid sm c)) = map r_id (pipeline_runs s)"
  by (simp add: markRun_def comp_def)

lemma run_exists_ids:
  "map r_id (pipeline_runs s') = map r_id (pipeline_runs s)
     \<Longrightarrow> run_exists s' rid = run_exists s rid"
proof -
  assume "map r_id (pipeline_runs s') = map r_id (pipeline_runs s)"
  then have "set (map r_id (pipeline_runs s')) = set (map r_id (pipeline_runs s))"
    by (rule arg_cong)
  then show ?thesis by (simp add: run_exists_def)
qed

lemma run_ops_runs:
  assumes "\<And>f t t'. f \<in> set fs \<Longrightarrow> f t = Inr t' \<Longrightarrow> pipeline_runs t' = pipeline_runs t"
    and "run_ops fs s = (s', r)"
  shows "pipeline_runs s' = pipeline_runs s"
proof (rule run_ops_preserves [where P = "\<lambda>t. pipeline_runs t = pipeline_runs s" and fs = fs])
  show "pipeline_runs t' = pipeline_runs s"
    if "f \<in> set fs" "f t = Inr t'" "pipeline_runs t = pipeline_runs s" for f t t'
    using assms(1) [OF that(1,2)] that(3) by simp
  show "pipeline_runs s = pipeline_runs s" by simp
  show "run_ops fs s = (s', r)" by (rule assms(2))
qed

lemma optional_upsertIdentity_runs:
  "(if b then upsertIdentity t cid pf h u res c else Inr t) = Inr t'
     \<Longrightarrow> pipeline_runs t' = pipeline_runs t"
  by (cases b) (simp_all add: upsertIdentity_runs)

lemma persistCandidate_runs:
  assumes "persistCandidate e recruiting ctx candidate cid signals external otw s = (s', r)"
  shows "pipeline_runs s' = pipeline_runs s"
proof -
  let ?i = "pipelineIdentity recruiting candidate external"
  let ?f1 = "\<lambda>s. upsertIdentity s cid ''cross_platform'' None None ?i (now e)"
  let ?f2 = "\<lambda>s. if truthy (opt_field h_handle (ex_github external))
               \<or> truthy (opt_field h_url (ex_github external))
            then upsertIdentity s cid ''github'' (opt_field h_handle (ex_github external))
                   (opt_field h_url (ex_github external)) ?i (now e)
            else Inr s"
  let ?f3 = "\<lambda>s. if truthy (opt_field h_handle (ex_x external))
               \<or> truthy (opt_field h_url (ex_x external))
            then upsertIdentity s cid ''x'' (opt_field h_handle (ex_x external))
                   (opt_field h_url (ex_x external)) ?i (now e)
            else Inr s"
  let ?f4 = "\<lambda>s. addSignals s cid
              (pipelineSignals recruiting (ctx_browserVerificationEnabled ctx) ?i
                 signals external) (now e)"
  let ?f5 = "\<lambda>s. upsertScore s cid (ctx_runId ctx)
              (pipelineScore recruiting (ctx_browserVerificationEnabled ctx) candidate
                 signals external otw) (now e)"
  let ?f6 = "\<lambda>s. addEvidenceLinks s cid (ctx_runId ctx)
              (pipelineEvidence candidate external) (now e)"
  have "pipeline_runs t' = pipeline_runs t"
    if mem: "f \<in> set [?f1, ?f2, ?f3, ?f4, ?f5, ?f6]" and res: "f t = Inr t'" for f t t'
  proof -
    from mem consider "f = ?f1" | "f = ?f2" | "f = ?f3" | "f = ?f4" | "f = ?f5" | "f = ?f6"
      by (simp only: set_simps insert_iff empty_iff) blast
    then show ?thesis
    proof cases
      case 1
      with res show ?thesis by (simp only: upsertIdentity_runs)
    next
      case 2
      with res show ?thesis by (simp only: optional_upsertIdentity_runs)
    next
      case 3
      with res show ?thesis by (simp only: optional_upsertIdentity_runs)
    next
      case 4
      with res show ?thesis by (simp only: addSignals_runs)
    next
      case 5
      with res show ?thesis by (simp only: upsertScore_runs)
    next
      case 6
      with res show ?thesis by (simp only: addEvidenceLinks_runs)
    qed
  qed
  moreover from assms have "run_ops [?f1, ?f2, ?f3, ?f4, ?f5, ?f6] s = (s', r)"
    unfolding persistCandidate_def Let_def .
  ultimately show ?thesis by (rule run_ops_runs)
qed

lemma enrichCandidate_runs:
  assumes "enrichCandidate e recruiting ctx rank candidate acc = (acc', r)"
  shows "pipeline_runs (acc_store acc') = pipeline_runs (acc_store acc)"
  using assms unfolding enrichCandidate_def Let_def
  by (auto split: sum.splits prod.splits option.splits
        dest!: upsertCandidate_runs addSourceRecord_runs persistCandidate_runs)

lemma persistFailure_runs:
  assumes "persistFailure e rid acc stage ref info = (acc', r)"
  shows "pipeline_runs (acc_store acc') = pipeline_runs (acc_store acc)"
  using assms unfolding persistFailure_def Let_def
  by (auto split: sum.splits dest!: recordFailure_runs)

lemma processCandidate_runs:
  assumes "processCandidate e recruiting ctx rank candidate acc = (acc', r)"
  shows "pipeline_runs (acc_store acc') = pipeline_runs (acc_store acc)"
proof (cases "enrichCandidate e recruiting ctx rank candidate acc")
  case (Pair acc1 r1)
  note en = enrichCandidate_runs [OF Pair]
  show ?thesis
  proof (cases r1)
    case None
    with assms Pair en show ?thesis by (simp add: processCandidate_def)
  next
    case (Some err)
    let ?acc2 = "acc1\<lparr>acc_counts :=
                   (acc_counts acc1)\<lparr>enrichFailed := enrichFailed (acc_counts acc1) + 1\<rparr>\<rparr>"
    show ?thesis
    proof (cases "classifyRunError e err")
      case (Inl thrownByClassifier)
      with assms Pair Some have "acc' = ?acc2"
        by (simp add: processCandidate_def Let_def)
      with en show ?thesis by simp
    next
      case (Inr info)
      with assms Pair Some have "persistFailure e (ctx_runId ctx) ?acc2
          ''candidate_enrich_score'' (Some (tc_provider_id candidate)) info = (acc', r)"
        by (simp add: processCandidate_def Let_def)
      from persistFailure_runs [OF this] en show ?thesis by simp
    qed
  qed
qed

lemma processCandidates_runs:
  "processCandidates e recruiting ctx rank cands acc = (acc', r)
     \<Longrightarrow> pipeline_runs (acc_store acc') = pipeline_runs (acc_store acc)"
proof (induction cands arbitrary: rank acc)
  case Nil
  then show ?case by simp
next
  case (Cons candidate rest)
  obtain acc1 r1 where p: "processCandidate e recruiting ctx rank candidate acc = (acc1, r1)"
    by (cases "processCandidate e recruiting ctx rank candidate acc")
  note one = processCandidate_runs [OF p]
  show ?case
  proof (cases r1)
    case None
    with Cons.prems p have "processCandidates e recruiting ctx (rank + 1) rest acc1 = (acc', r)"
      by simp
    from Cons.IH [OF this] one show ?thesis by simp
  next
    case (Some err)
    with Cons.prems p one show ?thesis by simp
  qed
qed

lemma runBody_ids:
  assumes "runBody e recruiting ctx account missing search api target pages acc = (acc', r)"
  shows "map r_id (pipeline_runs (acc_store acc')) = map r_id (pipeline_runs (acc_store acc))"
  using assms unfolding runBody_def Let_def markRunCompleted_def
  by (auto split: if_splits option.splits sum.splits prod.splits
        dest!: processCandidates_runs simp: markRun_ids)

lemma runTry_run_exists:
  assumes "runTry e recruiting input rid account missing s0 = (acc1, r)"
  shows "run_exists (acc_store acc1) rid' = run_exists s0 rid'"
proof -
  from assms have "map r_id (pipeline_runs (acc_store acc1)) = map r_id (pipeline_runs s0)"
    unfolding runTry_def Let_def by (auto dest: runBody_ids)
  then show ?thesis by (rule run_exists_ids)
qed

lemma getRunStatus_markRun:
  assumes "run_exists s rid"
  shows "\<exists>st. getRunStatus (markRun status s rid sm c) rid = Some st
            \<and> st_status st = status \<and> st_diagnostics st = sm"
proof -
  let ?upd = "\<lambda>r. if r_id r = rid
                  then r\<lparr> r_status := status, r_finished_at := Some c, r_summary_json := sm \<rparr>
                  else r"
  have "filter (\<lambda>r. r_id r = rid) (map ?upd (pipeline_runs s))
      = map ?upd (filter (\<lambda>r. r_id r = rid) (pipeline_runs s))"
    by (induction "pipeline_runs s") (simp_all add: filter_map comp_def)
  moreover from assms obtain r rs where
    f: "filter (\<lambda>r. r_id r = rid) (pipeline_runs s) = r # rs"
    by (cases "filter (\<lambda>r. r_id r = rid) (pipeline_runs s)")
       (auto simp: run_exists_def filter_empty_conv)
  moreover from f have "r \<in> set (filter (\<lambda>r. r_id r = rid) (pipeline_runs s))"
    by simp
  then have "r_id r = rid" by simp
  ultimately show ?thesis
    by (simp add: getRunStatus_def markRun_def)
qed

lemma persistFailure_recorded:
  assumes "run_exists (acc_store acc) rid"
  shows "\<exists>acc'. persistFailure e rid acc stage ref info = (acc', None)
           \<and> run_failures (acc_store acc')
               = run_failures (acc_store acc) @
                 [\<lparr> f_run_id = rid, f_step = stage, f_candidate_ref = ref,
                    f_error_type = info_errorType info, f_message = info_message info,
                    f_retryable = info_retryable info, f_created_at = now e \<rparr>]
           \<and> pipeline_runs (acc_store acc') = pipeline_runs (acc_store acc)"
  using assms by (simp add: persistFailure_def recordFailure_def Let_def)

lemma markRun_failures:
  "run_failures (markRun st s rid sm c) = run_failures s"
  by (simp add: markRun_def)

text \<open>
  The \<open>catch\<close> block, entered with a store that holds the run and an error that the
  classifier reads as \<open>info\<close>: it resolves; the failure is the last row of
  \<open>run_failures\<close> and the run is \<open>failed\<close> with the descriptor in its diagnostics.
\<close>

lemma runCatch_resolves:
  assumes "run_exists (acc_store acc) (ctx_runId ctx)"
    and info: "classifyRunError e err = Inr info"
  shows "\<exists>s' st d.
           runCatch e ctx acc err
             = (s', Inr \<lparr> out_runId = ctx_runId ctx, out_resumed = False,
                          out_status = Some st \<rparr>)
           \<and> getRunStatus s' (ctx_runId ctx) = Some st
           \<and> st_status st = ''failed'' \<and> st_diagnostics st = Some d
           \<and> d_failure d = Some \<lparr> fd_stage = error_stage err,
                                   fd_message = info_message info,
                                   fd_errorType = info_errorType info \<rparr>
           \<and> \<lparr> f_run_id = ctx_runId ctx, f_step = error_stage err, f_candidate_ref = None,
               f_error_type = info_errorType info,
               f_message = info_message info,
               f_retryable = info_retryable info,
               f_created_at = now e \<rparr> \<in> set (run_failures s')"
proof -
  from persistFailure_recorded [OF assms(1), of e "error_stage err" None info]
  obtain acc1 where
    pf: "persistFailure e (ctx_runId ctx) acc (error_stage err) None info = (acc1, None)"
    and rows: "run_failures (acc_store acc1)
               = run_failures (acc_store acc) @
                 [\<lparr> f_run_id = ctx_runId ctx, f_step = error_stage err,
                    f_candidate_ref = None,
                    f_error_type = info_errorType info, f_message = info_message info,
                    f_retryable = info_retryable info, f_created_at = now e \<rparr>]"
    and runs: "pipeline_runs (acc_store acc1) = pipeline_runs (acc_store acc)"
    by blast
  let ?d = "buildDiagnostics ctx acc1
              (Some \<lparr> fd_stage = error_stage err, fd_message = info_message info,
                      fd_errorType = info_errorType info \<rparr>)"
  let ?s' = "markRun ''failed'' (acc_store acc1) (ctx_runId ctx) (Some ?d) (now e)"
  from assms(1) runs have "run_exists (acc_store acc1) (ctx_runId ctx)"
    by (simp add: run_exists_def)
  from getRunStatus_markRun [OF this, of "''failed''" "Some ?d" "now e"]
  obtain st where st: "getRunStatus ?s' (ctx_runId ctx) = Some st"
      "st_status st = ''failed''" "st_diagnostics st = Some ?d"
    by blast
  have "runCatch e ctx acc err
          = (?s', Inr \<lparr> out_runId = ctx_runId ctx, out_resumed = False,
                        out_status = Some st \<rparr>)"
    using pf st(1) info by (simp add: runCatch_def Let_def markRunFailed_def)
  moreover have "d_failure ?d = Some \<lparr> fd_stage = error_stage err,
                                   fd_message = info_message info,
                                   fd_errorType = info_errorType info \<rparr>"
    by (simp add: buildDiagnostics_def)
  moreover have "\<lparr> f_run_id = ctx_runId ctx, f_step = error_stage err, f_candidate_ref = None,
               f_error_type = info_errorType info, f_message = info_message info,
               f_retryable = info_retryable info, f_created_at = now e \<rparr>
             \<in> set (run_failures ?s')"
    by (simp add: markRun_failures rows)
  ultimately show ?thesis
    using st by blast
qed

text \<open>
  The three ways out of \<open>run\<close> with a throw once \<open>beginRun\<close> has started a new run:
  the account resolver throws, the credential check throws, or the classifier throws in
  the \<open>catch\<close> block. The run then stays as the \<open>try\<close> block left it.
\<close>

lemma run_throws_from_resolver:
  assumes "beginRun s (runParams e recruiting input) (now e) (randomUUID e 0)
             = (s0, Inr (runId, False))"
    and "resolveLinkedInAccount e (ts_accountId (role_search (in_role input))) = Inl err"
  shows "run e recruiting input s = (s0, Inl err)"
  using assms by (simp add: run_def)

lemma run_throws_from_credentials:
  assumes "beginRun s (runParams e recruiting input) (now e) (randomUUID e 0)
             = (s0, Inr (runId, False))"
    and "resolveLinkedInAccount e (ts_accountId (role_search (in_role input))) = Inr account"
    and "getMissingCredentials e account = Inl err"
  shows "run e recruiting input s = (s0, Inl err)"
  using assms by (simp add: run_def)

lemma run_throws_from_classifier:
  assumes "beginRun s (runParams e recruiting input) (now e) (randomUUID e 0)
             = (s0, Inr (runId, False))"
    and "resolveLinkedInAccount e (ts_accountId (role_search (in_role input))) = Inr account"
    and "getMissingCredentials e account = Inr missing"
    and "runTry e recruiting input runId account missing s0 = (acc1, Some err)"
    and "classifyRunError e err = Inl thrownByClassifier"
  shows "run e recruiting input s = (acc_store acc1, Inl thrownByClassifier)"
  using assms by (simp add: run_def runCatch_def)

lemma taken_store_eval:
  "getRunStatus store_running ''run-1''
     = Some \<lparr> st_runId = ''run-1'', st_status = ''running'', st_startedAt = 1000,
              st_finishedAt = None, st_targetCandidates = Fin 300,
              st_roleKey = ''backend'', st_roleTitle = ''Backend Engineer'',
              st_diagnostics = None \<rparr>"
  by code_simp

text \<open>
  Claim C3 as stated fails: \<open>beginRun\<close> is called before the \<open>try\<close>, so what it
  throws reaches the caller. Here a first run \<open>run-1\<close> is in progress and a request
  asks for the same run id under another idempotency key: the \<open>INSERT\<close> breaks the
  primary key and \<open>run\<close> throws.
\<close>

theorem run_throws_when_beginRun_throws:
  "run quiet_env default_recruiting taken_id_input store_running
     = (store_running, Inl (unique_failed ''pipeline_runs.id''))"
  by code_simp

text \<open>
  Two more runs that throw. With an account resolver that throws, and with a search
  that fails while the error classifier throws on what it is given, \<open>run\<close> throws to
  its caller: the run stays \<open>running\<close> and no failure is recorded.
\<close>

lemma unresolved_run:
  "run unresolved_env default_recruiting backend_input empty_store
     = (fst (beginRun empty_store (runParams unresolved_env default_recruiting backend_input)
               (now unresolved_env) (randomUUID unresolved_env 0)),
        Inl account_failure)"
  "map r_status (pipeline_runs (fst (run unresolved_env default_recruiting backend_input
                                       empty_store))) = [''running'']"
  "run_failures (fst (run unresolved_env default_recruiting backend_input empty_store)) = []"
  by code_simp+

lemma opaque_run:
  "snd (run opaque_env default_recruiting backend_input empty_store) = Inl classifier_failure"
  "map r_status (pipeline_runs (fst (run opaque_env default_recruiting backend_input
                                       empty_store))) = [''running'']"
  "run_failures (fst (run opaque_env default_recruiting backend_input empty_store)) = []"
  by code_simp+

text \<open>
  A target that is \<open>NaN\<close> stays \<open>NaN\<close> under \<open>Math.trunc\<close> and \<open>Math.max\<close>; the
  \<open>INSERT\<close> of \<open>beginRun\<close> then breaks \<open>NOT NULL\<close> and \<open>run\<close> throws.
\<close>

lemma nan_target_run:
  "run quiet_env default_recruiting nan_target_input empty_store
     = (empty_store, Inl (not_null_failed ''pipeline_runs.target_candidates''))"
  by code_simp

text \<open>
  Claim C3, amended. For every input, store and behaviour of the collaborators: once
  \<open>beginRun\<close> has returned and, when the run is a new one, \<open>resolveLinkedInAccount\<close>
  and \<open>getMissingCredentials\<close> have returned and the classifier does not throw on the
  error that the \<open>try\<close> block throws, \<open>run\<close> resolves with the run id, the
  \<open>resumed\<close> flag and the status of the run, and does not throw. When the \<open>try\<close>
  block throws \<open>err\<close>, the error is classified, a \<open>run_failures\<close> row records it,
  and the run is marked \<open>failed\<close> with diagnostics that carry the failure descriptor.
\<close>

theorem run_resolves_once_begun:
  assumes begun: "beginRun s (runParams e recruiting input) (now e) (randomUUID e 0)
                    = (s0, Inr (runId, resumed))"
    and resolved: "\<not> resumed \<longrightarrow>
                     resolveLinkedInAccount e (ts_accountId (role_search (in_role input)))
                       = Inr account
                     \<and> getMissingCredentials e account = Inr missing"
    and classified: "\<forall>acc1 err. \<not> resumed \<longrightarrow>
                       runTry e recruiting input runId account missing s0 = (acc1, Some err)
                       \<longrightarrow> (\<exists>info. classifyRunError e err = Inr info)"
  shows "\<exists>s' res.
           run e recruiting input s = (s', Inr res)
           \<and> out_runId res = runId \<and> out_resumed res = resumed
           \<and> out_status res = getRunStatus s' runId
           \<and> (\<forall>acc1 err info.
                 \<not> resumed \<longrightarrow>
                 runTry e recruiting input runId account missing s0 = (acc1, Some err) \<longrightarrow>
                 classifyRunError e err = Inr info \<longrightarrow>
                 (\<exists>st d. out_status res = Some st \<and> st_status st = ''failed''
                          \<and> st_diagnostics st = Some d
                          \<and> d_failure d
                              = Some \<lparr> fd_stage = error_stage err,
                                       fd_message = info_message info,
                                       fd_errorType = info_errorType info \<rparr>)
                 \<and> \<lparr> f_run_id = runId, f_step = error_stage err, f_candidate_ref = None,
                     f_error_type = info_errorType info,
                     f_message = info_message info,
                     f_retryable = info_retryable info,
                     f_created_at = now e \<rparr> \<in> set (run_failures s'))"
proof (cases resumed)
  case True
  with begun have "run e recruiting input s
      = (s0, Inr \<lparr> out_runId = runId, out_resumed = True,
                   out_status = getRunStatus s0 runId \<rparr>)"
    by (simp add: run_def)
  with True show ?thesis by simp
next
  case False
  with resolved have
    account: "resolveLinkedInAccount e (ts_accountId (role_search (in_role input)))
                = Inr account"
    and missing: "getMissingCredentials e account = Inr missing"
    by simp_all
  obtain acc1 r where tried: "runTry e recruiting input runId account missing s0 = (acc1, r)"
    by (cases "runTry e recruiting input runId account missing s0")
  show ?thesis
  proof (cases r)
    case None
    with begun False account missing tried have "run e recruiting input s
        = (acc_store acc1, Inr \<lparr> out_runId = runId, out_resumed = False,
                                 out_status = getRunStatus (acc_store acc1) runId \<rparr>)"
      by (simp add: run_def)
    with False tried None show ?thesis by simp
  next
    case (Some err)
    from classified False tried Some obtain info where
      info: "classifyRunError e err = Inr info"
      by blast
    let ?ctx = "runContext e recruiting input runId account missing"
    have id: "ctx_runId ?ctx = runId"
      by (simp add: runContext_def Let_def)
    have "run_exists s0 runId"
      using begun by (rule beginRun_run_exists)
    then have "run_exists (acc_store acc1) (ctx_runId ?ctx)"
      by (simp add: id runTry_run_exists [OF tried])
    from runCatch_resolves [OF this info] id
    obtain s' st d where
      c: "runCatch e ?ctx acc1 err
            = (s', Inr \<lparr> out_runId = runId, out_resumed = False, out_status = Some st \<rparr>)"
      and st: "getRunStatus s' runId = Some st" "st_status st = ''failed''"
        "st_diagnostics st = Some d"
        "d_failure d = Some \<lparr> fd_stage = error_stage err,
                               fd_message = info_message info,
                               fd_errorType = info_errorType info \<rparr>"
      and row: "\<lparr> f_run_id = runId, f_step = error_stage err, f_candidate_ref = None,
                 f_error_type = info_errorType info,
                 f_message = info_message info,
                 f_retryable = info_retryable info,
                 f_created_at = now e \<rparr> \<in> set (run_failures s')"
      by auto
    from begun False account missing tried Some c have "run e recruiting input s
        = (s', Inr \<lparr> out_runId = runId, out_resumed = False, out_status = Some st \<rparr>)"
      by (simp add: run_def)
    with False tried Some st row info show ?thesis by simp
  qed
qed

lemma quiet_begun:
  "snd (beginRun empty_store (runParams quiet_env default_recruiting backend_input)
          (now quiet_env) (randomUUID quiet_env 0))
     = Inr (''run-2'', False)"
  by code_simp

lemma quiet_try:
  "snd (runTry quiet_env default_recruiting backend_input ''run-2'' quiet_account [''apiKey'']
          (fst (beginRun empty_store (runParams quiet_env default_recruiting backend_input)
                  (now quiet_env) (randomUUID quiet_env 0))))
     = Some (StageError ''linkedin_preflight''
               ''LinkedIn integration is disabled for the resolved account.'' ''auth'' False)"
  by code_simp

lemma quiet_classifier: "\<exists>info. classifyRunError quiet_env err = Inr info"
  by (cases err) (simp_all add: classifyRunError_def quiet_env_def)

theorem run_resolves_once_begun_witness:
  "\<exists>s' res st d.
     run quiet_env default_recruiting backend_input empty_store = (s', Inr res)
     \<and> out_runId res = ''run-2'' \<and> out_resumed res = False
     \<and> out_status res = Some st \<and> st_status st = ''failed'' \<and> st_diagnostics st = Some d
     \<and> d_failure d
         = Some \<lparr> fd_stage = ''linkedin_preflight'',
                  fd_message = ''LinkedIn integration is disabled for the resolved account.'',
                  fd_errorType = ''auth'' \<rparr>
     \<and> \<lparr> f_run_id = ''run-2'', f_step = ''linkedin_preflight'', f_candidate_ref = None,
         f_error_type = ''auth'',
         f_message = ''LinkedIn integration is disabled for the resolved account.'',
         f_retryable = False, f_created_at = 5000 \<rparr> \<in> set (run_failures s')"
proof -
  let ?s0 = "fst (beginRun empty_store (runParams quiet_env default_recruiting backend_input)
                    (now quiet_env) (randomUUID quiet_env 0))"
  let ?err = "StageError ''linkedin_preflight''
                ''LinkedIn integration is disabled for the resolved account.'' ''auth'' False"
  let ?info = "\<lparr> info_message = ''LinkedIn integration is disabled for the resolved account.'',
                 info_errorType = ''auth'', info_retryable = False \<rparr>"
  have begun: "beginRun empty_store (runParams quiet_env default_recruiting backend_input)
                 (now quiet_env) (randomUUID quiet_env 0) = (?s0, Inr (''run-2'', False))"
    using quiet_begun by (simp add: prod_eq_iff)
  have resolved: "\<not> False \<longrightarrow>
      resolveLinkedInAccount quiet_env (ts_accountId (role_search (in_role backend_input)))
        = Inr quiet_account
      \<and> getMissingCredentials quiet_env quiet_account = Inr [''apiKey'']"
    by (simp add: quiet_env_def)
  have classified: "\<forall>acc1 err. \<not> False \<longrightarrow>
      runTry quiet_env default_recruiting backend_input ''run-2'' quiet_account [''apiKey''] ?s0
        = (acc1, Some err)
      \<longrightarrow> (\<exists>info. classifyRunError quiet_env err = Inr info)"
    using quiet_classifier by blast
  have tried: "runTry quiet_env default_recruiting backend_input ''run-2'' quiet_account
                 [''apiKey''] ?s0
                 = (fst (runTry quiet_env default_recruiting backend_input ''run-2''
                           quiet_account [''apiKey''] ?s0),
                    Some ?err)"
    using quiet_try by (simp add: prod_eq_iff)
  have info: "classifyRunError quiet_env ?err = Inr ?info"
    by (simp add: classifyRunError_def)
  have facts: "error_stage ?err = ''linkedin_preflight''"
    "info_message ?info = ''LinkedIn integration is disabled for the resolved account.''"
    "info_errorType ?info = ''auth''" "info_retryable ?info = False"
    "now quiet_env = 5000"
    by (simp_all add: error_stage_def quiet_env_def)
  from run_resolves_once_begun [OF begun resolved classified] obtain s' res where
    r: "run quiet_env default_recruiting backend_input empty_store = (s', Inr res)"
      "out_runId res = ''run-2''" "out_resumed res = False"
    and caught: "\<And>acc1 err info.
        runTry quiet_env default_recruiting backend_input ''run-2'' quiet_account [''apiKey'']
          ?s0 = (acc1, Some err) \<Longrightarrow>
        classifyRunError quiet_env err = Inr info \<Longrightarrow>
        (\<exists>st d. out_status res = Some st \<and> st_status st = ''failed''
                 \<and> st_diagnostics st = Some d
                 \<and> d_failure d
                     = Some \<lparr> fd_stage = error_stage err,
                              fd_message = info_message info,
                              fd_errorType = info_errorType info \<rparr>)
        \<and> \<lparr> f_run_id = ''run-2'', f_step = error_stage err, f_candidate_ref = None,
            f_error_type = info_errorType info,
            f_message = info_message info,
            f_retryable = info_retryable info,
            f_created_at = now quiet_env \<rparr> \<in> set (run_failures s')"
    by blast
  from caught [OF tried info] r show ?thesis
    unfolding facts by blast
qed

section \<open>Properties of the review workflow\<close>

lemma first_row_None: "first_row xs = None \<longleftrightarrow> xs = []"
  by (cases xs) auto

lemma order_by_Nil: "order_by le xs = [] \<longleftrightarrow> xs = []"
proof -
  have "length (order_by le xs) = length xs" by simp
  then show ?thesis by (metis length_0_conv)
qed

lemma getPromotion_None: "getPromotion s cid rid = None \<longleftrightarrow> \<not> promoted_before s cid rid"
  by (auto simp: getPromotion_def promoted_before_def first_row_None order_by_Nil
        filter_empty_conv)

subsection \<open>The review upsert\<close>

lemma filter_map_same:
  "(\<And>a. P (f a) = P a) \<Longrightarrow> filter P (map f xs) = map f (filter P xs)"
  by (induction xs) auto

lemma upsertReviewStatus_succeeds:
  assumes "candidate_exists s cid" and "run_exists s rid"
  shows "\<exists>s'. upsertReviewStatus s cid rid st pr n ub c = Inr s'"
  using assms by (simp add: upsertReviewStatus_def)

lemma upsertReviewStatus_frame:
  assumes "upsertReviewStatus s cid rid st pr n ub c = Inr s'"
  shows "s'\<lparr>candidate_reviews := candidate_reviews s\<rparr> = s"
  using assms by (auto simp: upsertReviewStatus_def split: if_splits)

lemma upsertReviewStatus_sets:
  assumes "upsertReviewStatus s cid rid st pr n ub c = Inr s'"
  shows "\<exists>rv. getReviewStatus s' cid rid = Some rv \<and> rv_status rv = st \<and> rv_notes rv = n"
proof (cases "(cid, rid) \<in> (\<lambda>r. (rv_candidate_id r, rv_run_id r)) ` set (candidate_reviews s)")
  case True
  let ?upd = "\<lambda>r. if rv_candidate_id r = cid \<and> rv_run_id r = rid
                  then r\<lparr> rv_status := st,
                          rv_priority := (case pr of Some p \<Rightarrow> p | None \<Rightarrow> 0),
                          rv_notes := n, rv_updated_by := ub, rv_updated_at := c \<rparr>
                  else r"
  let ?key = "\<lambda>r. rv_candidate_id r = cid \<and> rv_run_id r = rid"
  from assms True have s': "candidate_reviews s' = map ?upd (candidate_reviews s)"
    by (auto simp: upsertReviewStatus_def)
  have "filter ?key (map ?upd (candidate_reviews s))
      = map ?upd (filter ?key (candidate_reviews s))"
    by (rule filter_map_same) simp
  moreover from True obtain r rs where f: "filter ?key (candidate_reviews s) = r # rs"
    by (cases "filter ?key (candidate_reviews s)") (auto simp: filter_empty_conv)
  moreover from f have "r \<in> set (filter ?key (candidate_reviews s))"
    by simp
  then have "?key r" by simp
  ultimately show ?thesis
    by (simp add: getReviewStatus_def s')
next
  case False
  then have "filter (\<lambda>r. rv_candidate_id r = cid \<and> rv_run_id r = rid) (candidate_reviews s) = []"
    by (force simp: filter_empty_conv)
  with assms False show ?thesis
    by (auto simp: upsertReviewStatus_def getReviewStatus_def split: if_splits)
qed

lemma upsertReviewStatus_others:
  assumes "upsertReviewStatus s cid rid st pr n ub c = Inr s'"
    and "(rv_candidate_id r, rv_run_id r) \<noteq> (cid, rid)"
  shows "r \<in> set (candidate_reviews s') \<longleftrightarrow> r \<in> set (candidate_reviews s)"
  using assms by (auto simp: upsertReviewStatus_def image_iff split: if_splits)

subsection \<open>\<open>promoteCandidate\<close>\<close>

text \<open>
  Claim C7 as stated fails: with enough proof links and no earlier promotion the call
  does not always insert and return \<open>{success: true}\<close>. For a candidate id that the
  store does not hold, the \<open>INSERT\<close> breaks its foreign key: the call throws and writes
  nothing.
\<close>

theorem promoteCandidate_unknown_candidate_throws:
  "\<not> of_nat (length (pp_evidenceLinks promote_ghost)) < minProofLinks default_recruiting
   \<and> getPromotion store_scored (pp_candidateId promote_ghost) (pp_runId promote_ghost) = None
   \<and> promoteCandidate render_number default_recruiting store_scored promote_ghost 8000
       = (store_scored, Inl fk_failed)"
  by code_simp

text \<open>
  Claim C7, amended. With fewer than \<open>minProofLinks\<close> proof links, or with a promotion
  already recorded for the pair, the call returns \<open>{success: false, error}\<close> and leaves
  the store as it is. Otherwise, when the store holds the candidate and the run, it
  appends one promotion row, leaves the review of the pair in status
  \<open>promoted_shortlist\<close>, touches no other review and no other table, and returns
  \<open>{success: true}\<close>. Otherwise it throws and leaves the store as it is.
\<close>

theorem promoteCandidate_outcomes:
  "(of_nat (length (pp_evidenceLinks params)) < minProofLinks recruiting
      \<or> promoted_before s (pp_candidateId params) (pp_runId params)
    \<longrightarrow> (\<exists>msg. promoteCandidate fmt recruiting s params clock
                 = (s, Inr \<lparr> success = False, error = Some msg \<rparr>)))
   \<and> (\<not> of_nat (length (pp_evidenceLinks params)) < minProofLinks recruiting
      \<and> \<not> promoted_before s (pp_candidateId params) (pp_runId params)
      \<and> candidate_exists s (pp_candidateId params) \<and> run_exists s (pp_runId params)
    \<longrightarrow> (\<exists>s' rv. promoteCandidate fmt recruiting s params clock
                    = (s', Inr \<lparr> success = True, error = None \<rparr>)
          \<and> candidate_promotions s' = candidate_promotions s @ [promotion_of params clock]
          \<and> getReviewStatus s' (pp_candidateId params) (pp_runId params) = Some rv
          \<and> rv_status rv = ''promoted_shortlist''
          \<and> (\<forall>r. (rv_candidate_id r, rv_run_id r) \<noteq> (pp_candidateId params, pp_runId params)
                \<longrightarrow> (r \<in> set (candidate_reviews s') \<longleftrightarrow> r \<in> set (candidate_reviews s)))
          \<and> s'\<lparr> candidate_reviews := candidate_reviews s,
                 candidate_promotions := candidate_promotions s \<rparr> = s))
   \<and> (\<not> of_nat (length (pp_evidenceLinks params)) < minProofLinks recruiting
      \<and> \<not> promoted_before s (pp_candidateId params) (pp_runId params)
      \<and> \<not> (candidate_exists s (pp_candidateId params) \<and> run_exists s (pp_runId params))
    \<longrightarrow> promoteCandidate fmt recruiting s params clock = (s, Inl fk_failed))"
proof (intro conjI impI)
  assume "of_nat (length (pp_evidenceLinks params)) < minProofLinks recruiting
          \<or> promoted_before s (pp_candidateId params) (pp_runId params)"
  then show "\<exists>msg. promoteCandidate fmt recruiting s params clock
                 = (s, Inr \<lparr> success = False, error = Some msg \<rparr>)"
    using getPromotion_None [of s "pp_candidateId params" "pp_runId params"]
    by (auto simp: promoteCandidate_def split: option.splits)
next
  assume a: "\<not> of_nat (length (pp_evidenceLinks params)) < minProofLinks recruiting
      \<and> \<not> promoted_before s (pp_candidateId params) (pp_runId params)
      \<and> candidate_exists s (pp_candidateId params) \<and> run_exists s (pp_runId params)"
  let ?cid = "pp_candidateId params" and ?rid = "pp_runId params"
  let ?row = "promotion_of params clock"
  let ?s1 = "s\<lparr>candidate_promotions := candidate_promotions s @ [?row]\<rparr>"
  have row: "pr_candidate_id ?row = ?cid" "pr_run_id ?row = ?rid" "pr_promoted_by ?row = None"
    by (simp_all add: promotion_of_def)
  from a have "candidate_exists ?s1 ?cid" "run_exists ?s1 ?rid"
    by (simp_all add: candidate_exists_def run_exists_def)
  from upsertReviewStatus_succeeds [OF this]
  obtain s' where up: "upsertReviewStatus ?s1 ?cid ?rid ''promoted_shortlist'' None None None clock
                         = Inr s'"
    by blast
  from a up have "store_promoteCandidate s ?row clock = (s', None)"
    by (simp add: store_promoteCandidate_def row Let_def)
  with a have call: "promoteCandidate fmt recruiting s params clock
                       = (s', Inr \<lparr> success = True, error = None \<rparr>)"
    using getPromotion_None [of s ?cid ?rid] by (simp add: promoteCandidate_def)
  from upsertReviewStatus_frame [OF up]
  have frame: "s'\<lparr>candidate_reviews := candidate_reviews ?s1\<rparr> = ?s1" .
  then have "candidate_promotions (s'\<lparr>candidate_reviews := candidate_reviews ?s1\<rparr>)
               = candidate_promotions ?s1"
    by (rule arg_cong)
  then have proms: "candidate_promotions s' = candidate_promotions s @ [?row]"
    by simp
  from frame have "(s'\<lparr>candidate_reviews := candidate_reviews ?s1\<rparr>)
                     \<lparr>candidate_promotions := candidate_promotions s\<rparr>
                   = ?s1\<lparr>candidate_promotions := candidate_promotions s\<rparr>"
    by (rule arg_cong)
  then have rest: "s'\<lparr> candidate_reviews := candidate_reviews s,
                       candidate_promotions := candidate_promotions s \<rparr> = s"
    by simp
  from upsertReviewStatus_sets [OF up] obtain rv where
    rv: "getReviewStatus s' ?cid ?rid = Some rv" "rv_status rv = ''promoted_shortlist''"
    by blast
  have others: "\<forall>r. (rv_candidate_id r, rv_run_id r) \<noteq> (?cid, ?rid)
                \<longrightarrow> (r \<in> set (candidate_reviews s') \<longleftrightarrow> r \<in> set (candidate_reviews s))"
    using upsertReviewStatus_others [OF up] by simp
  from call proms rv others rest
  show "\<exists>s' rv. promoteCandidate fmt recruiting s params clock
                    = (s', Inr \<lparr> success = True, error = None \<rparr>)
          \<and> candidate_promotions s' = candidate_promotions s @ [promotion_of params clock]
          \<and> getReviewStatus s' ?cid ?rid = Some rv
          \<and> rv_status rv = ''promoted_shortlist''
          \<and> (\<forall>r. (rv_candidate_id r, rv_run_id r) \<noteq> (?cid, ?rid)
                \<longrightarrow> (r \<in> set (candidate_reviews s') \<longleftrightarrow> r \<in> set (candidate_reviews s)))
          \<and> s'\<lparr> candidate_reviews := candidate_reviews s,
                 candidate_promotions := candidate_promotions s \<rparr> = s"
    by blast
next
  assume a: "\<not> of_nat (length (pp_evidenceLinks params)) < minProofLinks recruiting
      \<and> \<not> promoted_before s (pp_candidateId params) (pp_runId params)
      \<and> \<not> (candidate_exists s (pp_candidateId params) \<and> run_exists s (pp_runId params))"
  then have "store_promoteCandidate s (promotion_of params clock) clock = (s, Some fk_failed)"
    by (auto simp: store_promoteCandidate_def promotion_of_def)
  with a show "promoteCandidate fmt recruiting s params clock = (s, Inl fk_failed)"
    using getPromotion_None [of s "pp_candidateId params" "pp_runId params"]
    by (simp add: promoteCandidate_def)
qed

lemma carol_promotable:
  "\<not> of_nat (length (pp_evidenceLinks promote_carol)) < minProofLinks default_recruiting
   \<and> \<not> promoted_before store_scored (pp_candidateId promote_carol) (pp_runId promote_carol)
   \<and> candidate_exists store_scored (pp_candidateId promote_carol)
   \<and> run_exists store_scored (pp_runId promote_carol)"
proof -
  have "getPromotion store_scored (pp_candidateId promote_carol) (pp_runId promote_carol) = None"
    by code_simp
  moreover have "\<not> of_nat (length (pp_evidenceLinks promote_carol)) < minProofLinks default_recruiting"
    by code_simp
  moreover have "list_ex (\<lambda>c. c_id c = pp_candidateId promote_carol) (candidates store_scored)"
    by code_simp
  then have "candidate_exists store_scored (pp_candidateId promote_carol)"
    unfolding candidate_exists_def by (force simp: list_ex_iff)
  moreover have "list_ex (\<lambda>r. r_id r = pp_runId promote_carol) (pipeline_runs store_scored)"
    by code_simp
  then have "run_exists store_scored (pp_runId promote_carol)"
    unfolding run_exists_def by (force simp: list_ex_iff)
  ultimately show ?thesis
    by (simp add: getPromotion_None)
qed

lemma single_link_refused:
  "of_nat (length (pp_evidenceLinks (promote_carol\<lparr>pp_evidenceLinks := [''a'']\<rparr>)))
     < minProofLinks default_recruiting"
  by code_simp

lemma ghost_unknown:
  "\<not> of_nat (length (pp_evidenceLinks promote_ghost)) < minProofLinks default_recruiting
   \<and> \<not> promoted_before store_scored (pp_candidateId promote_ghost) (pp_runId promote_ghost)
   \<and> \<not> (candidate_exists store_scored (pp_candidateId promote_ghost)
          \<and> run_exists store_scored (pp_runId promote_ghost))"
proof -
  have "getPromotion store_scored (pp_candidateId promote_ghost) (pp_runId promote_ghost) = None"
    by code_simp
  moreover have "\<not> of_nat (length (pp_evidenceLinks promote_ghost)) < minProofLinks default_recruiting"
    by code_simp
  moreover have "\<not> list_ex (\<lambda>c. c_id c = pp_candidateId promote_ghost) (candidates store_scored)"
    by code_simp
  then have "\<not> candidate_exists store_scored (pp_candidateId promote_ghost)"
    unfolding candidate_exists_def by (force simp: list_ex_iff)
  ultimately show ?thesis
    by (simp add: getPromotion_None)
qed

theorem promoteCandidate_outcomes_witness:
  "(\<exists>msg. promoteCandidate render_number default_recruiting store_scored
             (promote_carol\<lparr>pp_evidenceLinks := [''a'']\<rparr>) 8000
           = (store_scored, Inr \<lparr> success = False, error = Some msg \<rparr>))
   \<and> (\<exists>s' rv. promoteCandidate render_number default_recruiting store_scored promote_carol 8000
                 = (s', Inr \<lparr> success = True, error = None \<rparr>)
        \<and> candidate_promotions s'
            = candidate_promotions store_scored @ [promotion_of promote_carol 8000]
        \<and> getReviewStatus s' (pp_candidateId promote_carol) (pp_runId promote_carol) = Some rv
        \<and> rv_status rv = ''promoted_shortlist'')
   \<and> promoteCandidate render_number default_recruiting store_scored promote_ghost 8000
       = (store_scored, Inl fk_failed)"
  using promoteCandidate_outcomes
          [of "promote_carol\<lparr>pp_evidenceLinks := [''a'']\<rparr>" default_recruiting store_scored
              render_number 8000]
        promoteCandidate_outcomes [of promote_carol default_recruiting store_scored
              render_number 8000]
        promoteCandidate_outcomes [of promote_ghost default_recruiting store_scored
              render_number 8000]
        single_link_refused carol_promotable ghost_unknown
  by blast

subsection \<open>\<open>submitVerification\<close>\<close>











subsection \<open>\<open>getResults\<close>\<close>













































end
